theory Spec2Isabelle
  imports Complex_Main
begin

section \<open>Exceptions\<close>

text \<open>
  Every \<^verbatim>\<open>raise\<close> of the source and every exception the interpreter or NumPy raises on the
  modelled paths is a value. The message is \<open>Some m\<close> when the source builds it itself and
  \<open>None\<close> when Python or NumPy words it. The last constructor is no exception: Python's
  \<^verbatim>\<open>**\<close> on two Python numbers gives a complex number for a negative base and a fractional
  exponent. The model has no complex numbers: an evaluation that reaches one ends with
  \<open>ComplexNumber\<close>, and what the code goes on to compute from it is not modelled.
\<close>

datatype error =
    IndexError "string option"
  | ValueError "string option"
  | TypeError
  | AttributeError
  | KeyError
  | ZeroDivisionError
  | OverflowError
  | ComplexNumber

section \<open>Stability classification (GPFunctions.py)\<close>

text \<open>
  The values the two conversion functions receive and return: a Python \<^verbatim>\<open>int\<close>, a NumPy
  integer array or a list of integers for the index; a Python \<^verbatim>\<open>str\<close>, a NumPy string scalar
  (\<^verbatim>\<open>numpy.str_\<close>, what indexing a string array with one integer gives), a NumPy string array
  or a list of strings for the class.
\<close>

datatype index_arg = PyInt int | IntArray "int list" | IntList "int list"

datatype class_arg = PyStr string | NpStr string | StrArray "string list" | StrList "string list"

definition stability_classes :: "string list" where
  "stability_classes = [''A'', ''B'', ''C'', ''D'', ''E'', ''F'']"

text \<open>\<^verbatim>\<open>str.upper()\<close> and \<^verbatim>\<open>str.lower()\<close> on ASCII strings.\<close>

definition char_upper :: "char \<Rightarrow> char" where
  "char_upper c =
     (let n = (of_char c :: nat) in if 97 \<le> n \<and> n \<le> 122 then char_of (n - 32) else c)"

definition char_lower :: "char \<Rightarrow> char" where
  "char_lower c =
     (let n = (of_char c :: nat) in if 65 \<le> n \<and> n \<le> 90 then char_of (n + 32) else c)"

definition upper :: "string \<Rightarrow> string" where
  "upper s = map char_upper s"

definition lower :: "string \<Rightarrow> string" where
  "lower s = map char_lower s"

text \<open>The format \<^verbatim>\<open>{:d}\<close>: an integer in decimal.\<close>

fun digits :: "nat \<Rightarrow> string" where
  "digits n =
     (if n < 10 then [char_of (48 + n)] else digits (n div 10) @ [char_of (48 + n mod 10)])"

declare digits.simps [simp del]

definition format_d :: "int \<Rightarrow> string" where
  "format_d i = (if i < 0 then CHR ''-'' # digits (nat (- i)) else digits (nat i))"

text \<open>
  \<^verbatim>\<open>stability_index2class\<close>. A Python int is tested with \<^verbatim>\<open>not in range(6)\<close>, anything else
  with \<^verbatim>\<open>numpy.any(stability_index < 0) or numpy.any(stability_index > 5)\<close>; comparing a list
  with an integer is a \<^verbatim>\<open>TypeError\<close>. After the test the index is in range, so
  \<^verbatim>\<open>stability_classes[stability_index]\<close> is a plain read.
\<close>

definition stability_index2class :: "index_arg \<Rightarrow> error + class_arg" where
  "stability_index2class stability_index =
     (case stability_index of
        PyInt i \<Rightarrow>
          if \<not> (0 \<le> i \<and> i < 6) then
            Inl (IndexError (Some (''stability_index is '' @ format_d i @
              '', which is out of range, it has to be 0, 1, 2, 3, 4, or 5.'')))
          else Inr (NpStr (stability_classes ! nat i))
      | IntArray js \<Rightarrow>
          if list_ex (\<lambda>j. j < 0) js \<or> list_ex (\<lambda>j. j > 5) js then
            Inl (IndexError (Some
              ''stability_index is out of range, it has to be 0, 1, 2, 3, 4, or 5.''))
          else Inr (StrArray (map (\<lambda>j. stability_classes ! nat j) js))
      | IntList js \<Rightarrow> Inl TypeError)"

text \<open>
  The pieces of the array branch of \<^verbatim>\<open>stability_class2index\<close>: \<^verbatim>\<open>len(stability_class)\<close>,
  \<^verbatim>\<open>numpy.where(stability_class == sc)[0]\<close> and \<^verbatim>\<open>stability_class[ii]\<close>. A string scalar has
  the length of its text, compares as a whole (NumPy 1.x reads the 0-d truth value as the
  one-element array, so \<^verbatim>\<open>where\<close> gives \<^verbatim>\<open>[0]\<close> or nothing) and is indexed by character.
\<close>

fun class_len :: "class_arg \<Rightarrow> nat" where
  "class_len (PyStr s) = length s"
| "class_len (NpStr s) = length s"
| "class_len (StrArray xs) = length xs"
| "class_len (StrList xs) = length xs"

fun class_where :: "class_arg \<Rightarrow> string \<Rightarrow> nat list" where
  "class_where (PyStr s) sc = (if s = sc then [0] else [])"
| "class_where (NpStr s) sc = (if s = sc then [0] else [])"
| "class_where (StrArray xs) sc = filter (\<lambda>k. xs ! k = sc) [0..<length xs]"
| "class_where (StrList xs) sc = []"

fun class_item :: "class_arg \<Rightarrow> nat \<Rightarrow> string" where
  "class_item (PyStr s) k = [s ! k]"
| "class_item (NpStr s) k = [s ! k]"
| "class_item (StrArray xs) k = xs ! k"
| "class_item (StrList xs) k = xs ! k"

text \<open>\<^verbatim>\<open>idx[i] = v\<close> for an index array \<open>i\<close> whose entries are all in range.\<close>

definition assign_at :: "'a list \<Rightarrow> nat list \<Rightarrow> 'a \<Rightarrow> 'a list" where
  "assign_at a i v = fold (\<lambda>k b. b[k := v]) i a"

text \<open>One round of the loop \<^verbatim>\<open>for sc_i, sc in enumerate(stability_classes)\<close>.\<close>

definition class_step :: "class_arg \<Rightarrow> int list \<Rightarrow> nat \<times> string \<Rightarrow> int list" where
  "class_step stability_class idx p =
     (let sc_i = fst p; sc = snd p;
          i = class_where stability_class sc;
          idx1 = (if length i > 0 then assign_at idx i (int sc_i) else idx);
          i' = class_where stability_class (lower sc);
          idx2 = (if length i' > 0 then assign_at idx1 i' (int sc_i) else idx1)
      in idx2)"

definition class2index_array :: "class_arg \<Rightarrow> error + index_arg" where
  "class2index_array stability_class =
     (let idx0 = replicate (class_len stability_class) (- 1 :: int);
          idx = foldl (class_step stability_class) idx0 (enumerate 0 stability_classes)
      in if list_ex (\<lambda>j. j = - 1) idx then
           (let idx_invalid = filter (\<lambda>k. idx ! k = - 1) [0..<length idx]
            in if length idx_invalid < 3 then
                 Inl (ValueError (Some
                   (foldl (\<lambda>s ii. s @ '' '' @ class_item stability_class ii)
                      ''Invalid inputs for stability_class:'' idx_invalid)))
               else
                 Inl (ValueError (Some
                   (format_d (int (length idx_invalid)) @
                      '' invalid inputs for stability_class''))))
         else Inr (IntArray idx))"

text \<open>
  \<^verbatim>\<open>stability_class2index\<close>. Only \<^verbatim>\<open>type(stability_class) == str\<close> takes the first branch;
  there \<^verbatim>\<open>numpy.where(stability_class.upper() == stability_classes)[0]\<close> is an index array,
  and it is what the function returns. A list is turned into an array first.
\<close>

definition stability_class2index :: "class_arg \<Rightarrow> error + index_arg" where
  "stability_class2index stability_class =
     (case stability_class of
        PyStr s \<Rightarrow>
          (let idx = filter (\<lambda>k. upper s = stability_classes ! k)
                       [0..<length stability_classes]
           in if length idx = 0 then
                Inl (ValueError (Some (''stability_class '' @ s @ '' does not exist'')))
              else Inr (IntArray (map int idx)))
      | StrList xs \<Rightarrow> class2index_array (StrArray xs)
      | NpStr s \<Rightarrow> class2index_array (NpStr s)
      | StrArray xs \<Rightarrow> class2index_array (StrArray xs))"

text \<open>
  Sequencing of two calls that can raise: the second runs on the value the first returns,
  and an exception of the first propagates.
\<close>

definition bindE :: "error + 'a \<Rightarrow> ('a \<Rightarrow> error + 'b) \<Rightarrow> error + 'b" where
  "bindE m f = (case m of Inl e \<Rightarrow> Inl e | Inr v \<Rightarrow> f v)"

text \<open>
  Vocabulary for the statements about the class letters: the twelve accepted spellings, the
  index each stands for, the entries of an array that are none of them, and the message the
  array branch builds from those.
\<close>

definition class_letters :: "string set" where
  "class_letters =
     {''A'', ''B'', ''C'', ''D'', ''E'', ''F'', ''a'', ''b'', ''c'', ''d'', ''e'', ''f''}"

definition class_code :: "string \<Rightarrow> int" where
  "class_code x =
     (if x = ''F'' \<or> x = ''f'' then 5 else if x = ''E'' \<or> x = ''e'' then 4
      else if x = ''D'' \<or> x = ''d'' then 3 else if x = ''C'' \<or> x = ''c'' then 2
      else if x = ''B'' \<or> x = ''b'' then 1 else if x = ''A'' \<or> x = ''a'' then 0 else - 1)"



section \<open>Numbers and arrays\<close>

text \<open>
  A double (a Python \<^verbatim>\<open>float\<close>, a NumPy \<^verbatim>\<open>float64\<close>) is a finite number, one of the two
  infinities, or not-a-number. The model keeps these four kinds and the rules by which the
  special values arise and propagate, and computes on finite values in the reals: rounding,
  the sign of zero and the overflow of a finite result to an infinity are not represented (a
  division of a nonzero number by zero in NumPy takes the sign of the numerator). Equality of
  two modelled values is equality of what they denote, so \<open>NaN = NaN\<close> here, where Python's
  \<^verbatim>\<open>==\<close> on two not-a-numbers is false.
\<close>

datatype npfloat = Fin real | PInf | MInf | NaN

text \<open>The product of an infinity with a finite number, by the sign of the latter.\<close>

definition signed_inf :: "real \<Rightarrow> npfloat" where
  "signed_inf x = (if x = 0 then NaN else if 0 < x then PInf else MInf)"

instantiation npfloat :: "{uminus, plus, times, divide, ord}"
begin

fun uminus_npfloat :: "npfloat \<Rightarrow> npfloat" where
  "uminus_npfloat (Fin x) = Fin (- x)"
| "uminus_npfloat PInf = MInf"
| "uminus_npfloat MInf = PInf"
| "uminus_npfloat NaN = NaN"

fun plus_npfloat :: "npfloat \<Rightarrow> npfloat \<Rightarrow> npfloat" where
  "plus_npfloat (Fin x) (Fin y) = Fin (x + y)"
| "plus_npfloat NaN b = NaN"
| "plus_npfloat a NaN = NaN"
| "plus_npfloat PInf MInf = NaN"
| "plus_npfloat MInf PInf = NaN"
| "plus_npfloat PInf b = PInf"
| "plus_npfloat a PInf = PInf"
| "plus_npfloat MInf b = MInf"
| "plus_npfloat a MInf = MInf"

fun times_npfloat :: "npfloat \<Rightarrow> npfloat \<Rightarrow> npfloat" where
  "times_npfloat (Fin x) (Fin y) = Fin (x * y)"
| "times_npfloat NaN b = NaN"
| "times_npfloat a NaN = NaN"
| "times_npfloat (Fin x) PInf = signed_inf x"
| "times_npfloat (Fin x) MInf = signed_inf (- x)"
| "times_npfloat PInf (Fin y) = signed_inf y"
| "times_npfloat MInf (Fin y) = signed_inf (- y)"
| "times_npfloat PInf PInf = PInf"
| "times_npfloat PInf MInf = MInf"
| "times_npfloat MInf PInf = MInf"
| "times_npfloat MInf MInf = PInf"

fun divide_npfloat :: "npfloat \<Rightarrow> npfloat \<Rightarrow> npfloat" where
  "divide_npfloat (Fin x) (Fin y) = (if y = 0 then signed_inf x else Fin (x / y))"
| "divide_npfloat NaN b = NaN"
| "divide_npfloat a NaN = NaN"
| "divide_npfloat (Fin x) b = Fin 0"
| "divide_npfloat PInf (Fin y) = (if y < 0 then MInf else PInf)"
| "divide_npfloat MInf (Fin y) = (if y < 0 then PInf else MInf)"
| "divide_npfloat a b = NaN"

fun less_npfloat :: "npfloat \<Rightarrow> npfloat \<Rightarrow> bool" where
  "less_npfloat (Fin x) (Fin y) = (x < y)"
| "less_npfloat NaN b = False"
| "less_npfloat a NaN = False"
| "less_npfloat a MInf = False"
| "less_npfloat PInf b = False"
| "less_npfloat MInf b = True"
| "less_npfloat a PInf = True"

fun less_eq_npfloat :: "npfloat \<Rightarrow> npfloat \<Rightarrow> bool" where
  "less_eq_npfloat (Fin x) (Fin y) = (x \<le> y)"
| "less_eq_npfloat NaN b = False"
| "less_eq_npfloat a NaN = False"
| "less_eq_npfloat MInf b = True"
| "less_eq_npfloat a PInf = True"
| "less_eq_npfloat a b = False"

instance ..

end

instantiation npfloat :: "{minus, inverse}"
begin

definition minus_npfloat :: "npfloat \<Rightarrow> npfloat \<Rightarrow> npfloat" where
  "minus_npfloat a b = a + (- b)"

definition inverse_npfloat :: "npfloat \<Rightarrow> npfloat" where
  "inverse_npfloat a = divide (Fin 1) a"

instance ..

end

text \<open>
  NumPy's \<^verbatim>\<open>**\<close> on doubles (C's \<^verbatim>\<open>pow\<close>): anything to the power zero is one, one to any
  power is one, a negative finite base has a power only for a whole exponent and gives
  not-a-number otherwise, zero to a negative power is infinite.
\<close>

definition whole :: "real \<Rightarrow> bool" where
  "whole y = (y = of_int \<lfloor>y\<rfloor>)"

fun np_pow :: "npfloat \<Rightarrow> npfloat \<Rightarrow> npfloat" where
  "np_pow x (Fin y) =
     (if y = 0 then Fin 1
      else (case x of
          NaN \<Rightarrow> NaN
        | Fin a \<Rightarrow>
            if 0 < a then Fin (a powr y)
            else if a = 0 then (if 0 < y then Fin 0 else PInf)
            else if whole y then Fin (a powi \<lfloor>y\<rfloor>) else NaN
        | PInf \<Rightarrow> if 0 < y then PInf else Fin 0
        | MInf \<Rightarrow> if 0 < y then (if whole y \<and> odd \<lfloor>y\<rfloor> then MInf else PInf) else Fin 0))"
| "np_pow x PInf =
     (case x of
        NaN \<Rightarrow> NaN
      | Fin a \<Rightarrow> if \<bar>a\<bar> = 1 then Fin 1 else if \<bar>a\<bar> < 1 then Fin 0 else PInf
      | PInf \<Rightarrow> PInf
      | MInf \<Rightarrow> PInf)"
| "np_pow x MInf =
     (case x of
        NaN \<Rightarrow> NaN
      | Fin a \<Rightarrow> if \<bar>a\<bar> = 1 then Fin 1 else if \<bar>a\<bar> < 1 then PInf else Fin 0
      | PInf \<Rightarrow> Fin 0
      | MInf \<Rightarrow> Fin 0)"
| "np_pow x NaN = (if x = Fin 1 then Fin 1 else NaN)"

declare np_pow.simps [simp del]

fun np_exp :: "npfloat \<Rightarrow> npfloat" where
  "np_exp (Fin x) = Fin (exp x)"
| "np_exp PInf = PInf"
| "np_exp MInf = Fin 0"
| "np_exp NaN = NaN"

fun np_sin :: "npfloat \<Rightarrow> npfloat" where
  "np_sin (Fin x) = Fin (sin x)"
| "np_sin a = NaN"

fun np_cos :: "npfloat \<Rightarrow> npfloat" where
  "np_cos (Fin x) = Fin (cos x)"
| "np_cos a = NaN"

fun np_sqrt :: "npfloat \<Rightarrow> npfloat" where
  "np_sqrt (Fin x) = (if x < 0 then NaN else Fin (sqrt x))"
| "np_sqrt PInf = PInf"
| "np_sqrt a = NaN"

text \<open>
  Python's own arithmetic on two \<^verbatim>\<open>float\<close>s differs from NumPy's in what it raises. \<^verbatim>\<open>+\<close>,
  \<^verbatim>\<open>-\<close> and \<^verbatim>\<open>*\<close> never raise. \<^verbatim>\<open>/\<close> raises \<^verbatim>\<open>ZeroDivisionError\<close> for a divisor zero.
  \<^verbatim>\<open>**\<close> (\<^verbatim>\<open>float_pow\<close> of the interpreter) raises \<^verbatim>\<open>ZeroDivisionError\<close> for zero to a
  negative power, gives a complex number for a negative base with a fractional exponent
  (\<open>ComplexNumber\<close>, see above), and raises \<^verbatim>\<open>OverflowError\<close> where the power of two finite
  numbers lies beyond the range of a double; in all other cases its value is that of C's
  \<^verbatim>\<open>pow\<close>. A finite number is beyond the range when rounding takes it to an infinity, from
  \<open>2\<^sup>1\<^sup>0\<^sup>2\<^sup>4 - 2\<^sup>9\<^sup>7\<^sup>0\<close> on.
\<close>

definition float_range :: real where
  "float_range = 2 ^ 1024 - 2 ^ 970"

fun overflows :: "npfloat \<Rightarrow> bool" where
  "overflows (Fin r) = (float_range \<le> \<bar>r\<bar>)"
| "overflows v = False"

definition float_add :: "npfloat \<Rightarrow> npfloat \<Rightarrow> error + npfloat" where
  "float_add x y = Inr (x + y)"

definition float_sub :: "npfloat \<Rightarrow> npfloat \<Rightarrow> error + npfloat" where
  "float_sub x y = Inr (x - y)"

definition float_mul :: "npfloat \<Rightarrow> npfloat \<Rightarrow> error + npfloat" where
  "float_mul x y = Inr (x * y)"

definition float_truediv :: "npfloat \<Rightarrow> npfloat \<Rightarrow> error + npfloat" where
  "float_truediv x y = (if y = Fin 0 then Inl ZeroDivisionError else Inr (x / y))"

definition float_pow :: "npfloat \<Rightarrow> npfloat \<Rightarrow> error + npfloat" where
  "float_pow x y =
     (case (x, y) of
        (Fin a, Fin b) \<Rightarrow>
          if a = 0 \<and> b < 0 then Inl ZeroDivisionError
          else if a < 0 \<and> \<not> whole b then
            (if overflows (Fin (\<bar>a\<bar> powr b)) then Inl OverflowError else Inl ComplexNumber)
          else if overflows (np_pow x y) then Inl OverflowError
          else Inr (np_pow x y)
      | _ \<Rightarrow> Inr (np_pow x y))"

text \<open>
  What a parameter can hold: \<^verbatim>\<open>None\<close>, a Python \<^verbatim>\<open>float\<close>, a NumPy \<^verbatim>\<open>float64\<close> number, or a
  one-dimensional \<^verbatim>\<open>ndarray\<close> of \<^verbatim>\<open>float64\<close>. A Python \<^verbatim>\<open>int\<close> is taken as the \<^verbatim>\<open>float\<close> of
  the same value, from which it differs in these expressions only where a result leaves the
  range of a double; an integer array is taken as the array of the same numbers wherever the
  code only reads it, and keeps its type where the code assigns into it (see
  \<^verbatim>\<open>calculate_sigma\<close>).

  An operator on two Python \<^verbatim>\<open>float\<close>s is Python's and gives a Python \<^verbatim>\<open>float\<close>. With a
  NumPy number or an array on either side it is NumPy's: entry by entry, a number or a
  one-element array stretched to the length of the other operand (broadcasting), the result
  a \<^verbatim>\<open>float64\<close> number or an array, \<^verbatim>\<open>ValueError\<close> when two lengths do not fit. \<^verbatim>\<open>None\<close> as
  an operand is a \<^verbatim>\<open>TypeError\<close>.
\<close>

datatype pyval = PyNone | PyFloat npfloat | Scalar npfloat | NDArray "npfloat list"

datatype shape = Dim0 | Dim1 nat

fun shape_of :: "pyval \<Rightarrow> shape" where
  "shape_of (NDArray xs) = Dim1 (length xs)"
| "shape_of v = Dim0"

fun broadcast_shape :: "shape \<Rightarrow> shape \<Rightarrow> error + shape" where
  "broadcast_shape Dim0 s = Inr s"
| "broadcast_shape s Dim0 = Inr s"
| "broadcast_shape (Dim1 m) (Dim1 n) =
     (if m = n then Inr (Dim1 m) else if m = 1 then Inr (Dim1 n)
      else if n = 1 then Inr (Dim1 m) else Inl (ValueError None))"

text \<open>The entry of an operand that takes part at position \<open>k\<close> of the result.\<close>

fun entry :: "pyval \<Rightarrow> nat \<Rightarrow> npfloat" where
  "entry (PyFloat v) k = v"
| "entry (Scalar v) k = v"
| "entry (NDArray xs) k = (if length xs = 1 then xs ! 0 else xs ! k)"
| "entry PyNone k = NaN"

fun build :: "shape \<Rightarrow> (nat \<Rightarrow> npfloat) \<Rightarrow> pyval" where
  "build Dim0 f = Scalar (f 0)"
| "build (Dim1 n) f = NDArray (map f [0..<n])"

text \<open>A NumPy function of two arguments and of one: the result is NumPy's also for Python numbers.\<close>

definition ufunc2 :: "(npfloat \<Rightarrow> npfloat \<Rightarrow> npfloat) \<Rightarrow> pyval \<Rightarrow> pyval \<Rightarrow> error + pyval" where
  "ufunc2 f a b =
     (if a = PyNone \<or> b = PyNone then Inl TypeError
      else bindE (broadcast_shape (shape_of a) (shape_of b))
             (\<lambda>s. Inr (build s (\<lambda>k. f (entry a k) (entry b k)))))"

definition ufunc1 :: "(npfloat \<Rightarrow> npfloat) \<Rightarrow> pyval \<Rightarrow> error + pyval" where
  "ufunc1 f a =
     (if a = PyNone then Inl TypeError else Inr (build (shape_of a) (\<lambda>k. f (entry a k))))"

text \<open>
  A binary operator, from what it does on two Python numbers and what NumPy does entry by
  entry; and the unary minus.
\<close>

fun binop ::
  "(npfloat \<Rightarrow> npfloat \<Rightarrow> error + npfloat) \<Rightarrow> (npfloat \<Rightarrow> npfloat \<Rightarrow> npfloat) \<Rightarrow> pyval \<Rightarrow> pyval
     \<Rightarrow> error + pyval" where
  "binop p f (PyFloat x) (PyFloat y) = bindE (p x y) (\<lambda>v. Inr (PyFloat v))"
| "binop p f a b = ufunc2 f a b"

fun negative :: "pyval \<Rightarrow> error + pyval" where
  "negative (PyFloat x) = Inr (PyFloat (- x))"
| "negative a = ufunc1 uminus a"

text \<open>
  The operators on expressions. An operand is itself the outcome of evaluating a
  subexpression; Python evaluates the left operand, then the right one, then applies the
  operator, so the first exception in that order is the one raised. A literal and a constant
  of a module is a Python number.
\<close>

definition lift2 ::
  "(npfloat \<Rightarrow> npfloat \<Rightarrow> error + npfloat) \<Rightarrow> (npfloat \<Rightarrow> npfloat \<Rightarrow> npfloat) \<Rightarrow> error + pyval
     \<Rightarrow> error + pyval \<Rightarrow> error + pyval" where
  "lift2 p f ra rb = bindE ra (\<lambda>a. bindE rb (\<lambda>b. binop p f a b))"

definition lift1 :: "(npfloat \<Rightarrow> npfloat) \<Rightarrow> error + pyval \<Rightarrow> error + pyval" where
  "lift1 f ra = bindE ra (\<lambda>a. ufunc1 f a)"

definition lit :: "real \<Rightarrow> error + pyval" where
  "lit r = Inr (PyFloat (Fin r))"

definition arg :: "pyval \<Rightarrow> error + pyval" where
  "arg v = Inr v"

definition py_add :: "error + pyval \<Rightarrow> error + pyval \<Rightarrow> error + pyval" where
  "py_add = lift2 float_add (+)"

definition py_sub :: "error + pyval \<Rightarrow> error + pyval \<Rightarrow> error + pyval" where
  "py_sub = lift2 float_sub (-)"

definition py_mul :: "error + pyval \<Rightarrow> error + pyval \<Rightarrow> error + pyval" where
  "py_mul = lift2 float_mul (*)"

definition py_truediv :: "error + pyval \<Rightarrow> error + pyval \<Rightarrow> error + pyval" where
  "py_truediv = lift2 float_truediv (/)"

definition py_pow :: "error + pyval \<Rightarrow> error + pyval \<Rightarrow> error + pyval" where
  "py_pow = lift2 float_pow np_pow"

definition py_neg :: "error + pyval \<Rightarrow> error + pyval" where
  "py_neg ra = bindE ra negative"

definition numpy_exp :: "error + pyval \<Rightarrow> error + pyval" where
  "numpy_exp = lift1 np_exp"

definition numpy_sin :: "error + pyval \<Rightarrow> error + pyval" where
  "numpy_sin = lift1 np_sin"

definition numpy_cos :: "error + pyval \<Rightarrow> error + pyval" where
  "numpy_cos = lift1 np_cos"

definition numpy_sqrt :: "error + pyval \<Rightarrow> error + pyval" where
  "numpy_sqrt = lift1 np_sqrt"

text \<open>
  The constants module \<^verbatim>\<open>GPConstants\<close>, of which the functions read the names below. Its
  values are parameters of the model, Python \<^verbatim>\<open>float\<close>s.
\<close>

record gpconstants =
  deg2rad :: real
  latlon2dxdy_lat_conversion_factor :: real
  latlon2dxdy_lon_conversion_factor :: real
  liter_per_mole_air :: real
  sigma_ca :: real
  sigma_cb :: real

section \<open>Geometry, travel time and concentration (GPFunctions.py)\<close>

text \<open>
  The functions below print their arguments when \<^verbatim>\<open>verbose\<close> is high (\<^verbatim>\<open>print_vars\<close>) and do
  nothing else with it; the numeric functions are modelled without that parameter.
  \<^verbatim>\<open>print_vars\<close> returns the higher of the two verbosity levels.
\<close>

definition print_vars :: "int \<Rightarrow> int \<Rightarrow> int" where
  "print_vars verbose self_verbose = (if self_verbose > verbose then self_verbose else verbose)"

text \<open>
  \<^verbatim>\<open>latlon2dlatdlon\<close> and \<^verbatim>\<open>dlatdlon2dxdy\<close> accept a list where they accept an array and turn it
  into one (\<^verbatim>\<open>if type(lat) == list: lat = numpy.array(lat)\<close>).
\<close>

datatype pyarg = Val pyval | PyList "npfloat list"

text \<open>
  \<^verbatim>\<open>kwargs.get(name, constant)\<close>: the keyword argument when it is given, the constant of the
  module otherwise.
\<close>

definition kwargs_get :: "real option \<Rightarrow> real \<Rightarrow> real" where
  "kwargs_get kw constant = (case kw of None \<Rightarrow> constant | Some v \<Rightarrow> v)"

fun list2array :: "pyarg \<Rightarrow> pyval" where
  "list2array (PyList xs) = NDArray xs"
| "list2array (Val v) = v"

text \<open>
  The warning \<^verbatim>\<open>distance is above {:} meter for {:d} data points\<close>: the function that warns,
  the threshold and the number of points. \<^verbatim>\<open>len(numpy.where(dist > w)[0])\<close> counts the
  entries above the threshold; NumPy 1.x counts a number as a one-element array.
\<close>

datatype warning = DistanceWarning string real nat

fun count_above :: "pyval \<Rightarrow> real \<Rightarrow> nat" where
  "count_above (Scalar d) w = (if Fin w < d then 1 else 0)"
| "count_above (PyFloat d) w = (if Fin w < d then 1 else 0)"
| "count_above (NDArray ds) w = length (filter (\<lambda>d. Fin w < d) ds)"
| "count_above PyNone w = 0"

definition distance_warning :: "string \<Rightarrow> pyval \<Rightarrow> real \<Rightarrow> warning list" where
  "distance_warning fname distance w =
     (if count_above distance w > 0 then [DistanceWarning fname w (count_above distance w)] else [])"

text \<open>
  \<^verbatim>\<open>latlon2dlatdlon\<close>. The two keyword arguments replace the conversion factors of the
  constants module when given. The result is the pair \<^verbatim>\<open>(dlat, dlon)\<close>, with the warnings
  emitted on the way.
\<close>

definition latlon2dlatdlon ::
  "gpconstants \<Rightarrow> pyarg \<Rightarrow> pyarg \<Rightarrow> pyarg \<Rightarrow> pyarg \<Rightarrow> real \<Rightarrow> real option \<Rightarrow> real option
     \<Rightarrow> error + ((pyval \<times> pyval) \<times> warning list)" where
  "latlon2dlatdlon gpc lat lon latR lonR warn_distance_above_meter kw_lon_factor kw_lat_factor =
     (let lon_conversion_factor =
            kwargs_get kw_lon_factor (latlon2dxdy_lon_conversion_factor gpc);
          lat_conversion_factor =
            kwargs_get kw_lat_factor (latlon2dxdy_lat_conversion_factor gpc);
          lat = list2array lat; lon = list2array lon;
          latR = list2array latR; lonR = list2array lonR
      in bindE (py_mul (numpy_sin (py_mul (py_sub (arg lat) (arg latR)) (lit (deg2rad gpc))))
                  (lit lat_conversion_factor)) (\<lambda>dlat.
         bindE (py_mul (py_mul (numpy_cos (py_mul (arg lat) (lit (deg2rad gpc))))
                          (numpy_sin (py_mul (py_sub (arg lon) (arg lonR)) (lit (deg2rad gpc)))))
                  (lit lon_conversion_factor)) (\<lambda>dlon.
         bindE (numpy_sqrt (py_add (py_pow (arg dlat) (lit 2)) (py_pow (arg dlon) (lit 2))))
           (\<lambda>distance.
         Inr ((dlat, dlon),
              distance_warning ''GPFunctions.latlon2dlatdlon()'' distance
                warn_distance_above_meter)))))"

definition dlatdlon2dxdy ::
  "gpconstants \<Rightarrow> pyarg \<Rightarrow> pyarg \<Rightarrow> pyarg \<Rightarrow> pyarg \<Rightarrow> pyarg \<Rightarrow> real
     \<Rightarrow> error + ((pyval \<times> pyval) \<times> warning list)" where
  "dlatdlon2dxdy gpc dlatS dlonS dlatM dlonM wind_direction warn_distance_above_meter =
     (let dlatS = list2array dlatS; dlonS = list2array dlonS;
          dlatM = list2array dlatM; dlonM = list2array dlonM;
          wind_direction = list2array wind_direction
      in bindE (py_add
                  (py_mul (py_sub (arg dlatS) (arg dlatM))
                     (numpy_cos (py_mul (arg wind_direction) (lit (deg2rad gpc)))))
                  (py_mul (py_sub (arg dlonS) (arg dlonM))
                     (numpy_sin (py_mul (arg wind_direction) (lit (deg2rad gpc)))))) (\<lambda>dx.
         bindE (py_sub
                  (py_mul (py_sub (arg dlatS) (arg dlatM))
                     (numpy_sin (py_mul (arg wind_direction) (lit (deg2rad gpc)))))
                  (py_mul (py_sub (arg dlonS) (arg dlonM))
                     (numpy_cos (py_mul (arg wind_direction) (lit (deg2rad gpc)))))) (\<lambda>dy.
         bindE (numpy_sqrt (py_add (py_pow (arg dx) (lit 2)) (py_pow (arg dy) (lit 2))))
           (\<lambda>distance.
         Inr ((dx, dy),
              distance_warning ''GPFunctions.dlatdlon2dxdy()'' distance
                warn_distance_above_meter)))))"

definition calculate_tc :: "pyval \<Rightarrow> pyval \<Rightarrow> error + pyval" where
  "calculate_tc dx wind_speed = py_truediv (arg dx) (py_mul (lit 3600) (arg wind_speed))"


section \<open>Plume spread (GPFunctions.calculate\_sigma)\<close>

text \<open>
  \<^verbatim>\<open>calculate_sigma\<close> assigns into the arrays it is given, so arrays live in a heap and the
  parameters \<^verbatim>\<open>dx\<close> and \<^verbatim>\<open>tc\<close> are references: \<^verbatim>\<open>None\<close>, a Python number, a NumPy number, or
  the address of an array. An array in the heap has its element type, \<^verbatim>\<open>float64\<close> or
  \<^verbatim>\<open>int64\<close>, since an assignment converts the value to it. The function returns the heap as
  it leaves it, also when it raises.
\<close>

datatype ndarray = Float64 "npfloat list" | Int64 "int list"

type_synonym heap = "nat \<Rightarrow> ndarray"

datatype pyref = RNone | RNum npfloat | RNp npfloat | RArr nat

text \<open>
  The numbers of an array; and the value an expression reads from a reference. The formulas
  use \<^verbatim>\<open>dx\<close> and \<^verbatim>\<open>tc\<close> only as the base of \<^verbatim>\<open>**\<close> with a \<^verbatim>\<open>float\<close> or \<^verbatim>\<open>float64\<close> exponent,
  where NumPy converts an integer array to \<^verbatim>\<open>float64\<close> first.
\<close>

fun floats :: "ndarray \<Rightarrow> npfloat list" where
  "floats (Float64 xs) = xs"
| "floats (Int64 ks) = map (\<lambda>k. Fin (of_int k)) ks"

fun deref :: "heap \<Rightarrow> pyref \<Rightarrow> pyval" where
  "deref h RNone = PyNone"
| "deref h (RNum x) = PyFloat x"
| "deref h (RNp x) = Scalar x"
| "deref h (RArr a) = NDArray (floats (h a))"

text \<open>
  \<^verbatim>\<open>array[idx] = value\<close> for an index array \<open>idx\<close> and a Python \<^verbatim>\<open>float\<close> as value. NumPy
  first converts the value to the element type of the array: for \<^verbatim>\<open>int64\<close> that is Python's
  \<^verbatim>\<open>int(value)\<close>, a \<^verbatim>\<open>ValueError\<close> for not-a-number, an \<^verbatim>\<open>OverflowError\<close> for an infinity
  and for a number outside \<open>-2\<^sup>6\<^sup>3 ..< 2\<^sup>6\<^sup>3\<close>, and the number without its fraction otherwise.
  Then it checks every index (\<^verbatim>\<open>IndexError\<close>), and only then writes.
\<close>

definition toward_zero :: "real \<Rightarrow> int" where
  "toward_zero r = (if r < 0 then \<lceil>r\<rceil> else \<lfloor>r\<rfloor>)"

definition to_int64 :: "npfloat \<Rightarrow> error + int" where
  "to_int64 v =
     (case v of
        NaN \<Rightarrow> Inl (ValueError None)
      | PInf \<Rightarrow> Inl OverflowError
      | MInf \<Rightarrow> Inl OverflowError
      | Fin r \<Rightarrow>
          if - (2 ^ 63) \<le> toward_zero r \<and> toward_zero r < 2 ^ 63
          then Inr (toward_zero r)
          else Inl OverflowError)"

definition setitem :: "ndarray \<Rightarrow> nat list \<Rightarrow> npfloat \<Rightarrow> error + ndarray" where
  "setitem array idx v =
     (case array of
        Float64 xs \<Rightarrow>
          if list_all (\<lambda>k. k < length xs) idx then Inr (Float64 (assign_at xs idx v))
          else Inl (IndexError None)
      | Int64 ks \<Rightarrow>
          bindE (to_int64 v) (\<lambda>n.
            if list_all (\<lambda>k. k < length ks) idx then Inr (Int64 (assign_at ks idx n))
            else Inl (IndexError None)))"

text \<open>
  \<^verbatim>\<open>dispersion_constants[stability_index, j]\<close> on a two-dimensional array, given as its rows.
  A negative row index counts from the end; an index out of bounds is an \<^verbatim>\<open>IndexError\<close>. An
  array or a list of row indices selects one entry per index.
\<close>

definition ncols :: "npfloat list list \<Rightarrow> nat" where
  "ncols t = (case t of [] \<Rightarrow> 0 | r # rs \<Rightarrow> length r)"

definition row_ok :: "npfloat list list \<Rightarrow> int \<Rightarrow> bool" where
  "row_ok t i = (- int (length t) \<le> i \<and> i < int (length t))"

definition row_of :: "npfloat list list \<Rightarrow> int \<Rightarrow> nat" where
  "row_of t i = nat (if i < 0 then i + int (length t) else i)"

definition table_get :: "npfloat list list \<Rightarrow> index_arg \<Rightarrow> nat \<Rightarrow> error + pyval" where
  "table_get t stability_index j =
     (case stability_index of
        PyInt i \<Rightarrow>
          if row_ok t i \<and> j < ncols t then Inr (Scalar (t ! row_of t i ! j))
          else Inl (IndexError None)
      | IntArray js \<Rightarrow>
          if list_all (row_ok t) js \<and> j < ncols t
          then Inr (NDArray (map (\<lambda>i. t ! row_of t i ! j) js))
          else Inl (IndexError None)
      | IntList js \<Rightarrow>
          if list_all (row_ok t) js \<and> j < ncols t
          then Inr (NDArray (map (\<lambda>i. t ! row_of t i ! j) js))
          else Inl (IndexError None))"

text \<open>
  The first block: \<^verbatim>\<open>if numpy.any(dx < 0)\<close>, the positions \<^verbatim>\<open>numpy.where(dx < 0)[0]\<close>, and the
  two assignments of not-a-number. Comparing \<^verbatim>\<open>None\<close> with a number is a \<^verbatim>\<open>TypeError\<close>. For
  a negative number the positions are \<^verbatim>\<open>[0]\<close> and the assignment \<^verbatim>\<open>dx[idx_nan] = numpy.nan\<close>
  is a \<^verbatim>\<open>TypeError\<close>, a number having no item assignment. For an array the assignment
  happens in the caller's array; it is a \<^verbatim>\<open>ValueError\<close> for an integer array, and the one
  into \<^verbatim>\<open>tc\<close> is an \<^verbatim>\<open>IndexError\<close> when a position lies beyond the end of \<^verbatim>\<open>tc\<close>.
\<close>

definition negative_positions :: "npfloat list \<Rightarrow> nat list" where
  "negative_positions xs = filter (\<lambda>k. xs ! k < Fin 0) [0..<length xs]"

definition mask_negative_dx :: "heap \<Rightarrow> pyref \<Rightarrow> pyref \<Rightarrow> heap \<times> error option" where
  "mask_negative_dx h dx tc =
     (case dx of
        RNone \<Rightarrow> (h, Some TypeError)
      | RNum x \<Rightarrow> if x < Fin 0 then (h, Some TypeError) else (h, None)
      | RNp x \<Rightarrow> if x < Fin 0 then (h, Some TypeError) else (h, None)
      | RArr a \<Rightarrow>
          if list_ex (\<lambda>x. x < Fin 0) (floats (h a)) then
            (let idx_nan = negative_positions (floats (h a))
             in case setitem (h a) idx_nan NaN of
                  Inl e \<Rightarrow> (h, Some e)
                | Inr dx_array \<Rightarrow>
                    (let h1 = h(a := dx_array)
                     in case tc of
                          RArr b \<Rightarrow>
                            (case setitem (h1 b) idx_nan NaN of
                               Inl e \<Rightarrow> (h1, Some e)
                             | Inr tc_array \<Rightarrow> (h1(b := tc_array), None))
                        | RNum t \<Rightarrow> (h1, None)
                        | RNp t \<Rightarrow> (h1, None)
                        | RNone \<Rightarrow> (h1, None)))
          else (h, None))"

text \<open>
  The second block: entries of an array \<^verbatim>\<open>tc\<close> below \<^verbatim>\<open>tc_minimum\<close> are overwritten in place,
  a number is replaced in the local variable by \<^verbatim>\<open>tc_minimum\<close>, a Python number. The
  result is the heap and the value \<^verbatim>\<open>tc\<close> stands for afterwards.
\<close>

definition clamp_tc :: "heap \<Rightarrow> pyref \<Rightarrow> npfloat \<Rightarrow> heap \<times> (error + pyref)" where
  "clamp_tc h tc tc_minimum =
     (case tc of
        RArr b \<Rightarrow>
          (let idx = filter (\<lambda>k. floats (h b) ! k < tc_minimum) [0..<length (floats (h b))]
           in case setitem (h b) idx tc_minimum of
                Inl e \<Rightarrow> (h, Inl e)
              | Inr tc_array \<Rightarrow> (h(b := tc_array), Inr (RArr b)))
      | RNum t \<Rightarrow> (h, Inr (RNum (if t < tc_minimum then tc_minimum else t)))
      | RNp t \<Rightarrow> (h, Inr (if t < tc_minimum then RNum tc_minimum else RNp t))
      | RNone \<Rightarrow> (h, Inl TypeError))"

text \<open>
  The two formulas, on the values the names stand for after the two blocks. The table of
  coefficients is a \<^verbatim>\<open>float64\<close> array, so a coefficient is a NumPy number or an array; the
  exponents \<open>ca\<close> and \<open>cb\<close> are Python numbers.
\<close>

definition sigma_formulas ::
  "pyval \<Rightarrow> pyval \<Rightarrow> pyval \<Rightarrow> npfloat list list \<Rightarrow> index_arg \<Rightarrow> pyval \<Rightarrow> real \<Rightarrow> real
     \<Rightarrow> error + (pyval \<times> pyval)" where
  "sigma_formulas dx z0 tc dispersion_constants stability_index offset_sigma_z ca cb =
     bindE (py_mul
              (py_mul
                 (py_mul (table_get dispersion_constants stability_index 0)
                    (py_pow (arg dx) (table_get dispersion_constants stability_index 1)))
                 (py_pow (arg z0) (lit (2 / 10))))
              (py_pow (arg tc) (lit (35 / 100)))) (\<lambda>sigma_y.
     bindE (py_add
              (py_mul
                 (py_mul (table_get dispersion_constants stability_index 2)
                    (py_pow (arg dx) (table_get dispersion_constants stability_index 3)))
                 (py_pow (py_mul (lit 10) (arg z0))
                    (py_mul (lit ca) (py_pow (arg dx) (lit cb)))))
              (arg offset_sigma_z)) (\<lambda>sigma_z.
     Inr (sigma_y, sigma_z)))"

definition calculate_sigma ::
  "gpconstants \<Rightarrow> heap \<Rightarrow> pyref \<Rightarrow> pyval \<Rightarrow> pyref \<Rightarrow> npfloat list list \<Rightarrow> index_arg \<Rightarrow> npfloat
     \<Rightarrow> pyval \<Rightarrow> real option \<Rightarrow> real option \<Rightarrow> heap \<times> (error + (pyval \<times> pyval))" where
  "calculate_sigma gpc h dx z0 tc dispersion_constants stability_index tc_minimum offset_sigma_z
       kw_ca kw_cb =
     (case mask_negative_dx h dx tc of
        (h1, Some e) \<Rightarrow> (h1, Inl e)
      | (h1, None) \<Rightarrow>
          (case clamp_tc h1 tc tc_minimum of
             (h2, Inl e) \<Rightarrow> (h2, Inl e)
           | (h2, Inr tc') \<Rightarrow>
               (let ca = kwargs_get kw_ca (sigma_ca gpc);
                    cb = kwargs_get kw_cb (sigma_cb gpc)
                in (h2, sigma_formulas (deref h2 dx) z0 (deref h2 tc') dispersion_constants
                          stability_index offset_sigma_z ca cb))))"

section \<open>Vocabulary for the statements about arrays\<close>

text \<open>
  Position \<open>k\<close> is a position of the value \<open>c\<close>: any position for a number or a one-element
  array (which broadcasting stretches), a position below the length for a longer array.
  \<open>elem r k v\<close>: the expression \<open>r\<close> evaluates without raising and has \<open>v\<close> at position \<open>k\<close>.
\<close>

fun valid_at :: "pyval \<Rightarrow> nat \<Rightarrow> bool" where
  "valid_at PyNone k = False"
| "valid_at (PyFloat v) k = True"
| "valid_at (Scalar v) k = True"
| "valid_at (NDArray xs) k = (length xs = 1 \<or> k < length xs)"

definition elem :: "error + pyval \<Rightarrow> nat \<Rightarrow> npfloat \<Rightarrow> bool" where
  "elem r k v = (case r of Inl e \<Rightarrow> False | Inr c \<Rightarrow> valid_at c k \<and> entry c k = v)"

text \<open>
  The value fits a batch of \<open>n\<close> observations: a number of either kind, or an array of
  length \<open>n\<close>.
\<close>

fun fits :: "nat \<Rightarrow> pyval \<Rightarrow> bool" where
  "fits n PyNone = False"
| "fits n (PyFloat v) = True"
| "fits n (Scalar v) = True"
| "fits n (NDArray xs) = (length xs = n)"

definition returns_fitting :: "nat \<Rightarrow> error + pyval \<Rightarrow> bool" where
  "returns_fitting n r = (case r of Inl e \<Rightarrow> False | Inr c \<Rightarrow> fits n c)"

text \<open>
  The kinds of values on which no Python operator raises for the size or the sign of a number:
  a NumPy value (a \<^verbatim>\<open>float64\<close> number or an array); a value that is no Python number or a
  Python number that is finite and at most \<open>10\<^sup>1\<^sup>0\<^sup>0\<close> in size; one that is no Python number
  or a Python number other than zero. The three predicates on outcomes say that an
  expression returns a value fitting the batch and of that kind, the second with a bound
  \<open>B\<close> on the size of a Python number.
\<close>

fun numpy_value :: "pyval \<Rightarrow> bool" where
  "numpy_value (Scalar v) = True"
| "numpy_value (NDArray xs) = True"
| "numpy_value c = False"


fun nonzero :: "pyval \<Rightarrow> bool" where
  "nonzero (PyFloat v) = (v \<noteq> Fin 0)"
| "nonzero c = True"

fun below :: "real \<Rightarrow> pyval \<Rightarrow> bool" where
  "below B (PyFloat (Fin x)) = (\<bar>x\<bar> \<le> B)"
| "below B (PyFloat v) = False"
| "below B c = True"

definition returns_numpy :: "nat \<Rightarrow> error + pyval \<Rightarrow> bool" where
  "returns_numpy n r = (case r of Inl e \<Rightarrow> False | Inr c \<Rightarrow> fits n c \<and> numpy_value c)"

definition returns_below :: "real \<Rightarrow> nat \<Rightarrow> error + pyval \<Rightarrow> bool" where
  "returns_below B n r = (case r of Inl e \<Rightarrow> False | Inr c \<Rightarrow> fits n c \<and> below B c)"

definition returns_nonzero :: "nat \<Rightarrow> error + pyval \<Rightarrow> bool" where
  "returns_nonzero n r = (case r of Inl e \<Rightarrow> False | Inr c \<Rightarrow> fits n c \<and> nonzero c)"



text \<open>
  Sample values for the constants module, used in worked instances: degrees to radians, two
  metres-per-radian factors, litres of air per mole, and the two exponents of the spread.
\<close>

definition sample_constants :: gpconstants where
  "sample_constants =
     \<lparr>deg2rad = pi / 180,
      latlon2dxdy_lat_conversion_factor = 6367449,
      latlon2dxdy_lon_conversion_factor = 6378137,
      liter_per_mole_air = 2236 / 100,
      sigma_ca = 53 / 100,
      sigma_cb = - (22 / 100)\<rparr>"



text \<open>
  The two spreads in the words of the specification, for one observation, from the row of
  coefficients \<open>[a_y, b_y, a_z, b_z]\<close>:
  \<open>sigma_y = a_y \<cdot> dx^b_y \<cdot> z0^0.2 \<cdot> tc^0.35\<close> and
  \<open>sigma_z = a_z \<cdot> dx^b_z \<cdot> (10 \<cdot> z0)^(ca \<cdot> dx^cb) + offsetSigmaZ\<close>.
\<close>

definition sigma_y_formula ::
  "npfloat \<Rightarrow> npfloat \<Rightarrow> npfloat \<Rightarrow> npfloat \<Rightarrow> npfloat \<Rightarrow> npfloat" where
  "sigma_y_formula a_y b_y dx z0 tc =
     a_y * np_pow dx b_y * np_pow z0 (Fin (2 / 10)) * np_pow tc (Fin (35 / 100))"

definition sigma_z_formula ::
  "npfloat \<Rightarrow> npfloat \<Rightarrow> npfloat \<Rightarrow> npfloat \<Rightarrow> real \<Rightarrow> real \<Rightarrow> npfloat \<Rightarrow> npfloat" where
  "sigma_z_formula a_z b_z dx z0 ca cb offsetSigmaZ =
     a_z * np_pow dx b_z * np_pow (Fin 10 * z0) (Fin ca * np_pow dx (Fin cb)) + offsetSigmaZ"

text \<open>
  A downwind distance after masking, and a travel time after masking and clamping: what the
  first two blocks of \<^verbatim>\<open>calculate_sigma\<close> leave at a position whose distance was \<open>x\<close>.
\<close>

definition masked :: "npfloat \<Rightarrow> npfloat" where
  "masked x = (if x < Fin 0 then NaN else x)"

definition clamped :: "npfloat \<Rightarrow> npfloat \<Rightarrow> npfloat" where
  "clamped tc_minimum t = (if t < tc_minimum then tc_minimum else t)"

definition masked_clamped :: "npfloat \<Rightarrow> npfloat \<Rightarrow> npfloat \<Rightarrow> npfloat" where
  "masked_clamped tc_minimum x t = clamped tc_minimum (if x < Fin 0 then NaN else t)"

text \<open>
  The conditions under which the spread formulas meet no exception of Python's \<^verbatim>\<open>**\<close>.
  \<open>power_defined a b\<close>: \<^verbatim>\<open>a ** b\<close> is NumPy's, or it is Python's and has a value.
  \<open>powers_defined\<close>: that holds of the four powers \<^verbatim>\<open>z0**0.2\<close>, \<^verbatim>\<open>tc**0.35\<close>, \<^verbatim>\<open>dx**cb\<close> and
  \<^verbatim>\<open>(10*z0)**(ca * dx**cb)\<close> (the powers \<^verbatim>\<open>dx**C[i, j]\<close> are NumPy's, the coefficients being
  NumPy numbers). \<open>sound_base\<close>: no Python number, or a Python number that is not negative
  and within the range of a double, so that it has a power for every exponent between 0
  and 1.
\<close>

fun power_defined :: "pyval \<Rightarrow> pyval \<Rightarrow> bool" where
  "power_defined (PyFloat x) (PyFloat y) = (case float_pow x y of Inl e \<Rightarrow> False | Inr v \<Rightarrow> True)"
| "power_defined a b = True"

definition powers_defined :: "pyval \<Rightarrow> pyval \<Rightarrow> pyval \<Rightarrow> real \<Rightarrow> real \<Rightarrow> bool" where
  "powers_defined dx z0 tc ca cb =
     (power_defined z0 (PyFloat (Fin (2 / 10))) \<and>
      power_defined tc (PyFloat (Fin (35 / 100))) \<and>
      power_defined dx (PyFloat (Fin cb)) \<and>
      (case dx of
         PyFloat x \<Rightarrow>
           (case z0 of
              PyFloat z \<Rightarrow>
                power_defined (PyFloat (Fin 10 * z)) (PyFloat (Fin ca * np_pow x (Fin cb)))
            | _ \<Rightarrow> True)
       | _ \<Rightarrow> True))"

fun sound_base :: "pyval \<Rightarrow> bool" where
  "sound_base (PyFloat v) = (\<not> v < Fin 0 \<and> \<not> overflows v)"
| "sound_base c = True"

text \<open>
  Conditions on the references \<^verbatim>\<open>dx\<close> and \<^verbatim>\<open>tc\<close>: an array is an array of \<^verbatim>\<open>float64\<close>; a
  number is not negative.
\<close>

definition float_array :: "heap \<Rightarrow> pyref \<Rightarrow> bool" where
  "float_array h r =
     (case r of RArr a \<Rightarrow> (case h a of Float64 xs \<Rightarrow> True | Int64 ks \<Rightarrow> False) | _ \<Rightarrow> True)"

definition not_negative :: "pyref \<Rightarrow> bool" where
  "not_negative r =
     (case r of RNum x \<Rightarrow> \<not> x < Fin 0 | RNp x \<Rightarrow> \<not> x < Fin 0 | _ \<Rightarrow> True)"

text \<open>A heap in which no array has entries, for worked instances.\<close>

definition empty_heap :: heap where
  "empty_heap = (\<lambda>a. Float64 [])"

text \<open>
  The coefficient \<^verbatim>\<open>dispersion_constants[stability_index, j]\<close> that takes part at position
  \<open>k\<close>, the value \<^verbatim>\<open>tc\<close> stands for after the clamping block, and the condition under which
  the index selects coefficients for a batch of \<open>n\<close> observations: four columns, and one row
  in range for all observations or one per observation.
\<close>

definition coefficient :: "npfloat list list \<Rightarrow> index_arg \<Rightarrow> nat \<Rightarrow> nat \<Rightarrow> npfloat" where
  "coefficient t stability_index j k =
     (case table_get t stability_index j of Inl e \<Rightarrow> NaN | Inr c \<Rightarrow> entry c k)"

definition tc_after :: "heap \<Rightarrow> pyref \<Rightarrow> npfloat \<Rightarrow> pyval" where
  "tc_after h tc tc_minimum =
     (case tc of
        RNone \<Rightarrow> PyNone
      | RNum t \<Rightarrow> PyFloat (clamped tc_minimum t)
      | RNp t \<Rightarrow> (if t < tc_minimum then PyFloat tc_minimum else Scalar t)
      | RArr b \<Rightarrow> NDArray (floats (h b)))"

definition index_fits :: "nat \<Rightarrow> npfloat list list \<Rightarrow> index_arg \<Rightarrow> bool" where
  "index_fits n t stability_index =
     (4 \<le> ncols t \<and>
      (case stability_index of
         PyInt i \<Rightarrow> row_ok t i
       | IntArray js \<Rightarrow> length js = n \<and> list_all (row_ok t) js
       | IntList js \<Rightarrow> length js = n \<and> list_all (row_ok t) js))"

text \<open>
  The coefficient table the tests expect for the dispersion mode \<^verbatim>\<open>nogepa\<close>
  (\<^verbatim>\<open>test_calculate_concentration_prepare_dispersion_constants_get\<close>), for worked instances.
\<close>

definition nogepa_table :: "npfloat list list" where
  "nogepa_table = map (map Fin)
     [[136 / 100, 866 / 1000, 23 / 100, 85 / 100],
      [768 / 1000, 897 / 1000, 22 / 100, 8 / 10],
      [47 / 100, 907 / 1000, 2 / 10, 76 / 100],
      [359 / 1000, 902 / 1000, 15 / 100, 73 / 100],
      [238 / 1000, 902 / 1000, 12 / 100, 67 / 100],
      [2 / 10, 902 / 1000, 1 / 10, 62 / 100]]"

text \<open>
  A heap with a distance array at address 0 and a travel-time array at address 1, for worked
  instances.
\<close>

definition sample_heap :: heap where
  "sample_heap =
     empty_heap(0 := Float64 [Fin 100, Fin (- 2)], 1 := Float64 [Fin (- 5), Fin 7])"

text \<open>The same distances as an array of integers, as \<^verbatim>\<open>numpy.array([100, -2])\<close> makes it.\<close>

definition integer_heap :: heap where
  "integer_heap = empty_heap(0 := Int64 [100, - 2], 1 := Float64 [Fin (- 5), Fin 7])"

section \<open>The source object (GPSource.py)\<close>

text \<open>
  A \<^verbatim>\<open>Source\<close> holds the quantities of one observation as attributes, \<^verbatim>\<open>None\<close> until given
  or computed; the attribute \<^verbatim>\<open>self.dx\<close> is the field \<open>src_dx\<close>, and so on. The numeric
  attributes hold \<^verbatim>\<open>None\<close>, a number or an array. The molecule is
  an object of the class \<^verbatim>\<open>Molecule\<close>, of which the methods read the name and the molecular
  mass.
\<close>

record molecule =
  mol_name :: string
  mol_mass :: pyval

record source =
  src_verbose :: int
  src_source_id :: int
  src_molecule :: molecule
  src_label :: string
  src_dx :: pyval
  src_dy :: pyval
  src_dlatS :: pyval
  src_dlonS :: pyval
  src_dlatM :: pyval
  src_dlonM :: pyval
  src_latS :: pyval
  src_lonS :: pyval
  src_latR :: pyval
  src_lonR :: pyval
  src_latM :: pyval
  src_lonM :: pyval
  src_wind_direction :: pyval
  src_wind_speed :: pyval
  src_qs :: pyval
  src_hs :: pyval
  src_hm :: pyval
  src_z0 :: pyval
  src_zr :: pyval
  src_offset_sigma_z :: pyval
  src_dispersion_mode :: "string option"
  src_dispersion_constants :: "npfloat list list option"
  src_tc :: pyval
  src_sigma_y :: pyval
  src_sigma_z :: pyval
  src_stability_index :: "index_arg option"
  src_stability_class :: "class_arg option"

text \<open>
  The message of the \<^verbatim>\<open>ValueError\<close> for missing location data: the prefix, then
  \<^verbatim>\<open>"{:s} name, ".format(error_string)\<close> for every named attribute that is \<^verbatim>\<open>None\<close>, in the
  order of the source.
\<close>

definition missing_names :: "(string \<times> pyval) list \<Rightarrow> string" where
  "missing_names attrs =
     foldl (\<lambda>error_string f. if snd f = PyNone then error_string @ '' '' @ fst f @ '', ''
                               else error_string)
       ''GPSource.calculate_dxdy(): no location data for: '' attrs"

text \<open>The default of \<^verbatim>\<open>warn_distance_above_meter\<close>.\<close>

definition default_warn_distance :: real where
  "default_warn_distance = 100000"

text \<open>
  \<^verbatim>\<open>Source.calculate_dxdy\<close>. The outcome is the object as the method leaves it, the warnings
  emitted, and the exception if one was raised. The three steps of the \<^verbatim>\<open>else\<close> branch are
  separate functions, each on the object the step before left.
\<close>

definition dxdy_source_offsets ::
  "gpconstants \<Rightarrow> source \<Rightarrow> source \<times> warning list \<times> error option" where
  "dxdy_source_offsets gpc s =
     (if src_dlatS s = PyNone \<or> src_dlonS s = PyNone then
        (if src_latS s \<noteq> PyNone \<and> src_lonS s \<noteq> PyNone \<and> src_latR s \<noteq> PyNone \<and> src_lonR s \<noteq> PyNone then
           (case latlon2dlatdlon gpc (Val (src_latS s)) (Val (src_lonS s)) (Val (src_latR s)) (Val (src_lonR s))
                   default_warn_distance None None of
              Inl e \<Rightarrow> (s, [], Some e)
            | Inr ((dlat, dlon), ws) \<Rightarrow> (s\<lparr>src_dlatS := dlat, src_dlonS := dlon\<rparr>, ws, None))
         else
           (s, [], Some (ValueError (Some (missing_names
              [(''dlatS'', src_dlatS s), (''dlonS'', src_dlonS s), (''latS'', src_latS s),
               (''lonS'', src_lonS s), (''latR'', src_latR s), (''lonR'', src_lonR s)])))))
      else (s, [], None))"

definition dxdy_measurement_offsets ::
  "gpconstants \<Rightarrow> source \<Rightarrow> source \<times> warning list \<times> error option" where
  "dxdy_measurement_offsets gpc s =
     (if src_dlatM s = PyNone \<or> src_dlonM s = PyNone then
        (if src_latM s \<noteq> PyNone \<and> src_lonM s \<noteq> PyNone \<and> src_latR s \<noteq> PyNone \<and> src_lonR s \<noteq> PyNone then
           (case latlon2dlatdlon gpc (Val (src_latM s)) (Val (src_lonM s)) (Val (src_latR s)) (Val (src_lonR s))
                   default_warn_distance None None of
              Inl e \<Rightarrow> (s, [], Some e)
            | Inr ((dlat, dlon), ws) \<Rightarrow> (s\<lparr>src_dlatM := dlat, src_dlonM := dlon\<rparr>, ws, None))
         else
           (s, [], Some (ValueError (Some (missing_names
              [(''dlatM'', src_dlatM s), (''dlonM'', src_dlonM s), (''latM'', src_latM s),
               (''lonM'', src_lonM s), (''latR'', src_latR s), (''lonR'', src_lonR s)])))))
      else (s, [], None))"

definition dxdy_rotate ::
  "gpconstants \<Rightarrow> source \<Rightarrow> source \<times> warning list \<times> error option" where
  "dxdy_rotate gpc s =
     (if src_wind_direction s = PyNone then
        (s, [], Some (ValueError (Some ''GPSource.calculate_dxdy(): no data for wind_direction'')))
      else
        (case dlatdlon2dxdy gpc (Val (src_dlatS s)) (Val (src_dlonS s)) (Val (src_dlatM s)) (Val (src_dlonM s))
                (Val (src_wind_direction s)) default_warn_distance of
           Inl e \<Rightarrow> (s, [], Some e)
         | Inr ((dx', dy'), ws) \<Rightarrow> (s\<lparr>src_dx := dx', src_dy := dy'\<rparr>, ws, None)))"

definition source_calculate_dxdy ::
  "gpconstants \<Rightarrow> source \<Rightarrow> int \<Rightarrow> source \<times> warning list \<times> error option" where
  "source_calculate_dxdy gpc s verbose =
     (if src_dx s \<noteq> PyNone \<and> src_dy s \<noteq> PyNone then (s, [], None)
      else
        (case dxdy_source_offsets gpc s of
           (s1, ws1, Some e) \<Rightarrow> (s1, ws1, Some e)
         | (s1, ws1, None) \<Rightarrow>
             (case dxdy_measurement_offsets gpc s1 of
                (s2, ws2, Some e) \<Rightarrow> (s2, ws1 @ ws2, Some e)
              | (s2, ws2, None) \<Rightarrow>
                  (case dxdy_rotate gpc s2 of
                     (s3, ws3, r) \<Rightarrow> (s3, ws1 @ ws2 @ ws3, r)))))"


section \<open>The plume model (GPPlumeModel.py)\<close>

text \<open>
  A \<^verbatim>\<open>DataFrame\<close> is its columns in order, each a name and the values of the rows; the
  column names are taken to be distinct. \<^verbatim>\<open>df.loc[:, name]\<close> is the column as an array,
  \<^verbatim>\<open>KeyError\<close> when there is none. \<^verbatim>\<open>df.insert(loc, name, value)\<close> puts a new column at
  position \<open>loc\<close> and is a \<^verbatim>\<open>ValueError\<close> when the name exists already; a number as
  value fills the rows.
\<close>

type_synonym dataframe = "(string \<times> npfloat list) list"

definition columns :: "dataframe \<Rightarrow> string list" where
  "columns df = map fst df"

definition nrows :: "dataframe \<Rightarrow> nat" where
  "nrows df = (case df of [] \<Rightarrow> 0 | c # cs \<Rightarrow> length (snd c))"

definition df_loc :: "dataframe \<Rightarrow> string \<Rightarrow> error + pyval" where
  "df_loc df name = (case map_of df name of None \<Rightarrow> Inl KeyError | Some col \<Rightarrow> Inr (NDArray col))"

fun as_column :: "nat \<Rightarrow> pyval \<Rightarrow> error + npfloat list" where
  "as_column n (NDArray xs) = (if length xs = n then Inr xs else Inl (ValueError None))"
| "as_column n (Scalar v) = Inr (replicate n v)"
| "as_column n (PyFloat v) = Inr (replicate n v)"
| "as_column n PyNone = Inl (ValueError None)"

definition df_insert :: "dataframe \<Rightarrow> nat \<Rightarrow> string \<Rightarrow> pyval \<Rightarrow> error + dataframe" where
  "df_insert df loc name v =
     (if name \<in> set (columns df) then Inl (ValueError None)
      else if length df < loc then Inl (IndexError None)
      else bindE (as_column (nrows df) v) (\<lambda>col. Inr (take loc df @ [(name, col)] @ drop loc df)))"

text \<open>
  The attributes of a \<^verbatim>\<open>Plume\<close> that the modelled methods read or write;
  \<^verbatim>\<open>self.df\<close> is the field \<open>plume_df\<close>, and so on. The properties of a molecule are a
  dictionary, given as its items.
\<close>

record plume =
  plume_verbose :: int
  plume_df :: "dataframe option"
  plume_dispersion_constants :: "npfloat list list option"
  plume_molecules :: "string list option"
  plume_molecular_properties :: "(string \<times> pyval) list list option"
  plume_molecular_mass :: "pyval list option"
  plume_mode :: "string option"

text \<open>
  What a call passes: the instance, an integer or a string. A call binds the positional
  arguments to the parameters from the left and then the keyword arguments by name;
  too many positional arguments, a keyword that is no parameter, and a keyword for a
  parameter that a positional argument has bound already are each a \<^verbatim>\<open>TypeError\<close>.
\<close>

datatype pyobj = Instance | IntObj int | StrObj string

definition bind_keyword ::
  "string list \<Rightarrow> error + (string \<times> pyobj) list \<Rightarrow> string \<times> pyobj
     \<Rightarrow> error + (string \<times> pyobj) list" where
  "bind_keyword params r kw =
     bindE r (\<lambda>env.
       if fst kw \<notin> set params then Inl TypeError
       else if fst kw \<in> set (map fst env) then Inl TypeError
       else Inr (env @ [kw]))"

definition bind_arguments ::
  "string list \<Rightarrow> pyobj list \<Rightarrow> (string \<times> pyobj) list \<Rightarrow> error + (string \<times> pyobj) list" where
  "bind_arguments params positional keywords =
     (if length params < length positional then Inl TypeError
      else foldl (bind_keyword params) (Inr (zip params positional)) keywords)"

text \<open>
  A call \<^verbatim>\<open>self.method(positional, keywords)\<close> of a method with the signature
  \<^verbatim>\<open>(self, verbose = 0)\<close>: the bound method puts the instance in front of the positional
  arguments. Every such method starts with \<^verbatim>\<open>print_vars\<close>, which compares the verbosity with
  an integer and so raises \<^verbatim>\<open>TypeError\<close> for one that is no number; then the body runs.
\<close>

definition call_method ::
  "(plume \<Rightarrow> int \<Rightarrow> plume \<times> warning list \<times> error option) \<Rightarrow> plume \<Rightarrow> pyobj list
     \<Rightarrow> (string \<times> pyobj) list \<Rightarrow> plume \<times> warning list \<times> error option" where
  "call_method body self positional keywords =
     (case bind_arguments [''self'', ''verbose''] (Instance # positional) keywords of
        Inl e \<Rightarrow> (self, [], Some e)
      | Inr env \<Rightarrow>
          (case map_of env ''verbose'' of
             None \<Rightarrow> body self (print_vars 0 (plume_verbose self))
           | Some (IntObj v) \<Rightarrow> body self (print_vars v (plume_verbose self))
           | Some other \<Rightarrow> (self, [], Some TypeError)))"

text \<open>
  \<^verbatim>\<open>calculate_concentration_prepare_dxdy\<close>. Reading \<^verbatim>\<open>self.df.columns\<close> of a \<^verbatim>\<open>Plume\<close> without
  a table is an \<^verbatim>\<open>AttributeError\<close>. The two columns are inserted at the same position, the
  former number of columns, \<^verbatim>\<open>dy\<close> first, so that \<^verbatim>\<open>dx\<close> comes to stand before it; the first
  insertion stays when the second raises.
\<close>

definition compute_dxdy_columns ::
  "gpconstants \<Rightarrow> dataframe \<Rightarrow> error + ((pyval \<times> pyval) \<times> warning list)" where
  "compute_dxdy_columns gpc df =
     bindE (df_loc df ''latM'') (\<lambda>latM. bindE (df_loc df ''lonM'') (\<lambda>lonM.
     bindE (df_loc df ''latR'') (\<lambda>latR. bindE (df_loc df ''lonR'') (\<lambda>lonR.
     bindE (latlon2dlatdlon gpc (Val latM) (Val lonM) (Val latR) (Val lonR)
              default_warn_distance None None) (\<lambda>m.
     bindE (df_loc df ''latS'') (\<lambda>latS. bindE (df_loc df ''lonS'') (\<lambda>lonS.
     bindE (latlon2dlatdlon gpc (Val latS) (Val lonS) (Val latR) (Val lonR)
              default_warn_distance None None) (\<lambda>s.
     bindE (df_loc df ''wind_direction'') (\<lambda>wind_direction.
     bindE (dlatdlon2dxdy gpc (Val (fst (fst s))) (Val (snd (fst s))) (Val (fst (fst m)))
              (Val (snd (fst m))) (Val wind_direction) default_warn_distance) (\<lambda>r.
     Inr (fst r, snd m @ snd s @ snd r)))))))))))"

definition calculate_concentration_prepare_dxdy ::
  "gpconstants \<Rightarrow> plume \<Rightarrow> int \<Rightarrow> plume \<times> warning list \<times> error option" where
  "calculate_concentration_prepare_dxdy gpc self verbose =
     (case plume_df self of
        None \<Rightarrow> (self, [], Some AttributeError)
      | Some df \<Rightarrow>
          (let cn = columns df in
           if ''dx'' \<notin> set cn \<or> ''dy'' \<notin> set cn then
             (if ''latS'' \<in> set cn \<and> ''lonS'' \<in> set cn \<and> ''latM'' \<in> set cn \<and>
                 ''lonM'' \<in> set cn \<and> ''latR'' \<in> set cn \<and> ''lonR'' \<in> set cn \<and>
                 ''wind_direction'' \<in> set cn then
                (case compute_dxdy_columns gpc df of
                   Inl e \<Rightarrow> (self, [], Some e)
                 | Inr ((dx, dy), ws) \<Rightarrow>
                     (let idx = length (columns df) in
                      case df_insert df idx ''dy'' dy of
                        Inl e \<Rightarrow> (self, ws, Some e)
                      | Inr df1 \<Rightarrow>
                          (case df_insert df1 idx ''dx'' dx of
                             Inl e \<Rightarrow> (self\<lparr>plume_df := Some df1\<rparr>, ws, Some e)
                           | Inr df2 \<Rightarrow> (self\<lparr>plume_df := Some df2\<rparr>, ws, None))))
              else (self, [], Some (ValueError (Some ''''))))
           else (self, [], None)))"

text \<open>
  \<^verbatim>\<open>calculate_concentration_prepare_tc\<close>. The module \<^verbatim>\<open>GPFunctions\<close> has \<^verbatim>\<open>calculate_tc\<close> and
  no \<^verbatim>\<open>calculate_Tc\<close>, so the branch that computes the column is an \<^verbatim>\<open>AttributeError\<close>.
\<close>

definition calculate_concentration_prepare_tc ::
  "plume \<Rightarrow> int \<Rightarrow> plume \<times> warning list \<times> error option" where
  "calculate_concentration_prepare_tc self verbose =
     (case plume_df self of
        None \<Rightarrow> (self, [], Some AttributeError)
      | Some df \<Rightarrow>
          (let cn = columns df in
           if ''tc'' \<notin> set cn then
             (if ''dx'' \<in> set cn \<and> ''wind_speed'' \<in> set cn then (self, [], Some AttributeError)
              else (self, [], Some (ValueError (Some ''''))))
           else (self, [], None)))"

text \<open>
  \<^verbatim>\<open>calculate_concentration_prepare_dispersion_constants\<close>. The call
  \<^verbatim>\<open>GPF.get_dispersion_constants(mode = ..., verbose = ...)\<close> names a keyword that the function
  \<^verbatim>\<open>get_dispersion_constants(dispersion_mode, verbose = 0)\<close> does not have.
\<close>

definition calculate_concentration_prepare_dispersion_constants ::
  "plume \<Rightarrow> int \<Rightarrow> plume \<times> warning list \<times> error option" where
  "calculate_concentration_prepare_dispersion_constants self verbose =
     (if plume_dispersion_constants self = None then
        (case plume_mode self of
           Some mode \<Rightarrow>
             (case bind_arguments [''dispersion_mode'', ''verbose''] []
                     [(''mode'', StrObj mode), (''verbose'', IntObj verbose)] of
                Inl e \<Rightarrow> (self, [], Some e)
              | Inr env \<Rightarrow> (self, [], Some TypeError))
         | None \<Rightarrow> (self, [], Some (ValueError (Some ''''))))
      else (self, [], None))"

text \<open>
  \<^verbatim>\<open>calculate_concentration_get_molecular_properties\<close>. The lookup of a molecule is
  \<^verbatim>\<open>GPConstants.molecule_properties\<close>, a parameter here. The two lists are attributes from
  the start of the loop on and grow in place, so they keep what was appended when a
  lookup raises.
\<close>

definition the_list :: "'a list option \<Rightarrow> 'a list" where
  "the_list r = (case r of None \<Rightarrow> [] | Some xs \<Rightarrow> xs)"

fun append_molecular_properties ::
  "(string \<Rightarrow> error + (string \<times> pyval) list) \<Rightarrow> plume \<Rightarrow> string list
     \<Rightarrow> plume \<times> warning list \<times> error option" where
  "append_molecular_properties molecule_properties self [] = (self, [], None)"
| "append_molecular_properties molecule_properties self (m # ms) =
     (case molecule_properties m of
        Inl e \<Rightarrow> (self, [], Some e)
      | Inr m_prop \<Rightarrow>
          (let self1 = self\<lparr>plume_molecular_properties :=
                 Some (the_list (plume_molecular_properties self) @ [m_prop])\<rparr>
           in case map_of m_prop ''molecular_mass'' of
                None \<Rightarrow> (self1, [], Some KeyError)
              | Some mass \<Rightarrow>
                  append_molecular_properties molecule_properties
                    (self1\<lparr>plume_molecular_mass :=
                       Some (the_list (plume_molecular_mass self1) @ [mass])\<rparr>) ms))"

definition calculate_concentration_get_molecular_properties ::
  "(string \<Rightarrow> error + (string \<times> pyval) list) \<Rightarrow> plume \<Rightarrow> int
     \<Rightarrow> plume \<times> warning list \<times> error option" where
  "calculate_concentration_get_molecular_properties molecule_properties self verbose =
     (case plume_molecules self of
        None \<Rightarrow> (self, [], Some (ValueError (Some '''')))
      | Some molecules \<Rightarrow>
          if length molecules = 0 then (self, [], Some (ValueError (Some '''')))
          else if plume_molecular_mass self = None then
            append_molecular_properties molecule_properties
              (self\<lparr>plume_molecular_properties := Some [], plume_molecular_mass := Some []\<rparr>)
              molecules
          else (self, [], None))"

text \<open>
  \<^verbatim>\<open>Plume.calculate_concentration\<close>: the four calls in sequence, each on the object the call
  before left, stopping at the first exception. The first call passes the keyword
  \<^verbatim>\<open>verbose\<close> only; the other three are written
  \<^verbatim>\<open>self.method(self, verbose = verbose)\<close>, with the instance as a positional argument.
\<close>

definition then_call ::
  "plume \<times> warning list \<times> error option \<Rightarrow> (plume \<Rightarrow> plume \<times> warning list \<times> error option)
     \<Rightarrow> plume \<times> warning list \<times> error option" where
  "then_call r f =
     (case r of
        (self, ws, Some e) \<Rightarrow> (self, ws, Some e)
      | (self, ws, None) \<Rightarrow> (case f self of (self', ws', r') \<Rightarrow> (self', ws @ ws', r')))"

definition plume_calculate_concentration ::
  "gpconstants \<Rightarrow> (string \<Rightarrow> error + (string \<times> pyval) list) \<Rightarrow> plume \<Rightarrow> int
     \<Rightarrow> plume \<times> warning list \<times> error option" where
  "plume_calculate_concentration gpc molecule_properties self verbose0 =
     (let verbose = print_vars verbose0 (plume_verbose self) in
      then_call (then_call (then_call
        (call_method (calculate_concentration_prepare_dxdy gpc) self []
           [(''verbose'', IntObj verbose)])
        (\<lambda>self. call_method calculate_concentration_prepare_tc self [Instance]
           [(''verbose'', IntObj verbose)]))
        (\<lambda>self. call_method calculate_concentration_prepare_dispersion_constants self [Instance]
           [(''verbose'', IntObj verbose)]))
        (\<lambda>self. call_method (calculate_concentration_get_molecular_properties molecule_properties)
           self [Instance] [(''verbose'', IntObj verbose)]))"

section \<open>Sample objects\<close>

text \<open>
  A source as \<^verbatim>\<open>Source(1, molecule)\<close> constructs it, no keyword given: every optional
  attribute is \<^verbatim>\<open>None\<close>. A plume without a table. And the tables of two tests,
  \<^verbatim>\<open>test_basic_dxdy\<close> and \<^verbatim>\<open>test_basic_dxdy_calculate\<close>, rounded to whole numbers.
\<close>

definition sample_molecule :: molecule where
  "sample_molecule = \<lparr>mol_name = ''ch4'', mol_mass = PyFloat (Fin 16)\<rparr>"

definition new_source :: source where
  "new_source =
     \<lparr>src_verbose = 0, src_source_id = 1, src_molecule = sample_molecule,
      src_label = ''1 ch4'', src_dx = PyNone, src_dy = PyNone, src_dlatS = PyNone,
      src_dlonS = PyNone, src_dlatM = PyNone, src_dlonM = PyNone, src_latS = PyNone,
      src_lonS = PyNone, src_latR = PyNone, src_lonR = PyNone, src_latM = PyNone,
      src_lonM = PyNone, src_wind_direction = PyNone, src_wind_speed = PyNone,
      src_qs = PyNone, src_hs = PyNone, src_hm = PyNone, src_z0 = PyNone, src_zr = PyNone,
      src_offset_sigma_z = PyNone, src_dispersion_mode = None,
      src_dispersion_constants = None, src_tc = PyNone, src_sigma_y = PyNone,
      src_sigma_z = PyNone, src_stability_index = None, src_stability_class = None\<rparr>"

definition new_plume :: plume where
  "new_plume =
     \<lparr>plume_verbose = 0, plume_df = None, plume_dispersion_constants = None,
      plume_molecules = None, plume_molecular_properties = None,
      plume_molecular_mass = None, plume_mode = None\<rparr>"

definition dxdy_table :: dataframe where
  "dxdy_table = [(''dx'', [Fin (- 296), Fin (- 50)]), (''dy'', [Fin (- 413), Fin (- 506)])]"

definition latlon_table :: dataframe where
  "latlon_table =
     [(''latS'', [Fin 53, Fin 53]), (''lonS'', [Fin 6, Fin 6]),
      (''latM'', [Fin 54, Fin 54]), (''lonM'', [Fin 7, Fin 7]),
      (''latR'', [Fin 52, Fin 52]), (''lonR'', [Fin 5, Fin 5]),
      (''wind_direction'', [Fin 30, Fin 60])]"

text \<open>A lookup of molecule properties that knows one molecule.\<close>

definition sample_molecule_properties :: "string \<Rightarrow> error + (string \<times> pyval) list" where
  "sample_molecule_properties m =
     (if m = ''no'' then Inr [(''molecular_mass'', PyFloat (Fin 30))] else Inl KeyError)"
section \<open>Properties of the stability classification\<close>

lemma length_assign_at: "length (assign_at a i v) = length a"
  unfolding assign_at_def by (induction i arbitrary: a) auto

lemma nth_assign_at:
  "k < length a \<Longrightarrow> assign_at a i v ! k = (if k \<in> set i then v else a ! k)"
  unfolding assign_at_def
proof (induction i arbitrary: a)
  case Nil
  then show ?case by simp
next
  case (Cons j js)
  have "fold (\<lambda>k b. b[k := v]) js (a[j := v]) ! k =
        (if k \<in> set js then v else a[j := v] ! k)"
    using Cons.IH [of "a[j := v]"] Cons.prems by simp
  then show ?case using Cons.prems by (auto simp: nth_list_update)
qed

lemma class_step_array:
  assumes "length idx = length xs"
  shows "class_step (StrArray xs) idx (i, sc) =
         map2 (\<lambda>x old. if x = sc \<or> x = lower sc then int i else old) xs idx"
proof (rule nth_equalityI)
  show "length (class_step (StrArray xs) idx (i, sc)) =
        length (map2 (\<lambda>x old. if x = sc \<or> x = lower sc then int i else old) xs idx)"
    using assms by (simp add: class_step_def Let_def length_assign_at)
next
  fix k assume "k < length (class_step (StrArray xs) idx (i, sc))"
  then have k: "k < length xs"
    using assms by (simp add: class_step_def Let_def length_assign_at split: if_splits)
  show "class_step (StrArray xs) idx (i, sc) ! k =
        map2 (\<lambda>x old. if x = sc \<or> x = lower sc then int i else old) xs idx ! k"
    using k assms
    by (auto simp: class_step_def Let_def length_assign_at nth_assign_at filter_empty_conv)
qed

lemma lower_classes:
  "lower ''A'' = ''a''" "lower ''B'' = ''b''" "lower ''C'' = ''c''"
  "lower ''D'' = ''d''" "lower ''E'' = ''e''" "lower ''F'' = ''f''"
  by code_simp+

lemma class_loop_array:
  "foldl (class_step (StrArray xs)) (replicate (length xs) (- 1))
     (enumerate 0 stability_classes) = map class_code xs"
proof -
  have e: "enumerate 0 stability_classes =
      [(0, ''A''), (1, ''B''), (2, ''C''), (3, ''D''), (4, ''E''), (5, ''F'')]"
    by (simp add: stability_classes_def)
  show ?thesis
    unfolding e
    by (rule nth_equalityI)
      (simp_all add: class_step_array lower_classes class_code_def)
qed


lemma upper_letters:
  "upper ''A'' = ''A''" "upper ''B'' = ''B''" "upper ''C'' = ''C''"
  "upper ''D'' = ''D''" "upper ''E'' = ''E''" "upper ''F'' = ''F''"
  "upper ''a'' = ''A''" "upper ''b'' = ''B''" "upper ''c'' = ''C''"
  "upper ''d'' = ''D''" "upper ''e'' = ''E''" "upper ''f'' = ''F''"
  by code_simp+

lemma class_code_letter:
  "x \<in> class_letters \<Longrightarrow> 0 \<le> class_code x \<and> class_code x \<le> 5 \<and>
     stability_classes ! nat (class_code x) = upper x"
  unfolding class_letters_def
  by (auto simp: class_code_def stability_classes_def upper_letters)

lemma class_code_invalid: "class_code x = - 1 \<longleftrightarrow> x \<notin> class_letters"
  by (auto simp: class_code_def class_letters_def)

lemma class_code_invalid': "- 1 = class_code x \<longleftrightarrow> x \<notin> class_letters"
  by (auto simp: class_code_def class_letters_def)

lemma class_code_index:
  "0 \<le> j \<Longrightarrow> j \<le> 5 \<Longrightarrow> class_code (stability_classes ! nat j) = j"
proof -
  assume "0 \<le> j" "j \<le> 5"
  then have "j = 0 \<or> j = 1 \<or> j = 2 \<or> j = 3 \<or> j = 4 \<or> j = 5" by arith
  then show ?thesis
    by (elim disjE) (simp_all add: class_code_def stability_classes_def)
qed

lemma class2index_array_StrArray:
  "class2index_array (StrArray xs) =
     (if list_ex (\<lambda>x. x \<notin> class_letters) xs then
        (let bad = filter (\<lambda>x. x \<notin> class_letters) xs in
         if length bad < 3 then
           Inl (ValueError (Some (''Invalid inputs for stability_class:'' @
                 concat (map (\<lambda>x. '' '' @ x) bad))))
         else Inl (ValueError (Some (format_d (int (length bad)) @
                 '' invalid inputs for stability_class''))))
      else Inr (IntArray (map class_code xs)))"
proof -
  let ?inv = "filter (\<lambda>k. map class_code xs ! k = - 1) [0..<length xs]"
  have inv: "?inv = filter (\<lambda>k. xs ! k \<notin> class_letters) [0..<length xs]"
    by (rule filter_cong) (auto simp: class_code_invalid)
  have bad: "map ((!) xs) ?inv = filter (\<lambda>x. x \<notin> class_letters) xs"
  proof -
    have "filter (\<lambda>x. x \<notin> class_letters) (map ((!) xs) [0..<length xs]) =
          map ((!) xs) (filter ((\<lambda>x. x \<notin> class_letters) \<circ> (!) xs) [0..<length xs])"
      by (rule filter_map)
    then show ?thesis by (simp add: inv map_nth comp_def)
  qed
  have msg: "foldl (\<lambda>s ii. s @ '' '' @ xs ! ii) p js =
             p @ concat (map (\<lambda>x. '' '' @ x) (map ((!) xs) js))" for p js
    by (induction js arbitrary: p) simp_all
  have ex: "list_ex (\<lambda>j. j = - 1) (map class_code xs) = list_ex (\<lambda>x. x \<notin> class_letters) xs"
    by (auto simp: list_ex_iff class_code_invalid class_code_invalid' image_iff)
  have len: "length ?inv = length (filter (\<lambda>x. x \<notin> class_letters) xs)"
    using bad by (metis length_map)
  have fold_msg: "foldl (\<lambda>s ii. s @ '' '' @ class_item (StrArray xs) ii) p ?inv =
        p @ concat (map (\<lambda>x. '' '' @ x) (filter (\<lambda>x. x \<notin> class_letters) xs))" for p
    using msg [of p ?inv] by (simp only: class_item.simps bad)
  show ?thesis
    by (simp only: class2index_array_def Let_def class_len.simps class_loop_array
          length_map ex len fold_msg)
qed


lemma char_upper_class:
  "char_upper c = CHR ''A'' \<longleftrightarrow> c = CHR ''A'' \<or> c = CHR ''a''"
  "char_upper c = CHR ''B'' \<longleftrightarrow> c = CHR ''B'' \<or> c = CHR ''b''"
  "char_upper c = CHR ''C'' \<longleftrightarrow> c = CHR ''C'' \<or> c = CHR ''c''"
  "char_upper c = CHR ''D'' \<longleftrightarrow> c = CHR ''D'' \<or> c = CHR ''d''"
  "char_upper c = CHR ''E'' \<longleftrightarrow> c = CHR ''E'' \<or> c = CHR ''e''"
  "char_upper c = CHR ''F'' \<longleftrightarrow> c = CHR ''F'' \<or> c = CHR ''f''"
  by (cases c; auto simp: char_upper_def Let_def char_of_def bit_0 split: if_splits)+


lemma upper_singleton: "upper s = [C] \<Longrightarrow> \<exists>c. s = [c] \<and> char_upper c = C"
    by (cases s) (auto simp: upper_def)
lemma upper_class_letter:
  "upper s \<in> set stability_classes \<longleftrightarrow> s \<in> class_letters"
proof
  assume "s \<in> class_letters"
  then show "upper s \<in> set stability_classes"
    unfolding class_letters_def
    by (elim insertE emptyE) (simp_all add: upper_letters stability_classes_def)
next
  assume "upper s \<in> set stability_classes"
  then consider "upper s = ''A''" | "upper s = ''B''" | "upper s = ''C''"
    | "upper s = ''D''" | "upper s = ''E''" | "upper s = ''F''"
    unfolding stability_classes_def by (simp only: set_simps) (elim insertE emptyE)
  then show "s \<in> class_letters"
  proof cases
    case 1
    from upper_singleton [OF this] show ?thesis
      by (simp only: char_upper_class) (force simp: class_letters_def)
  next
    case 2
    from upper_singleton [OF this] show ?thesis
      by (simp only: char_upper_class) (force simp: class_letters_def)
  next
    case 3
    from upper_singleton [OF this] show ?thesis
      by (simp only: char_upper_class) (force simp: class_letters_def)
  next
    case 4
    from upper_singleton [OF this] show ?thesis
      by (simp only: char_upper_class) (force simp: class_letters_def)
  next
    case 5
    from upper_singleton [OF this] show ?thesis
      by (simp only: char_upper_class) (force simp: class_letters_def)
  next
    case 6
    from upper_singleton [OF this] show ?thesis
      by (simp only: char_upper_class) (force simp: class_letters_def)
  qed
qed


lemma upt_6: "[0..<6] = [0, 1, 2, 3, 4, 5 :: nat]"
  by code_simp

lemma class2index_PyStr:
  "stability_class2index (PyStr s) =
     (if s \<in> class_letters then Inr (IntArray [class_code s])
      else Inl (ValueError (Some (''stability_class '' @ s @ '' does not exist''))))"
proof (cases "s \<in> class_letters")
  case True
  then show ?thesis
    unfolding class_letters_def
    by (elim insertE emptyE)
      (simp_all add: stability_class2index_def upper_letters stability_classes_def
         class_code_def upt_6)
next
  case False
  then have "\<And>k. k < length stability_classes \<Longrightarrow> upper s \<noteq> stability_classes ! k"
    using upper_class_letter [of s] by (metis nth_mem)
  then have "filter (\<lambda>k. upper s = stability_classes ! k) [0..<length stability_classes] = []"
    by (simp add: filter_empty_conv)
  then show ?thesis
    using False by (simp add: stability_class2index_def)
qed


lemma class2index_valid_array:
  assumes "set cs \<subseteq> class_letters"
  shows "class2index_array (StrArray cs) = Inr (IntArray (map class_code cs))"
proof -
  have "\<not> list_ex (\<lambda>x. x \<notin> class_letters) cs"
    using assms by (auto simp: list_ex_iff)
  then show ?thesis by (simp add: class2index_array_StrArray)
qed

lemma index2class_codes:
  assumes "set cs \<subseteq> class_letters"
  shows "stability_index2class (IntArray (map class_code cs)) = Inr (StrArray (map upper cs))"
proof -
  have ok: "\<And>x. x \<in> set cs \<Longrightarrow>
      0 \<le> class_code x \<and> class_code x \<le> 5 \<and> stability_classes ! nat (class_code x) = upper x"
    using assms class_code_letter by blast
  have "\<not> list_ex (\<lambda>j. j < 0) (map class_code cs)" "\<not> list_ex (\<lambda>j. j > 5) (map class_code cs)"
    using ok by (force simp: list_ex_iff)+
  moreover have "map (\<lambda>j. stability_classes ! nat j) (map class_code cs) = map upper cs"
    using ok by simp
  ultimately show ?thesis
    by (simp only: stability_index2class_def index_arg.case if_False simp_thms)
qed

lemma index2class_valid_array:
  assumes "list_all (\<lambda>j. 0 \<le> j \<and> j \<le> 5) js"
  shows "stability_index2class (IntArray js) =
           Inr (StrArray (map (\<lambda>j. stability_classes ! nat j) js))"
    and "class2index_array (StrArray (map (\<lambda>j. stability_classes ! nat j) js)) =
           Inr (IntArray js)"
proof -
  have ok: "\<And>j. j \<in> set js \<Longrightarrow> 0 \<le> j \<and> j \<le> 5"
    using assms by (simp add: list_all_iff)
  have "\<not> list_ex (\<lambda>j. j < 0) js" "\<not> list_ex (\<lambda>j. j > 5) js"
    using ok by (force simp: list_ex_iff)+
  then show "stability_index2class (IntArray js) =
      Inr (StrArray (map (\<lambda>j. stability_classes ! nat j) js))"
    by (simp only: stability_index2class_def index_arg.case if_False simp_thms)
  have letters: "set (map (\<lambda>j. stability_classes ! nat j) js) \<subseteq> class_letters"
  proof -
    have "stability_classes ! nat j \<in> class_letters" if "0 \<le> j" "j \<le> 5" for j
      using class_code_index [OF that] class_code_invalid [of "stability_classes ! nat j"] that
      by auto
    then show ?thesis using ok by auto
  qed
  have "map class_code (map (\<lambda>j. stability_classes ! nat j) js) = js"
    using ok by (simp add: class_code_index map_idI)
  then show "class2index_array (StrArray (map (\<lambda>j. stability_classes ! nat j) js)) =
      Inr (IntArray js)"
    using class2index_valid_array [OF letters] by simp
qed

lemma scalar_roundtrip:
  "bindE (stability_index2class (PyInt 0)) stability_class2index = Inr (IntArray [0])"
  "bindE (stability_index2class (PyInt 1)) stability_class2index = Inr (IntArray [1])"
  "bindE (stability_index2class (PyInt 2)) stability_class2index = Inr (IntArray [2])"
  "bindE (stability_index2class (PyInt 3)) stability_class2index = Inr (IntArray [3])"
  "bindE (stability_index2class (PyInt 4)) stability_class2index = Inr (IntArray [4])"
  "bindE (stability_index2class (PyInt 5)) stability_class2index = Inr (IntArray [5])"
  by code_simp+

text \<open>
  Claim C4. For every index \<open>i\<close> from 0 to 5, converting it to its class and back gives the
  index again: for a Python int the answer is the one-element index array holding \<open>i\<close>
  (which NumPy's \<^verbatim>\<open>==\<close> compares equal to \<open>i\<close>), for an index array the same array. For
  every class letter in either case, converting it to its index and back gives its upper-case
  form: the one-element array of it for a Python string, entry by entry for an array or a list.
\<close>
theorem stability_conversions_inverse:
  "(0 \<le> i \<and> i \<le> 5 \<longrightarrow>
      bindE (stability_index2class (PyInt i)) stability_class2index = Inr (IntArray [i]))
   \<and> (list_all (\<lambda>j. 0 \<le> j \<and> j \<le> 5) js \<longrightarrow>
      bindE (stability_index2class (IntArray js)) stability_class2index = Inr (IntArray js))
   \<and> (c \<in> class_letters \<longrightarrow>
      bindE (stability_class2index (PyStr c)) stability_index2class = Inr (StrArray [upper c]))
   \<and> (set cs \<subseteq> class_letters \<longrightarrow>
      bindE (stability_class2index (StrArray cs)) stability_index2class =
        Inr (StrArray (map upper cs)) \<and>
      bindE (stability_class2index (StrList cs)) stability_index2class =
        Inr (StrArray (map upper cs)))"
proof (intro conjI impI)
  assume i: "0 \<le> i \<and> i \<le> 5"
  then have "i = 0 \<or> i = 1 \<or> i = 2 \<or> i = 3 \<or> i = 4 \<or> i = 5" by arith
  then show "bindE (stability_index2class (PyInt i)) stability_class2index = Inr (IntArray [i])"
    by (elim disjE) (simp_all only: scalar_roundtrip)
next
  assume "list_all (\<lambda>j. 0 \<le> j \<and> j \<le> 5) js"
  from index2class_valid_array [OF this]
  show "bindE (stability_index2class (IntArray js)) stability_class2index = Inr (IntArray js)"
    by (simp add: bindE_def stability_class2index_def)
next
  assume c: "c \<in> class_letters"
  then have "set [c] \<subseteq> class_letters" by simp
  from index2class_codes [OF this] c
  show "bindE (stability_class2index (PyStr c)) stability_index2class = Inr (StrArray [upper c])"
    by (simp add: bindE_def class2index_PyStr)
next
  assume cs: "set cs \<subseteq> class_letters"
  show "bindE (stability_class2index (StrArray cs)) stability_index2class =
        Inr (StrArray (map upper cs))"
    using class2index_valid_array [OF cs] index2class_codes [OF cs]
    by (simp add: bindE_def stability_class2index_def)
  show "bindE (stability_class2index (StrList cs)) stability_index2class =
        Inr (StrArray (map upper cs))"
    using class2index_valid_array [OF cs] index2class_codes [OF cs]
    by (simp add: bindE_def stability_class2index_def)
qed

theorem stability_conversions_inverse_witness:
  "bindE (stability_index2class (PyInt 3)) stability_class2index = Inr (IntArray [3])
   \<and> bindE (stability_index2class (IntArray [4, 3, 1])) stability_class2index =
       Inr (IntArray [4, 3, 1])
   \<and> bindE (stability_class2index (PyStr ''e'')) stability_index2class = Inr (StrArray [''E''])
   \<and> bindE (stability_class2index (StrArray [''a'', ''F''])) stability_index2class =
       Inr (StrArray [''A'', ''F''])
   \<and> bindE (stability_class2index (StrList [''a'', ''F''])) stability_index2class =
       Inr (StrArray [''A'', ''F''])"
  using stability_conversions_inverse [where i = 3 and js = "[4, 3, 1]" and c = "''e''"
      and cs = "[''a'', ''F'']"]
  by (simp add: class_letters_def upper_letters)






section \<open>Entry-wise reading of array expressions\<close>

lemma bindE_Inr: "bindE m f = Inr c \<Longrightarrow> \<exists>a. m = Inr a \<and> f a = Inr c"
  by (cases m) (simp_all add: bindE_def)

lemma bindE_simps [simp]: "bindE (Inr a) f = f a" "bindE (Inl e) f = Inl e"
  by (simp_all add: bindE_def)

lemma ufunc2_entry:
  assumes "ufunc2 f a b = Inr c" "valid_at c k"
  shows "valid_at a k \<and> valid_at b k \<and> entry c k = f (entry a k) (entry b k)"
proof -
  from assms(1) have nn: "a \<noteq> PyNone" "b \<noteq> PyNone"
    by (auto simp: ufunc2_def split: if_splits)
  from assms(1) nn obtain s where s: "broadcast_shape (shape_of a) (shape_of b) = Inr s"
    and c: "c = build s (\<lambda>k. f (entry a k) (entry b k))"
    by (auto simp: ufunc2_def dest!: bindE_Inr)
  show ?thesis
  proof (cases "\<exists>xs. a = NDArray xs")
    case False
    then have a: "shape_of a = Dim0" "valid_at a k" "entry a k = entry a 0"
      using nn by (cases a; simp)+
    show ?thesis
    proof (cases b)
      case (NDArray ys)
      with a s c assms(2) show ?thesis by auto
    qed (use nn a s c in auto)
  next
    case True
    then obtain xs where xs: "a = NDArray xs" by blast
    show ?thesis
    proof (cases b)
      case (NDArray ys)
      with xs s c assms(2) show ?thesis
        by (auto split: if_splits)
    qed (use nn xs s c assms(2) in auto)
  qed
qed

lemma ufunc1_entry:
  assumes "ufunc1 f a = Inr c" "valid_at c k"
  shows "valid_at a k \<and> entry c k = f (entry a k)"
  using assms by (cases a) (auto simp: ufunc1_def split: if_splits)

lemma binop_numpy:
  "\<not> (\<exists>x y. a = PyFloat x \<and> b = PyFloat y) \<Longrightarrow> binop p f a b = ufunc2 f a b"
  by (cases a; cases b) simp_all

lemma binop_entry:
  assumes "binop p f a b = Inr c" "valid_at c k"
    and agree: "\<And>x y v. p x y = Inr v \<Longrightarrow> v = f x y"
  shows "valid_at a k \<and> valid_at b k \<and> entry c k = f (entry a k) (entry b k)"
proof (cases "\<exists>x y. a = PyFloat x \<and> b = PyFloat y")
  case True
  then obtain x y where xy: "a = PyFloat x" "b = PyFloat y" by blast
  with assms(1) obtain v where "p x y = Inr v" "c = PyFloat v"
    by (auto dest!: bindE_Inr)
  with agree [of x y v] xy show ?thesis by simp
next
  case False
  with assms(1) have "ufunc2 f a b = Inr c" by (simp add: binop_numpy)
  from ufunc2_entry [OF this assms(2)] show ?thesis .
qed

lemma float_ops_agree:
  "float_add x y = Inr v \<Longrightarrow> v = x + y"
  "float_sub x y = Inr v \<Longrightarrow> v = x - y"
  "float_mul x y = Inr v \<Longrightarrow> v = x * y"
  "float_truediv x y = Inr v \<Longrightarrow> v = x / y"
  "float_pow x y = Inr v \<Longrightarrow> v = np_pow x y"
  by (auto simp: float_add_def float_sub_def float_mul_def float_truediv_def float_pow_def
        split: if_splits npfloat.splits)

lemma elem_lift2:
  assumes "elem (lift2 p f ra rb) k v" and agree: "\<And>x y v. p x y = Inr v \<Longrightarrow> v = f x y"
  shows "\<exists>va vb. elem ra k va \<and> elem rb k vb \<and> v = f va vb"
proof -
  from assms(1) obtain c where c: "lift2 p f ra rb = Inr c" "valid_at c k" "entry c k = v"
    by (auto simp: elem_def split: sum.splits)
  from c(1) obtain a b where ab: "ra = Inr a" "rb = Inr b" "binop p f a b = Inr c"
    by (auto simp: lift2_def dest!: bindE_Inr)
  from binop_entry [OF ab(3) c(2) agree] ab c show ?thesis
    by (auto simp: elem_def)
qed

lemma elem_lift1:
  assumes "elem (lift1 f ra) k v"
  shows "\<exists>va. elem ra k va \<and> v = f va"
proof -
  from assms obtain c where c: "lift1 f ra = Inr c" "valid_at c k" "entry c k = v"
    by (auto simp: elem_def split: sum.splits)
  from c(1) obtain a where a: "ra = Inr a" "ufunc1 f a = Inr c"
    by (auto simp: lift1_def dest!: bindE_Inr)
  from ufunc1_entry [OF a(2) c(2)] a c show ?thesis
    by (auto simp: elem_def)
qed

lemma negative_entry:
  assumes "negative a = Inr c" "valid_at c k"
  shows "valid_at a k \<and> entry c k = - entry a k"
proof (cases a)
  case (PyFloat x)
  with assms show ?thesis by auto
qed (use assms ufunc1_entry [of uminus a c k] in auto)

lemma elem_neg:
  assumes "elem (py_neg ra) k v"
  shows "\<exists>va. elem ra k va \<and> v = - va"
proof -
  from assms obtain c where c: "py_neg ra = Inr c" "valid_at c k" "entry c k = v"
    by (auto simp: elem_def split: sum.splits)
  from c(1) obtain a where a: "ra = Inr a" "negative a = Inr c"
    by (auto simp: py_neg_def dest!: bindE_Inr)
  from negative_entry [OF a(2) c(2)] a c show ?thesis
    by (auto simp: elem_def)
qed

lemma elem_ops:
  "elem (py_add ra rb) k v \<Longrightarrow> \<exists>x y. elem ra k x \<and> elem rb k y \<and> v = x + y"
  "elem (py_sub ra rb) k v \<Longrightarrow> \<exists>x y. elem ra k x \<and> elem rb k y \<and> v = x - y"
  "elem (py_mul ra rb) k v \<Longrightarrow> \<exists>x y. elem ra k x \<and> elem rb k y \<and> v = x * y"
  "elem (py_truediv ra rb) k v \<Longrightarrow> \<exists>x y. elem ra k x \<and> elem rb k y \<and> v = x / y"
  "elem (py_pow ra rb) k v \<Longrightarrow> \<exists>x y. elem ra k x \<and> elem rb k y \<and> v = np_pow x y"
  unfolding py_add_def py_sub_def py_mul_def py_truediv_def py_pow_def
  by (erule elem_lift2, erule float_ops_agree)+

lemma elem_opsE:
  "elem (py_add ra rb) k v \<Longrightarrow> (\<And>x y. elem ra k x \<Longrightarrow> elem rb k y \<Longrightarrow> v = x + y \<Longrightarrow> P) \<Longrightarrow> P"
  "elem (py_sub ra rb) k v \<Longrightarrow> (\<And>x y. elem ra k x \<Longrightarrow> elem rb k y \<Longrightarrow> v = x - y \<Longrightarrow> P) \<Longrightarrow> P"
  "elem (py_mul ra rb) k v \<Longrightarrow> (\<And>x y. elem ra k x \<Longrightarrow> elem rb k y \<Longrightarrow> v = x * y \<Longrightarrow> P) \<Longrightarrow> P"
  "elem (py_truediv ra rb) k v \<Longrightarrow>
     (\<And>x y. elem ra k x \<Longrightarrow> elem rb k y \<Longrightarrow> v = x / y \<Longrightarrow> P) \<Longrightarrow> P"
  "elem (py_pow ra rb) k v \<Longrightarrow>
     (\<And>x y. elem ra k x \<Longrightarrow> elem rb k y \<Longrightarrow> v = np_pow x y \<Longrightarrow> P) \<Longrightarrow> P"
  "elem (py_neg ra) k v \<Longrightarrow> (\<And>x. elem ra k x \<Longrightarrow> v = - x \<Longrightarrow> P) \<Longrightarrow> P"
  "elem (numpy_exp ra) k v \<Longrightarrow> (\<And>x. elem ra k x \<Longrightarrow> v = np_exp x \<Longrightarrow> P) \<Longrightarrow> P"
  "elem (numpy_sin ra) k v \<Longrightarrow> (\<And>x. elem ra k x \<Longrightarrow> v = np_sin x \<Longrightarrow> P) \<Longrightarrow> P"
  "elem (numpy_cos ra) k v \<Longrightarrow> (\<And>x. elem ra k x \<Longrightarrow> v = np_cos x \<Longrightarrow> P) \<Longrightarrow> P"
  "elem (numpy_sqrt ra) k v \<Longrightarrow> (\<And>x. elem ra k x \<Longrightarrow> v = np_sqrt x \<Longrightarrow> P) \<Longrightarrow> P"
  unfolding numpy_exp_def numpy_sin_def numpy_cos_def numpy_sqrt_def
  by (blast dest: elem_ops elem_lift1 elem_neg)+

lemma elem_lit: "elem (lit r) k v \<longleftrightarrow> v = Fin r"
  by (auto simp: elem_def lit_def)

lemma elem_arg: "elem (arg c) k v \<longleftrightarrow> valid_at c k \<and> v = entry c k"
  by (auto simp: elem_def arg_def)


lemma elem_of_value: "m = Inr c \<Longrightarrow> valid_at c k \<Longrightarrow> elem m k (entry c k)"
  by (simp add: elem_def)

section \<open>Operators on numbers\<close>

lemma ufunc2_numbers:
  "ufunc2 f (Scalar a) (Scalar b) = Inr (Scalar (f a b))"
  "ufunc2 f (Scalar a) (PyFloat b) = Inr (Scalar (f a b))"
  "ufunc2 f (PyFloat a) (Scalar b) = Inr (Scalar (f a b))"
  by (simp_all add: ufunc2_def)

lemma ufunc1_numbers:
  "ufunc1 f (Scalar a) = Inr (Scalar (f a))"
  "ufunc1 f (PyFloat a) = Inr (Scalar (f a))"
  by (simp_all add: ufunc1_def)



lemma whole_two [simp]: "whole 2"
  by (simp add: whole_def)



lemmas number_ops =
  py_add_def py_sub_def py_mul_def py_truediv_def py_pow_def py_neg_def
  numpy_exp_def numpy_sin_def numpy_cos_def numpy_sqrt_def lit_def arg_def
  lift2_def lift1_def ufunc2_numbers ufunc1_numbers
  float_add_def float_sub_def float_mul_def float_truediv_def

section \<open>Properties of the concentration formula\<close>








section \<open>Expressions that return\<close>

lemma returns_fitting_iff: "returns_fitting n r \<longleftrightarrow> (\<exists>c. r = Inr c \<and> fits n c)"
  by (cases r) (auto simp: returns_fitting_def)

lemma returns_numpy_iff:
  "returns_numpy n r \<longleftrightarrow> (\<exists>c. r = Inr c \<and> fits n c \<and> numpy_value c)"
  by (cases r) (auto simp: returns_numpy_def)

lemma returns_below_iff:
  "returns_below B n r \<longleftrightarrow> (\<exists>c. r = Inr c \<and> fits n c \<and> below B c)"
  by (cases r) (auto simp: returns_below_def)

lemma returns_nonzero_iff:
  "returns_nonzero n r \<longleftrightarrow> (\<exists>c. r = Inr c \<and> fits n c \<and> nonzero c)"
  by (cases r) (auto simp: returns_nonzero_def)

lemma numpy_below [simp]: "numpy_value c \<Longrightarrow> below B c"
  by (cases c) simp_all

lemma numpy_nonzero [simp]: "numpy_value c \<Longrightarrow> nonzero c"
  by (cases c) simp_all


lemma numpy_fitting: "returns_numpy n r \<Longrightarrow> returns_fitting n r"
  by (auto simp: returns_numpy_iff returns_fitting_iff)


lemma nonzero_fitting: "returns_nonzero n r \<Longrightarrow> returns_fitting n r"
  by (auto simp: returns_nonzero_iff returns_fitting_iff)

lemma ufunc2_fits:
  "fits n a \<Longrightarrow> fits n b \<Longrightarrow> \<exists>c. ufunc2 f a b = Inr c \<and> fits n c \<and> numpy_value c"
  by (cases a; cases b) (auto simp: ufunc2_def)

lemma ufunc1_fits: "fits n a \<Longrightarrow> \<exists>c. ufunc1 f a = Inr c \<and> fits n c \<and> numpy_value c"
  by (cases a) (auto simp: ufunc1_def)

lemma binop_fits_numpy:
  assumes "fits n a" "fits n b" "numpy_value a \<or> numpy_value b"
  shows "\<exists>c. binop p f a b = Inr c \<and> fits n c \<and> numpy_value c"
proof -
  from assms(3) have "\<not> (\<exists>x y. a = PyFloat x \<and> b = PyFloat y)" by auto
  then show ?thesis
    using ufunc2_fits [OF assms(1,2)] by (simp add: binop_numpy)
qed

lemma binop_fits_total:
  assumes "fits n a" "fits n b" "\<And>x y. \<exists>v. p x y = Inr v"
  shows "\<exists>c. binop p f a b = Inr c \<and> fits n c"
proof (cases "\<exists>x y. a = PyFloat x \<and> b = PyFloat y")
  case True
  then obtain x y where "a = PyFloat x" "b = PyFloat y" by blast
  moreover from assms(3) obtain v where "p x y = Inr v" by blast
  ultimately show ?thesis by simp
next
  case False
  then show ?thesis
    using ufunc2_fits [OF assms(1,2)] by (auto simp: binop_numpy)
qed

lemma lift2_numpy_left:
  "returns_numpy n ra \<Longrightarrow> returns_fitting n rb \<Longrightarrow> returns_numpy n (lift2 p f ra rb)"
  using binop_fits_numpy by (fastforce simp: returns_numpy_iff returns_fitting_iff lift2_def)

lemma lift2_numpy_right:
  "returns_fitting n ra \<Longrightarrow> returns_numpy n rb \<Longrightarrow> returns_numpy n (lift2 p f ra rb)"
  using binop_fits_numpy by (fastforce simp: returns_numpy_iff returns_fitting_iff lift2_def)

lemma lift2_fits:
  "(\<And>x y. \<exists>v. p x y = Inr v) \<Longrightarrow> returns_fitting n ra \<Longrightarrow> returns_fitting n rb \<Longrightarrow>
   returns_fitting n (lift2 p f ra rb)"
  using binop_fits_total [of n _ _ p f]
  by (fastforce simp: returns_fitting_iff lift2_def)

lemma lift1_numpy: "returns_fitting n ra \<Longrightarrow> returns_numpy n (lift1 f ra)"
  using ufunc1_fits by (fastforce simp: returns_fitting_iff returns_numpy_iff lift1_def)

lemma negative_fits: "fits n a \<Longrightarrow> \<exists>c. negative a = Inr c \<and> fits n c"
  using ufunc1_fits [of n a uminus] by (cases a) auto

text \<open>
  The operators that return whatever the numbers are; those that return a NumPy value when
  an operand is one, by the side of that operand.
\<close>

lemma ops_fit:
  "returns_fitting n ra \<Longrightarrow> returns_fitting n rb \<Longrightarrow> returns_fitting n (py_add ra rb)"
  "returns_fitting n ra \<Longrightarrow> returns_fitting n rb \<Longrightarrow> returns_fitting n (py_sub ra rb)"
  "returns_fitting n ra \<Longrightarrow> returns_fitting n rb \<Longrightarrow> returns_fitting n (py_mul ra rb)"
  "returns_fitting n ra \<Longrightarrow> returns_fitting n (py_neg ra)"
  "returns_fitting n ra \<Longrightarrow> returns_fitting n (numpy_exp ra)"
  "returns_fitting n ra \<Longrightarrow> returns_fitting n (numpy_sin ra)"
  "returns_fitting n ra \<Longrightarrow> returns_fitting n (numpy_cos ra)"
  "returns_fitting n ra \<Longrightarrow> returns_fitting n (numpy_sqrt ra)"
  "returns_fitting n (lit r)"
  "fits n v \<Longrightarrow> returns_fitting n (arg v)"
proof -
  show "returns_fitting n ra \<Longrightarrow> returns_fitting n rb \<Longrightarrow> returns_fitting n (py_add ra rb)"
    unfolding py_add_def by (rule lift2_fits) (simp_all add: float_add_def)
  show "returns_fitting n ra \<Longrightarrow> returns_fitting n rb \<Longrightarrow> returns_fitting n (py_sub ra rb)"
    unfolding py_sub_def by (rule lift2_fits) (simp_all add: float_sub_def)
  show "returns_fitting n ra \<Longrightarrow> returns_fitting n rb \<Longrightarrow> returns_fitting n (py_mul ra rb)"
    unfolding py_mul_def by (rule lift2_fits) (simp_all add: float_mul_def)
  show "returns_fitting n ra \<Longrightarrow> returns_fitting n (py_neg ra)"
    using negative_fits by (fastforce simp: returns_fitting_iff py_neg_def)
  show "returns_fitting n ra \<Longrightarrow> returns_fitting n (numpy_exp ra)"
    "returns_fitting n ra \<Longrightarrow> returns_fitting n (numpy_sin ra)"
    "returns_fitting n ra \<Longrightarrow> returns_fitting n (numpy_cos ra)"
    "returns_fitting n ra \<Longrightarrow> returns_fitting n (numpy_sqrt ra)"
    unfolding numpy_exp_def numpy_sin_def numpy_cos_def numpy_sqrt_def
    by (auto intro: numpy_fitting lift1_numpy)
  show "returns_fitting n (lit r)" "fits n v \<Longrightarrow> returns_fitting n (arg v)"
    by (simp_all add: returns_fitting_def lit_def arg_def)
qed

lemma ops_numpy_left:
  "returns_numpy n ra \<Longrightarrow> returns_fitting n rb \<Longrightarrow> returns_numpy n (py_add ra rb)"
  "returns_numpy n ra \<Longrightarrow> returns_fitting n rb \<Longrightarrow> returns_numpy n (py_sub ra rb)"
  "returns_numpy n ra \<Longrightarrow> returns_fitting n rb \<Longrightarrow> returns_numpy n (py_mul ra rb)"
  "returns_numpy n ra \<Longrightarrow> returns_fitting n rb \<Longrightarrow> returns_numpy n (py_truediv ra rb)"
  "returns_numpy n ra \<Longrightarrow> returns_fitting n rb \<Longrightarrow> returns_numpy n (py_pow ra rb)"
  unfolding py_add_def py_sub_def py_mul_def py_truediv_def py_pow_def
  by (rule lift2_numpy_left; assumption)+

lemma ops_numpy_right:
  "returns_fitting n ra \<Longrightarrow> returns_numpy n rb \<Longrightarrow> returns_numpy n (py_add ra rb)"
  "returns_fitting n ra \<Longrightarrow> returns_numpy n rb \<Longrightarrow> returns_numpy n (py_sub ra rb)"
  "returns_fitting n ra \<Longrightarrow> returns_numpy n rb \<Longrightarrow> returns_numpy n (py_mul ra rb)"
  "returns_fitting n ra \<Longrightarrow> returns_numpy n rb \<Longrightarrow> returns_numpy n (py_truediv ra rb)"
  "returns_fitting n ra \<Longrightarrow> returns_numpy n rb \<Longrightarrow> returns_numpy n (py_pow ra rb)"
  unfolding py_add_def py_sub_def py_mul_def py_truediv_def py_pow_def
  by (rule lift2_numpy_right; assumption)+

lemma ufuncs_numpy:
  "returns_fitting n ra \<Longrightarrow> returns_numpy n (numpy_exp ra)"
  "returns_fitting n ra \<Longrightarrow> returns_numpy n (numpy_sin ra)"
  "returns_fitting n ra \<Longrightarrow> returns_numpy n (numpy_cos ra)"
  "returns_fitting n ra \<Longrightarrow> returns_numpy n (numpy_sqrt ra)"
  unfolding numpy_exp_def numpy_sin_def numpy_cos_def numpy_sqrt_def
  by (rule lift1_numpy; assumption)+

lemma arg_numpy: "fits n v \<Longrightarrow> numpy_value v \<Longrightarrow> returns_numpy n (arg v)"
  by (simp add: returns_numpy_def arg_def)









lemma below_python:
  assumes "below B a" "\<not> numpy_value a" "fits n a"
  obtains x where "a = PyFloat (Fin x)" "\<bar>x\<bar> \<le> B"
proof (cases a)
  case (PyFloat v)
  with assms(1) show ?thesis by (cases v) (auto intro: that)
qed (use assms in auto)






lemma below_neg: "returns_below B n ra \<Longrightarrow> returns_below B n (py_neg ra)"
proof -
  assume "returns_below B n ra"
  then obtain a where a: "ra = Inr a" "fits n a" "below B a"
    by (auto simp: returns_below_iff)
  show ?thesis
  proof (cases "numpy_value a")
    case True
    with a ufunc1_fits [of n a uminus] show ?thesis
      by (cases a) (auto simp: returns_below_iff py_neg_def)
  next
    case False
    from below_python [OF a(3) False a(2)]
    obtain x where "a = PyFloat (Fin x)" "\<bar>x\<bar> \<le> B" .
    with a show ?thesis by (simp add: returns_below_iff py_neg_def)
  qed
qed




lemma fits_valid: "fits n c \<Longrightarrow> k < n \<Longrightarrow> valid_at c k"
  by (cases c) auto







section \<open>Properties of the geodetic offset\<close>


lemma latlon_fits:
  assumes "fits n (list2array lat)" "fits n (list2array lon)" "fits n (list2array latR)"
    "fits n (list2array lonR)"
  shows "\<exists>dlat dlon ws. latlon2dlatdlon gpc lat lon latR lonR w kl kt = Inr ((dlat, dlon), ws)
           \<and> fits n dlat \<and> fits n dlon"
proof -
  have "returns_numpy n (py_mul (numpy_sin (py_mul (py_sub (arg (list2array lat))
          (arg (list2array latR))) (lit (deg2rad gpc))))
          (lit (kwargs_get kt (latlon2dxdy_lat_conversion_factor gpc))))"
    by (intro ops_numpy_left(3) ufuncs_numpy ops_fit assms)
  then obtain dlat where a: "py_mul (numpy_sin (py_mul (py_sub (arg (list2array lat))
          (arg (list2array latR))) (lit (deg2rad gpc))))
          (lit (kwargs_get kt (latlon2dxdy_lat_conversion_factor gpc))) = Inr dlat" "fits n dlat"
      "numpy_value dlat"
    by (auto simp: returns_numpy_iff)
  have "returns_numpy n (py_mul (py_mul (numpy_cos (py_mul (arg (list2array lat))
          (lit (deg2rad gpc))))
          (numpy_sin (py_mul (py_sub (arg (list2array lon)) (arg (list2array lonR)))
             (lit (deg2rad gpc)))))
          (lit (kwargs_get kl (latlon2dxdy_lon_conversion_factor gpc))))"
    by (intro ops_numpy_left(3) ufuncs_numpy ops_fit assms)
  then obtain dlon where b: "py_mul (py_mul (numpy_cos (py_mul (arg (list2array lat))
          (lit (deg2rad gpc))))
          (numpy_sin (py_mul (py_sub (arg (list2array lon)) (arg (list2array lonR)))
             (lit (deg2rad gpc)))))
          (lit (kwargs_get kl (latlon2dxdy_lon_conversion_factor gpc))) = Inr dlon" "fits n dlon"
      "numpy_value dlon"
    by (auto simp: returns_numpy_iff)
  have "returns_fitting n
          (numpy_sqrt (py_add (py_pow (arg dlat) (lit 2)) (py_pow (arg dlon) (lit 2))))"
    by (intro ops_fit numpy_fitting [OF ops_numpy_left(5)] arg_numpy a b)
  then obtain d where d:
    "numpy_sqrt (py_add (py_pow (arg dlat) (lit 2)) (py_pow (arg dlon) (lit 2))) = Inr d"
    by (auto simp: returns_fitting_iff)
  show ?thesis
    unfolding latlon2dlatdlon_def Let_def
    using a b d by simp
qed




lemma ufunc2_arrays:
  "length xs = length ys \<Longrightarrow> ufunc2 f (NDArray xs) (NDArray ys) = Inr (NDArray (map2 f xs ys))"
  by (auto simp: ufunc2_def intro!: nth_equalityI)

lemma ufunc2_array_scalar:
  "ufunc2 f (NDArray xs) (Scalar y) = Inr (NDArray (map (\<lambda>x. f x y) xs))"
  by (auto simp: ufunc2_def intro!: nth_equalityI)

lemma ufunc2_scalar_array:
  "ufunc2 f (Scalar x) (NDArray ys) = Inr (NDArray (map (f x) ys))"
  by (auto simp: ufunc2_def intro!: nth_equalityI)

lemma ufunc2_array_python:
  "ufunc2 f (NDArray xs) (PyFloat y) = Inr (NDArray (map (\<lambda>x. f x y) xs))"
  by (auto simp: ufunc2_def intro!: nth_equalityI)

lemma ufunc2_python_array:
  "ufunc2 f (PyFloat x) (NDArray ys) = Inr (NDArray (map (f x) ys))"
  by (auto simp: ufunc2_def intro!: nth_equalityI)

lemma ufunc1_array: "ufunc1 f (NDArray xs) = Inr (NDArray (map f xs))"
  by (auto simp: ufunc1_def intro!: nth_equalityI)

lemmas array_ops =
  py_add_def py_sub_def py_mul_def py_truediv_def py_pow_def py_neg_def
  numpy_exp_def numpy_sin_def numpy_cos_def numpy_sqrt_def lit_def arg_def
  lift2_def lift1_def ufunc2_arrays ufunc2_array_scalar ufunc2_scalar_array
  ufunc2_array_python ufunc2_python_array ufunc1_array






section \<open>Properties of the plume spread\<close>

lemma mask_array:
  "assign_at xs (negative_positions xs) NaN = map masked xs"
  by (rule nth_equalityI)
    (auto simp: length_assign_at nth_assign_at negative_positions_def masked_def)

lemma clamp_array:
  "assign_at ts (filter (\<lambda>k. ts ! k < m) [0..<length ts]) m = map (clamped m) ts"
  by (rule nth_equalityI) (auto simp: length_assign_at nth_assign_at clamped_def)

lemma mask_other_array:
  assumes "length ts = length xs"
  shows "assign_at ts (negative_positions xs) NaN =
         map2 (\<lambda>x t. if x < Fin 0 then NaN else t) xs ts"
  using assms
  by (intro nth_equalityI)
    (auto simp: length_assign_at nth_assign_at negative_positions_def)

lemma negative_positions_in_range:
  "length xs \<le> length ts \<Longrightarrow> list_all (\<lambda>k. k < length ts) (negative_positions xs)"
  by (auto simp: list_all_iff negative_positions_def)

lemma masked_NaN [simp]: "masked NaN = NaN"
  by (simp add: masked_def)

lemma not_less_NaN [simp]: "\<not> (NaN :: npfloat) < x"
  by (cases x) simp_all

lemma less_zero_not_NaN: "x < Fin 0 \<Longrightarrow> x \<noteq> NaN"
  by (cases x) simp_all

lemma no_negative_mask:
  "\<not> list_ex (\<lambda>x. x < Fin 0) xs \<Longrightarrow> map masked xs = xs"
  by (induction xs) (auto simp: masked_def)

lemma clamped_NaN [simp]: "clamped m NaN = NaN"
  by (simp add: clamped_def)

text \<open>Item assignment into the two kinds of arrays.\<close>

lemma setitem_float:
  "list_all (\<lambda>k. k < length xs) idx \<Longrightarrow>
   setitem (Float64 xs) idx v = Inr (Float64 (assign_at xs idx v))"
  by (simp add: setitem_def)

lemma setitem_integer_nan: "setitem (Int64 ks) idx NaN = Inl (ValueError None)"
  by (simp add: setitem_def to_int64_def)

lemma mask_own_array:
  "setitem (Float64 xs) (negative_positions xs) NaN = Inr (Float64 (map masked xs))"
  by (simp add: setitem_float negative_positions_in_range mask_array)

lemma negative_positions_masked:
  "negative_positions (map masked xs) = []"
  by (auto simp: negative_positions_def filter_empty_conv masked_def)

lemma clamp_own_array:
  "setitem (Float64 ts) (filter (\<lambda>k. ts ! k < m) [0..<length ts]) m =
   Inr (Float64 (map (clamped m) ts))"
  by (simp add: setitem_def clamp_array list_all_iff)

text \<open>What the masking block does to the heap.\<close>

lemma mask_negative_dx_float:
  assumes "h a = Float64 xs"
  shows "fst (mask_negative_dx h (RArr a) tc) a = Float64 (map masked xs)"
proof (cases "list_ex (\<lambda>x. x < Fin 0) xs")
  case False
  then show ?thesis
    using assms by (simp add: mask_negative_dx_def no_negative_mask)
next
  case True
  have again: "setitem (Float64 (map masked xs)) (negative_positions xs) NaN =
      Inr (Float64 (map masked xs))"
    by (simp add: setitem_float negative_positions_in_range)
      (rule nth_equalityI,
       auto simp: length_assign_at nth_assign_at negative_positions_def masked_def)
  show ?thesis
  proof (cases tc)
    case (RArr b)
    show ?thesis
    proof (cases "b = a")
      case same: True
      then show ?thesis
        using True RArr assms
        by (simp add: mask_negative_dx_def Let_def mask_own_array again)
    next
      case False
      then show ?thesis
        using True RArr assms
        by (simp add: mask_negative_dx_def Let_def mask_own_array split: sum.splits)
    qed
  qed (use True assms in \<open>simp_all add: mask_negative_dx_def Let_def mask_own_array\<close>)
qed

lemma mask_negative_dx_integer:
  assumes "h a = Int64 ks" "list_ex (\<lambda>k. k < 0) ks"
  shows "mask_negative_dx h (RArr a) tc = (h, Some (ValueError None))"
proof -
  from assms(2) have "list_ex (\<lambda>x. x < Fin 0) (floats (Int64 ks))"
    by (auto simp: list_ex_iff)
  then show ?thesis
    using assms(1) by (simp add: mask_negative_dx_def Let_def setitem_integer_nan)
qed

lemma mask_negative_dx_tc:
  assumes "a \<noteq> b" "h a = Float64 xs" "h b = Float64 ys" "length xs \<le> length ys"
  shows "mask_negative_dx h (RArr a) (RArr b) =
         (h(a := Float64 (map masked xs),
            b := Float64 (assign_at ys (negative_positions xs) NaN)), None)"
proof (cases "list_ex (\<lambda>x. x < Fin 0) xs")
  case True
  then show ?thesis
    using assms negative_positions_in_range [OF assms(4)]
    by (simp add: mask_negative_dx_def Let_def mask_own_array setitem_float)
next
  case False
  then have "negative_positions xs = []"
    by (auto simp: negative_positions_def filter_empty_conv list_ex_iff)
  with False show ?thesis
    using assms by (auto simp: mask_negative_dx_def no_negative_mask assign_at_def)
qed

lemma mask_negative_dx_alias:
  assumes "h a = Float64 xs"
  shows "mask_negative_dx h (RArr a) (RArr a) = (h(a := Float64 (map masked xs)), None)"
proof (cases "list_ex (\<lambda>x. x < Fin 0) xs")
  case True
  have "setitem (Float64 (map masked xs)) (negative_positions xs) NaN =
      Inr (Float64 (map masked xs))"
    by (simp add: setitem_float negative_positions_in_range)
      (rule nth_equalityI,
       auto simp: length_assign_at nth_assign_at negative_positions_def masked_def)
  with True assms show ?thesis
    by (simp add: mask_negative_dx_def Let_def mask_own_array)
next
  case False
  with assms have "h(a := Float64 (map masked xs)) = h"
    by (auto simp: no_negative_mask)
  with False assms show ?thesis
    by (simp add: mask_negative_dx_def)
qed

lemma mask_negative_dx_alone:
  assumes "h a = Float64 xs" "\<And>b. tc \<noteq> RArr b"
  shows "mask_negative_dx h (RArr a) tc = (h(a := Float64 (map masked xs)), None)"
proof (cases "list_ex (\<lambda>x. x < Fin 0) xs")
  case True
  with assms(1) show ?thesis
    using assms(2) by (cases tc) (auto simp: mask_negative_dx_def Let_def mask_own_array)
next
  case False
  with assms(1) have "h(a := Float64 (map masked xs)) = h"
    by (auto simp: no_negative_mask)
  with False assms(1) show ?thesis
    by (simp add: mask_negative_dx_def)
qed

lemma mask_negative_dx_frame:
  "c \<noteq> a \<Longrightarrow> tc \<noteq> RArr c \<Longrightarrow> fst (mask_negative_dx h (RArr a) tc) c = h c"
  by (cases tc)
    (auto simp: mask_negative_dx_def Let_def split: sum.splits)

lemma mask_negative_dx_number:
  "mask_negative_dx h (RNum x) tc = (h, if x < Fin 0 then Some TypeError else None)"
  "mask_negative_dx h (RNp x) tc = (h, if x < Fin 0 then Some TypeError else None)"
  by (simp_all add: mask_negative_dx_def)

lemma clamp_tc_float:
  "h b = Float64 ys \<Longrightarrow>
   clamp_tc h (RArr b) m = (h(b := Float64 (map (clamped m) ys)), Inr (RArr b))"
  by (simp add: clamp_tc_def Let_def clamp_own_array)

lemma clamp_tc_number: "clamp_tc h (RNum t) m = (h, Inr (RNum (clamped m t)))"
  by (simp add: clamp_tc_def clamped_def)

lemma clamp_tc_none: "clamp_tc h RNone m = (h, Inl TypeError)"
  by (simp add: clamp_tc_def)

lemma clamp_tc_frame: "tc \<noteq> RArr c \<Longrightarrow> fst (clamp_tc h tc m) c = h c"
  by (cases tc) (auto simp: clamp_tc_def Let_def split: sum.splits)

lemma calculate_sigma_heap:
  "fst (calculate_sigma gpc h dx zs tc C si m off kca kcb) =
     (case mask_negative_dx h dx tc of
        (h1, Some e) \<Rightarrow> h1
      | (h1, None) \<Rightarrow> fst (clamp_tc h1 tc m))"
  by (auto simp: calculate_sigma_def Let_def split: prod.splits option.splits sum.splits)

lemma calculate_sigma_heap_dx:
  assumes "h a = Float64 xs"
  shows "fst (calculate_sigma gpc h (RArr a) zs tc C si m off kca kcb) a =
     (if tc = RArr a \<and> snd (mask_negative_dx h (RArr a) tc) = None
      then Float64 (map (clamped m) (map masked xs)) else Float64 (map masked xs))"
proof (cases "mask_negative_dx h (RArr a) tc")
  case (Pair h1 r)
  with mask_negative_dx_float [of h a xs tc] assms have h1: "h1 a = Float64 (map masked xs)"
    by simp
  show ?thesis
  proof (cases r)
    case (Some e)
    with Pair h1 show ?thesis by (simp add: calculate_sigma_heap)
  next
    case None
    show ?thesis
    proof (cases "tc = RArr a")
      case True
      with Pair None h1 show ?thesis
        by (simp add: calculate_sigma_heap clamp_tc_float)
    next
      case False
      with Pair None h1 show ?thesis
        by (simp add: calculate_sigma_heap clamp_tc_frame)
    qed
  qed
qed

lemma clamp_tc_integer:
  assumes "h b = Int64 ks" "to_int64 m = Inr j"
  shows "clamp_tc h (RArr b) m =
     (h(b := Int64 (map (\<lambda>k. if Fin (of_int k) < m then j else k) ks)), Inr (RArr b))"
proof -
  let ?idx = "filter (\<lambda>k. floats (Int64 ks) ! k < m) [0..<length (floats (Int64 ks))]"
  have "assign_at ks ?idx j = map (\<lambda>k. if Fin (of_int k) < m then j else k) ks"
    by (rule nth_equalityI) (auto simp: length_assign_at nth_assign_at)
  moreover have "list_all (\<lambda>k. k < length ks) ?idx"
    by (auto simp: list_all_iff)
  ultimately show ?thesis
    using assms by (simp add: clamp_tc_def Let_def setitem_def)
qed

text \<open>
  Claim C9, amended. \<^verbatim>\<open>calculate_sigma\<close> writes into the arrays it is given. Where an array
  \<^verbatim>\<open>dx\<close> of floats has a negative entry, the caller's array holds not-a-number at that
  position afterwards, so it is no longer the array that was passed; with a second array
  \<^verbatim>\<open>tc\<close> of floats of the same length the caller's \<^verbatim>\<open>dx\<close> is the masked array and the
  caller's \<^verbatim>\<open>tc\<close> holds not-a-number at those positions and \<^verbatim>\<open>tc_minimum\<close> wherever it was
  below it; when \<^verbatim>\<open>dx\<close> and \<^verbatim>\<open>tc\<close> are one array of floats, it is masked and then clamped;
  every other array is left as it was. An array \<^verbatim>\<open>dx\<close> of integers with a negative entry
  is not overwritten: the assignment of not-a-number raises \<^verbatim>\<open>ValueError\<close> and the heap
  is left as it was. Into an array \<^verbatim>\<open>tc\<close> of integers \<^verbatim>\<open>tc_minimum\<close> is written without
  its fraction.
\<close>

theorem calculate_sigma_overwrites_arrays:
  "(h a = Float64 xs \<and> k < length xs \<and> xs ! k < Fin 0 \<longrightarrow>
      floats (fst (calculate_sigma gpc h (RArr a) zs tc C si m off kca kcb) a) ! k = NaN \<and>
      fst (calculate_sigma gpc h (RArr a) zs tc C si m off kca kcb) a \<noteq> h a)
   \<and> (a \<noteq> b \<and> h a = Float64 xs \<and> h b = Float64 ys \<and> length ys = length xs \<longrightarrow>
      fst (calculate_sigma gpc h (RArr a) zs (RArr b) C si m off kca kcb) a =
        Float64 (map masked xs) \<and>
      fst (calculate_sigma gpc h (RArr a) zs (RArr b) C si m off kca kcb) b =
        Float64 (map2 (masked_clamped m) xs ys))
   \<and> (h a = Float64 xs \<longrightarrow>
      fst (calculate_sigma gpc h (RArr a) zs (RArr a) C si m off kca kcb) a =
        Float64 (map (clamped m) (map masked xs)))
   \<and> (c \<noteq> a \<and> tc \<noteq> RArr c \<longrightarrow>
      fst (calculate_sigma gpc h (RArr a) zs tc C si m off kca kcb) c = h c)
   \<and> (h a = Int64 ks \<and> list_ex (\<lambda>i. i < 0) ks \<longrightarrow>
      calculate_sigma gpc h (RArr a) zs tc C si m off kca kcb = (h, Inl (ValueError None)))
   \<and> (a \<noteq> b \<and> h a = Float64 xs \<and> \<not> list_ex (\<lambda>x. x < Fin 0) xs \<and> h b = Int64 ks \<and>
       to_int64 m = Inr j \<longrightarrow>
      fst (calculate_sigma gpc h (RArr a) zs (RArr b) C si m off kca kcb) b =
        Int64 (map (\<lambda>i. if Fin (of_int i) < m then j else i) ks))"
proof (intro conjI impI)
  assume k: "h a = Float64 xs \<and> k < length xs \<and> xs ! k < Fin 0"
  then have "masked (xs ! k) = NaN" by (simp add: masked_def)
  with k show nan:
    "floats (fst (calculate_sigma gpc h (RArr a) zs tc C si m off kca kcb) a) ! k = NaN"
    by (simp add: calculate_sigma_heap_dx)
  from k have "floats (h a) ! k \<noteq> NaN" by (auto dest: less_zero_not_NaN)
  with nan show "fst (calculate_sigma gpc h (RArr a) zs tc C si m off kca kcb) a \<noteq> h a"
    by metis
next
  assume ab: "a \<noteq> b \<and> h a = Float64 xs \<and> h b = Float64 ys \<and> length ys = length xs"
  then have m: "mask_negative_dx h (RArr a) (RArr b) =
         (h(a := Float64 (map masked xs),
            b := Float64 (map2 (\<lambda>x t. if x < Fin 0 then NaN else t) xs ys)), None)"
    by (simp add: mask_negative_dx_tc mask_other_array)
  show "fst (calculate_sigma gpc h (RArr a) zs (RArr b) C si m off kca kcb) a =
        Float64 (map masked xs)"
    using ab by (simp add: calculate_sigma_heap m clamp_tc_float)
  have "map (clamped m) (map2 (\<lambda>x t. if x < Fin 0 then NaN else t) xs ys) =
        map2 (masked_clamped m) xs ys"
    by (rule nth_equalityI) (simp_all add: masked_clamped_def)
  then show "fst (calculate_sigma gpc h (RArr a) zs (RArr b) C si m off kca kcb) b =
        Float64 (map2 (masked_clamped m) xs ys)"
    using ab by (simp add: calculate_sigma_heap m clamp_tc_float del: map_map)
next
  assume a: "h a = Float64 xs"
  then have "mask_negative_dx h (RArr a) (RArr a) = (h(a := Float64 (map masked xs)), None)"
    by (rule mask_negative_dx_alias)
  then show "fst (calculate_sigma gpc h (RArr a) zs (RArr a) C si m off kca kcb) a =
        Float64 (map (clamped m) (map masked xs))"
    by (simp add: calculate_sigma_heap clamp_tc_float del: map_map)
next
  assume c: "c \<noteq> a \<and> tc \<noteq> RArr c"
  then have "fst (mask_negative_dx h (RArr a) tc) c = h c"
    by (simp add: mask_negative_dx_frame)
  then show "fst (calculate_sigma gpc h (RArr a) zs tc C si m off kca kcb) c = h c"
    using c
    by (cases "mask_negative_dx h (RArr a) tc")
      (auto simp: calculate_sigma_heap clamp_tc_frame split: option.splits)
next
  assume "h a = Int64 ks \<and> list_ex (\<lambda>i. i < 0) ks"
  then show "calculate_sigma gpc h (RArr a) zs tc C si m off kca kcb =
      (h, Inl (ValueError None))"
    by (simp add: calculate_sigma_def mask_negative_dx_integer)
next
  assume p: "a \<noteq> b \<and> h a = Float64 xs \<and> \<not> list_ex (\<lambda>x. x < Fin 0) xs \<and> h b = Int64 ks \<and>
       to_int64 m = Inr j"
  then have "mask_negative_dx h (RArr a) (RArr b) = (h, None)"
    by (simp add: mask_negative_dx_def)
  with p show "fst (calculate_sigma gpc h (RArr a) zs (RArr b) C si m off kca kcb) b =
        Int64 (map (\<lambda>i. if Fin (of_int i) < m then j else i) ks)"
    by (simp add: calculate_sigma_heap clamp_tc_integer)
qed

text \<open>
  Claim C3, at a number. A negative number for \<^verbatim>\<open>dx\<close> is not replaced by not-a-number: the
  assignment \<^verbatim>\<open>dx[idx_nan] = numpy.nan\<close> raises \<^verbatim>\<open>TypeError\<close> and the call ends there, the heap
  unchanged.
\<close>

theorem calculate_sigma_negative_number_raises:
  "x < Fin 0 \<longrightarrow>
     calculate_sigma gpc h (RNum x) zs tc C si m off kca kcb = (h, Inl TypeError)"
  by (simp add: calculate_sigma_def mask_negative_dx_number)

section \<open>The formulas of the plume spread\<close>

lemma elem_table:
  "elem (table_get C si j) k v \<Longrightarrow> v = coefficient C si j k"
  by (auto simp: elem_def coefficient_def split: sum.splits)

lemma sigma_formulas_entry:
  assumes "sigma_formulas dx zs tc C si off ca cb = Inr (sy, sz)"
  shows "valid_at sy k \<Longrightarrow> entry sy k =
           sigma_y_formula (coefficient C si 0 k) (coefficient C si 1 k) (entry dx k)
             (entry zs k) (entry tc k)"
    and "valid_at sz k \<Longrightarrow> entry sz k =
           sigma_z_formula (coefficient C si 2 k) (coefficient C si 3 k) (entry dx k)
             (entry zs k) ca cb (entry off k)"
proof -
  from assms have
    y: "py_mul (py_mul (py_mul (table_get C si 0) (py_pow (arg dx) (table_get C si 1)))
                  (py_pow (arg zs) (lit (2 / 10))))
          (py_pow (arg tc) (lit (35 / 100))) = Inr sy"
    and z: "py_add (py_mul (py_mul (table_get C si 2) (py_pow (arg dx) (table_get C si 3)))
                  (py_pow (py_mul (lit 10) (arg zs)) (py_mul (lit ca) (py_pow (arg dx) (lit cb)))))
          (arg off) = Inr sz"
    unfolding sigma_formulas_def by (auto dest!: bindE_Inr)
  show "entry sy k =
           sigma_y_formula (coefficient C si 0 k) (coefficient C si 1 k) (entry dx k)
             (entry zs k) (entry tc k)" if "valid_at sy k"
    using elem_of_value [OF y that] unfolding sigma_y_formula_def
    by (elim elem_opsE) (auto simp: elem_lit elem_arg dest!: elem_table)
  show "entry sz k =
           sigma_z_formula (coefficient C si 2 k) (coefficient C si 3 k) (entry dx k)
             (entry zs k) ca cb (entry off k)" if "valid_at sz k"
    using elem_of_value [OF z that] unfolding sigma_z_formula_def
    by (elim elem_opsE) (auto simp: elem_lit elem_arg dest!: elem_table)
qed

lemma table_get_numpy:
  "index_fits n C si \<Longrightarrow> j < 4 \<Longrightarrow> returns_numpy n (table_get C si j)"
  by (cases si) (auto simp: index_fits_def table_get_def returns_numpy_def)

lemma power_fits:
  assumes "fits n a" "fits n b" "power_defined a b"
  shows "returns_fitting n (py_pow (Inr a) (Inr b))"
proof (cases "\<exists>x y. a = PyFloat x \<and> b = PyFloat y")
  case True
  then obtain x y where xy: "a = PyFloat x" "b = PyFloat y" by blast
  with assms(3) obtain v where "float_pow x y = Inr v"
    by (auto split: sum.splits)
  with xy show ?thesis
    by (simp add: py_pow_def lift2_def returns_fitting_def)
next
  case False
  then show ?thesis
    using ufunc2_fits [OF assms(1,2), of np_pow]
    by (auto simp: py_pow_def lift2_def binop_numpy returns_fitting_iff)
qed

lemma power_of_lit:
  "fits n a \<Longrightarrow> power_defined a (PyFloat (Fin r)) \<Longrightarrow> returns_fitting n (py_pow (arg a) (lit r))"
  using power_fits [of n a "PyFloat (Fin r)"] by (simp add: arg_def lit_def)

lemma float_pow_value: "float_pow x y = Inr v \<Longrightarrow> v = np_pow x y"
  by (rule float_ops_agree)

lemma outer_power_fits:
  assumes "fits n dx" "fits n zs" "power_defined dx (PyFloat (Fin cb))"
    and "case dx of
           PyFloat x \<Rightarrow>
             (case zs of
                PyFloat z \<Rightarrow>
                  power_defined (PyFloat (Fin 10 * z)) (PyFloat (Fin ca * np_pow x (Fin cb)))
              | _ \<Rightarrow> True)
         | _ \<Rightarrow> True"
  shows "returns_fitting n
           (py_pow (py_mul (lit 10) (arg zs)) (py_mul (lit ca) (py_pow (arg dx) (lit cb))))"
proof (cases "\<exists>x. dx = PyFloat x")
  case False
  with assms(1) have "numpy_value dx" by (cases dx) auto
  then show ?thesis
    by (intro numpy_fitting ops_numpy_right(5) ops_numpy_right(3) ops_numpy_left(5)
          arg_numpy ops_fit assms)
next
  case True
  then obtain x where x: "dx = PyFloat x" by blast
  with assms(3) obtain p where p: "float_pow x (Fin cb) = Inr p"
    by (auto split: sum.splits)
  then have pv: "p = np_pow x (Fin cb)" by (rule float_pow_value)
  have e: "py_mul (lit ca) (py_pow (arg dx) (lit cb)) = Inr (PyFloat (Fin ca * p))"
    using x p by (simp add: number_ops)
  show ?thesis
  proof (cases "\<exists>z. zs = PyFloat z")
    case False
    with assms(2) have "numpy_value zs" by (cases zs) auto
    then have "returns_numpy n (py_mul (lit 10) (arg zs))"
      by (intro ops_numpy_right(3) arg_numpy ops_fit assms)
    then show ?thesis
      unfolding e
      by (rule numpy_fitting [OF ops_numpy_left(5)]) (simp add: returns_fitting_def)
  next
    case True
    then obtain z where z: "zs = PyFloat z" by blast
    have b: "py_mul (lit 10) (arg zs) = Inr (PyFloat (Fin 10 * z))"
      using z by (simp add: number_ops)
    from assms(4) x z pv
    have "power_defined (PyFloat (Fin 10 * z)) (PyFloat (Fin ca * p))" by simp
    then show ?thesis
      unfolding e b by (intro power_fits) simp_all
  qed
qed

lemma sigma_formulas_fits:
  assumes "fits n dx" "fits n zs" "fits n tc" "fits n off" "index_fits n C si"
    and "powers_defined dx zs tc ca cb"
  shows "\<exists>sy sz. sigma_formulas dx zs tc C si off ca cb = Inr (sy, sz) \<and> fits n sy \<and> fits n sz"
proof -
  from assms(6) have p: "power_defined zs (PyFloat (Fin (2 / 10)))"
    "power_defined tc (PyFloat (Fin (35 / 100)))" "power_defined dx (PyFloat (Fin cb))"
    "case dx of
       PyFloat x \<Rightarrow>
         (case zs of
            PyFloat z \<Rightarrow>
              power_defined (PyFloat (Fin 10 * z)) (PyFloat (Fin ca * np_pow x (Fin cb)))
          | _ \<Rightarrow> True)
     | _ \<Rightarrow> True"
    by (simp_all add: powers_defined_def)
  have t: "returns_numpy n (table_get C si 0)" "returns_numpy n (table_get C si 1)"
    "returns_numpy n (table_get C si 2)" "returns_numpy n (table_get C si 3)"
    using assms(5) by (simp_all add: table_get_numpy)
  have "returns_fitting n
         (py_mul (py_mul (py_mul (table_get C si 0) (py_pow (arg dx) (table_get C si 1)))
                  (py_pow (arg zs) (lit (2 / 10))))
          (py_pow (arg tc) (lit (35 / 100))))"
    by (intro ops_fit(3) numpy_fitting [OF t(1)] numpy_fitting [OF ops_numpy_right(5)]
          power_of_lit ops_fit(10) t assms p)
  then obtain sy where y:
    "py_mul (py_mul (py_mul (table_get C si 0) (py_pow (arg dx) (table_get C si 1)))
                  (py_pow (arg zs) (lit (2 / 10))))
          (py_pow (arg tc) (lit (35 / 100))) = Inr sy" "fits n sy"
    by (auto simp: returns_fitting_iff)
  have "returns_fitting n
         (py_add (py_mul (py_mul (table_get C si 2) (py_pow (arg dx) (table_get C si 3)))
                  (py_pow (py_mul (lit 10) (arg zs)) (py_mul (lit ca) (py_pow (arg dx) (lit cb)))))
          (arg off))"
    by (intro ops_fit(1) ops_fit(3) numpy_fitting [OF t(3)] numpy_fitting [OF ops_numpy_right(5)]
          outer_power_fits ops_fit(10) t assms p)
  then obtain sz where z:
    "py_add (py_mul (py_mul (table_get C si 2) (py_pow (arg dx) (table_get C si 3)))
                  (py_pow (py_mul (lit 10) (arg zs)) (py_mul (lit ca) (py_pow (arg dx) (lit cb)))))
          (arg off) = Inr sz" "fits n sz"
    by (auto simp: returns_fitting_iff)
  show ?thesis
    unfolding sigma_formulas_def using y z by simp
qed

text \<open>
  The two blocks on references that hold float arrays and numbers that are not negative:
  they pass, the values keep their lengths, and a number stays the number it was (\<^verbatim>\<open>tc\<close>
  clamped).
\<close>

lemma clamp_value:
  "clamp_tc h1 tc m = (h', Inr tc') \<Longrightarrow> deref h' tc' = tc_after h' tc m"
  by (cases tc)
    (auto simp: clamp_tc_def tc_after_def clamped_def Let_def split: sum.splits if_splits)

lemma two_blocks:
  assumes "float_array h dx" "float_array h tc" "not_negative dx" "fits n (deref h dx)"
    "fits n (deref h tc)"
  shows "\<exists>h'. calculate_sigma gpc h dx zs tc C si m off kca kcb =
           (h', sigma_formulas (deref h' dx) zs (tc_after h' tc m) C si off
                  (kwargs_get kca (sigma_ca gpc)) (kwargs_get kcb (sigma_cb gpc)))
         \<and> fits n (deref h' dx) \<and> fits n (tc_after h' tc m)
         \<and> (deref h' dx = deref h dx \<or> (\<exists>u v. deref h dx = NDArray u \<and> deref h' dx = NDArray v))
         \<and> (tc_after h' tc m = tc_after h tc m \<or>
            (\<exists>u v. tc_after h tc m = NDArray u \<and> tc_after h' tc m = NDArray v))"
proof -
  have run: "calculate_sigma gpc h dx zs tc C si m off kca kcb =
           (h', sigma_formulas (deref h' dx) zs (tc_after h' tc m) C si off
                  (kwargs_get kca (sigma_ca gpc)) (kwargs_get kcb (sigma_cb gpc)))"
    if "mask_negative_dx h dx tc = (h1, None)" "clamp_tc h1 tc m = (h', Inr tc')" for h1 h' tc'
    using that clamp_value [OF that(2)] by (simp add: calculate_sigma_def Let_def)
  have number: ?thesis if nd: "\<And>a. dx \<noteq> RArr a"
  proof -
    from nd assms(3,4) have m: "mask_negative_dx h dx tc = (h, None)"
      by (cases dx) (auto simp: mask_negative_dx_def not_negative_def)
    have d: "deref h' dx = deref h dx" for h'
      using nd by (cases dx) auto
    show ?thesis
    proof (cases tc)
      case RNone
      with assms(5) show ?thesis by simp
    next
      case (RNum t)
      then have "clamp_tc h tc m = (h, Inr (RNum (clamped m t)))"
        by (simp add: clamp_tc_number)
      from run [OF m this] assms(4) RNum show ?thesis
        by (auto simp: tc_after_def)
    next
      case (RNp t)
      then have "clamp_tc h tc m = (h, Inr (if t < m then RNum m else RNp t))"
        by (simp add: clamp_tc_def)
      from run [OF m this] assms(4) RNp show ?thesis
        by (auto simp: tc_after_def)
    next
      case (RArr b)
      with assms(2,5) obtain ys where ys: "h b = Float64 ys" "length ys = n"
        by (auto simp: float_array_def split: ndarray.splits)
      with RArr have "clamp_tc h tc m = (h(b := Float64 (map (clamped m) ys)), Inr (RArr b))"
        by (simp add: clamp_tc_float)
      from run [OF m this] assms(4) RArr ys d [of "h(b := Float64 (map (clamped m) ys))"]
      show ?thesis
        by (auto simp: tc_after_def)
    qed
  qed
  show ?thesis
  proof (cases dx)
    case (RArr a)
    with assms(1,4) obtain xs where xs: "h a = Float64 xs" "length xs = n"
      by (auto simp: float_array_def split: ndarray.splits)
    show ?thesis
    proof (cases tc)
      case RNone
      with assms(5) show ?thesis by simp
    next
      case (RNum t)
      then have m: "mask_negative_dx h dx tc = (h(a := Float64 (map masked xs)), None)"
        using RArr xs by (simp add: mask_negative_dx_alone)
      have "clamp_tc (h(a := Float64 (map masked xs))) tc m =
          (h(a := Float64 (map masked xs)), Inr (RNum (clamped m t)))"
        using RNum by (simp add: clamp_tc_number)
      from run [OF m this] RArr RNum xs show ?thesis
        by (auto simp: tc_after_def)
    next
      case (RNp t)
      then have m: "mask_negative_dx h dx tc = (h(a := Float64 (map masked xs)), None)"
        using RArr xs by (simp add: mask_negative_dx_alone)
      have "clamp_tc (h(a := Float64 (map masked xs))) tc m =
          (h(a := Float64 (map masked xs)), Inr (if t < m then RNum m else RNp t))"
        using RNp by (simp add: clamp_tc_def)
      from run [OF m this] RArr RNp xs show ?thesis
        by (auto simp: tc_after_def)
    next
      case tc: (RArr b)
      show ?thesis
      proof (cases "b = a")
        case True
        then have m: "mask_negative_dx h dx tc = (h(a := Float64 (map masked xs)), None)"
          using RArr tc xs by (simp add: mask_negative_dx_alias)
        have "clamp_tc (h(a := Float64 (map masked xs))) tc m =
            ((h(a := Float64 (map masked xs)))(a := Float64 (map (clamped m) (map masked xs))),
             Inr (RArr a))"
          using tc True by (simp add: clamp_tc_float)
        from run [OF m this] RArr tc True xs show ?thesis
          by (auto simp: tc_after_def)
      next
        case False
        with assms(2,5) tc obtain ys where ys: "h b = Float64 ys" "length ys = n"
          by (auto simp: float_array_def split: ndarray.splits)
        let ?ys = "assign_at ys (negative_positions xs) NaN"
        have m: "mask_negative_dx h dx tc =
            (h(a := Float64 (map masked xs), b := Float64 ?ys), None)"
          using RArr tc False xs ys by (simp add: mask_negative_dx_tc)
        have "clamp_tc (h(a := Float64 (map masked xs), b := Float64 ?ys)) tc m =
            ((h(a := Float64 (map masked xs), b := Float64 ?ys))
               (b := Float64 (map (clamped m) ?ys)), Inr (RArr b))"
          using tc by (simp add: clamp_tc_float)
        from run [OF m this] RArr tc False xs ys show ?thesis
          by (auto simp: tc_after_def length_assign_at)
      qed
    qed
  qed (use number in auto)
qed

lemma powers_defined_kinds:
  assumes "powers_defined a zs b ca cb"
    and "a' = a \<or> (\<exists>u v. a = NDArray u \<and> a' = NDArray v)"
    and "b' = b \<or> (\<exists>u v. b = NDArray u \<and> b' = NDArray v)"
  shows "powers_defined a' zs b' ca cb"
  using assms by (auto simp: powers_defined_def)

lemma calculate_sigma_returns:
  assumes "float_array h dx" "float_array h tc" "not_negative dx" "fits n (deref h dx)"
    "fits n zs" "fits n (deref h tc)" "fits n off" "index_fits n C si"
    and "powers_defined (deref h dx) zs (tc_after h tc m) (kwargs_get kca (sigma_ca gpc))
           (kwargs_get kcb (sigma_cb gpc))"
  shows "\<exists>sy sz h'. calculate_sigma gpc h dx zs tc C si m off kca kcb = (h', Inr (sy, sz)) \<and>
           fits n sy \<and> fits n sz"
proof -
  from two_blocks [OF assms(1,2,3,4,6), of gpc zs C si m off kca kcb]
  obtain h' where h': "calculate_sigma gpc h dx zs tc C si m off kca kcb =
           (h', sigma_formulas (deref h' dx) zs (tc_after h' tc m) C si off
                  (kwargs_get kca (sigma_ca gpc)) (kwargs_get kcb (sigma_cb gpc)))"
    "fits n (deref h' dx)" "fits n (tc_after h' tc m)"
    "deref h' dx = deref h dx \<or> (\<exists>u v. deref h dx = NDArray u \<and> deref h' dx = NDArray v)"
    "tc_after h' tc m = tc_after h tc m \<or>
       (\<exists>u v. tc_after h tc m = NDArray u \<and> tc_after h' tc m = NDArray v)"
    by blast
  from powers_defined_kinds [OF assms(9) h'(4,5)]
  have "powers_defined (deref h' dx) zs (tc_after h' tc m) (kwargs_get kca (sigma_ca gpc))
           (kwargs_get kcb (sigma_cb gpc))" .
  from sigma_formulas_fits [OF h'(2) assms(5) h'(3) assms(7,8) this] h'(1)
  show ?thesis by auto
qed

text \<open>Sufficient conditions for the powers of Python numbers.\<close>

lemma float_range_above_one: "1 < float_range"
  by (simp add: float_range_def)

lemma powr_below:
  fixes z R p :: real
  assumes "0 < z" "z < R" "1 < R" "0 < p" "p \<le> 1"
  shows "z powr p < R"
proof (cases "z \<le> 1")
  case True
  with assms have "z powr p \<le> 1" using powr_le1 [of p z] by simp
  with assms(3) show ?thesis by simp
next
  case False
  with assms have "z powr p \<le> z powr 1" using powr_mono [of p 1 z] by simp
  with assms show ?thesis by simp
qed

lemma np_pow_positive: "0 < a \<Longrightarrow> np_pow (Fin a) (Fin b) = Fin (a powr b)"
  by (simp add: np_pow.simps)

lemma root_defined:
  assumes "sound_base v" "0 < p" "p \<le> 1"
  shows "power_defined v (PyFloat (Fin p))"
proof (cases v)
  case (PyFloat x)
  show ?thesis
  proof (cases x)
    case (Fin z)
    with PyFloat assms(1) have z: "0 \<le> z" "z < float_range" by auto
    show ?thesis
    proof (cases "z = 0")
      case True
      with PyFloat Fin assms(2) float_range_above_one show ?thesis
        by (simp add: float_pow_def np_pow.simps)
    next
      case False
      with z have "0 < z" by simp
      from powr_below [OF this z(2) float_range_above_one assms(2,3)] \<open>0 < z\<close>
      show ?thesis
        using PyFloat Fin by (simp add: float_pow_def np_pow_positive)
    qed
  qed (use PyFloat in \<open>simp_all add: float_pow_def\<close>)
qed simp_all

lemma powers_numpy:
  assumes "numpy_value dxv" "sound_base zs" "sound_base tcv"
  shows "powers_defined dxv zs tcv ca cb"
  using assms root_defined [of zs "2 / 10"] root_defined [of tcv "35 / 100"]
  by (cases dxv) (simp_all add: powers_defined_def)

lemma powers_python:
  assumes "0 < x" "\<not> overflows (Fin (x powr cb))" "sound_base zs" "sound_base tcv"
    and "case zs of
           PyFloat z \<Rightarrow>
             z \<noteq> Fin 0 \<and> \<not> overflows (np_pow (Fin 10 * z) (Fin (ca * x powr cb)))
         | _ \<Rightarrow> True"
  shows "powers_defined (PyFloat (Fin x)) zs tcv ca cb"
proof -
  have dx: "power_defined (PyFloat (Fin x)) (PyFloat (Fin cb))"
    using assms(1,2) by (simp add: float_pow_def np_pow_positive)
  have outer: "power_defined (PyFloat (Fin 10 * z)) (PyFloat (Fin ca * np_pow (Fin x) (Fin cb)))"
    if z: "zs = PyFloat z" for z
  proof (cases z)
    case (Fin r)
    with z assms(3,5) have "0 < r"
      and "\<not> overflows (np_pow (Fin (10 * r)) (Fin (ca * x powr cb)))"
      by auto
    then show ?thesis
      using Fin assms(1) by (simp add: float_pow_def np_pow_positive)
  next
    case MInf
    with z assms(3) show ?thesis by simp
  qed (simp_all add: float_pow_def np_pow_positive assms(1) signed_inf_def)
  show ?thesis
    using dx outer root_defined [OF assms(3), of "2 / 10"]
      root_defined [OF assms(4), of "35 / 100"]
    by (cases zs) (simp_all add: powers_defined_def)
qed

text \<open>The call on float arrays and on numbers, with the heap it leaves.\<close>

lemma coefficient_PyInt:
  "0 \<le> i \<Longrightarrow> i < int (length C) \<Longrightarrow> j < ncols C \<Longrightarrow>
   coefficient C (PyInt i) j k = C ! nat i ! j"
  by (simp add: coefficient_def table_get_def row_ok_def row_of_def)

lemma calculate_sigma_arrays:
  assumes "a \<noteq> b" "h a = Float64 xs" "h b = Float64 ys" "length ys = length xs"
  shows "calculate_sigma gpc h (RArr a) zs (RArr b) C si m off kca kcb =
     (h(a := Float64 (map masked xs), b := Float64 (map2 (masked_clamped m) xs ys)),
      sigma_formulas (NDArray (map masked xs)) zs
        (NDArray (map2 (masked_clamped m) xs ys)) C si off
        (kwargs_get kca (sigma_ca gpc)) (kwargs_get kcb (sigma_cb gpc)))"
proof -
  have m: "mask_negative_dx h (RArr a) (RArr b) =
         (h(a := Float64 (map masked xs),
            b := Float64 (map2 (\<lambda>x t. if x < Fin 0 then NaN else t) xs ys)), None)"
    using assms by (simp add: mask_negative_dx_tc mask_other_array)
  have c: "map (clamped m) (map2 (\<lambda>x t. if x < Fin 0 then NaN else t) xs ys) =
        map2 (masked_clamped m) xs ys"
    by (rule nth_equalityI) (simp_all add: masked_clamped_def)
  show ?thesis
    using assms(1) by (simp add: calculate_sigma_def m clamp_tc_float c Let_def del: map_map)
qed

lemma calculate_sigma_array_number:
  assumes "h a = Float64 xs"
  shows "calculate_sigma gpc h (RArr a) zs (RNum t) C si m off kca kcb =
     (h(a := Float64 (map masked xs)),
      sigma_formulas (NDArray (map masked xs)) zs (PyFloat (clamped m t)) C si off
        (kwargs_get kca (sigma_ca gpc)) (kwargs_get kcb (sigma_cb gpc)))"
  using assms
  by (simp add: calculate_sigma_def mask_negative_dx_alone clamp_tc_number Let_def)

lemma calculate_sigma_numbers:
  assumes "\<not> x < Fin 0"
  shows "calculate_sigma gpc h (RNum x) zs (RNum t) C si m off kca kcb =
     (h, sigma_formulas (PyFloat x) zs (PyFloat (clamped m t)) C si off
        (kwargs_get kca (sigma_ca gpc)) (kwargs_get kcb (sigma_cb gpc)))"
  using assms
  by (simp add: calculate_sigma_def mask_negative_dx_number clamp_tc_number Let_def)

lemma calculate_sigma_result:
  assumes "calculate_sigma gpc h dx zs tc C si m off kca kcb = (h', Inr (sy, sz))"
  shows "sigma_formulas (deref h' dx) zs (tc_after h' tc m) C si off
           (kwargs_get kca (sigma_ca gpc)) (kwargs_get kcb (sigma_cb gpc)) = Inr (sy, sz)"
proof -
  from assms obtain h1 where h1: "mask_negative_dx h dx tc = (h1, None)"
    by (auto simp: calculate_sigma_def split: prod.splits option.splits)
  from assms h1 obtain tc' where c: "clamp_tc h1 tc m = (h', Inr tc')"
    by (auto simp: calculate_sigma_def Let_def split: prod.splits sum.splits)
  from clamp_value [OF c] assms h1 c show ?thesis
    by (simp add: calculate_sigma_def Let_def)
qed

lemma entry_map: "k < length xs \<Longrightarrow> entry (NDArray (map f xs)) k = f (xs ! k)"
  by auto

lemma entry_map2:
  "k < length xs \<Longrightarrow> length ys = length xs \<Longrightarrow>
   entry (NDArray (map2 f xs ys)) k = f (xs ! k) (ys ! k)"
  by auto

text \<open>
  Claim C2, amended. When \<^verbatim>\<open>calculate_sigma\<close> returns, every entry of \<open>sigma_y\<close> and \<open>sigma_z\<close>
  is the formula of the specification at the coefficients of the selected row and at the
  values \<^verbatim>\<open>dx\<close> and \<^verbatim>\<open>tc\<close> stand for after the two blocks: \<^verbatim>\<open>dx\<close> with every negative entry
  replaced by not-a-number, \<^verbatim>\<open>tc\<close> with not-a-number at those positions when it is an array
  and then with every entry below \<^verbatim>\<open>tc_minimum\<close> raised to it; \<open>ca\<close> and \<open>cb\<close> are the keyword
  arguments or else the constants of the module. It returns when \<^verbatim>\<open>dx\<close> and \<^verbatim>\<open>tc\<close> are
  float arrays (also one and the same array) or numbers, a number \<^verbatim>\<open>dx\<close> not negative, the
  arguments fit the batch, and the four powers on Python numbers are defined. They are
  defined when \<^verbatim>\<open>dx\<close> is an array or a NumPy number and \<open>z0\<close> and \<^verbatim>\<open>tc\<close> are NumPy values or
  Python numbers that are not negative; and for a positive Python number \<^verbatim>\<open>dx\<close> when the
  two powers \<^verbatim>\<open>dx**cb\<close> and \<^verbatim>\<open>(10*z0)**(ca * dx**cb)\<close> stay within range and a Python number
  \<open>z0\<close> is not zero. For float arrays and for numbers the values after the two blocks are
  spelled out. For a row index \<open>i\<close> in range the coefficient is the table entry \<open>C[i, j]\<close>.
\<close>

theorem calculate_sigma_formulas:
  "(calculate_sigma gpc h dx zs tc C si m off kca kcb = (h', Inr (sy, sz)) \<longrightarrow>
      (valid_at sy k \<longrightarrow> entry sy k =
         sigma_y_formula (coefficient C si 0 k) (coefficient C si 1 k)
           (entry (deref h' dx) k) (entry zs k) (entry (tc_after h' tc m) k)) \<and>
      (valid_at sz k \<longrightarrow> entry sz k =
         sigma_z_formula (coefficient C si 2 k) (coefficient C si 3 k)
           (entry (deref h' dx) k) (entry zs k) (kwargs_get kca (sigma_ca gpc))
           (kwargs_get kcb (sigma_cb gpc)) (entry off k)))
   \<and> (float_array h dx \<and> float_array h tc \<and> not_negative dx \<and> fits n (deref h dx) \<and>
       fits n zs \<and> fits n (deref h tc) \<and> fits n off \<and> index_fits n C si \<and>
       powers_defined (deref h dx) zs (tc_after h tc m) (kwargs_get kca (sigma_ca gpc))
         (kwargs_get kcb (sigma_cb gpc)) \<longrightarrow>
      (\<exists>sy sz h'.
         calculate_sigma gpc h dx zs tc C si m off kca kcb = (h', Inr (sy, sz)) \<and>
         fits n sy \<and> fits n sz))
   \<and> (numpy_value dv \<and> sound_base zs \<and> sound_base tv \<longrightarrow> powers_defined dv zs tv ca cb)
   \<and> (0 < x \<and> \<not> overflows (Fin (x powr cb)) \<and> sound_base zs \<and> sound_base tv \<and>
       (case zs of
          PyFloat z \<Rightarrow>
            z \<noteq> Fin 0 \<and> \<not> overflows (np_pow (Fin 10 * z) (Fin (ca * x powr cb)))
        | _ \<Rightarrow> True) \<longrightarrow>
      powers_defined (PyFloat (Fin x)) zs tv ca cb)
   \<and> (a \<noteq> b \<and> h a = Float64 xs \<and> h b = Float64 ys \<and> length xs = n \<and> length ys = n \<and>
       fits n zs \<and> sound_base zs \<and> fits n off \<and> index_fits n C si \<and> k < n \<longrightarrow>
      (\<exists>sy sz h'.
         calculate_sigma gpc h (RArr a) zs (RArr b) C si m off kca kcb = (h', Inr (sy, sz)) \<and>
         fits n sy \<and> fits n sz \<and>
         entry sy k =
           sigma_y_formula (coefficient C si 0 k) (coefficient C si 1 k) (masked (xs ! k))
             (entry zs k) (masked_clamped m (xs ! k) (ys ! k)) \<and>
         entry sz k =
           sigma_z_formula (coefficient C si 2 k) (coefficient C si 3 k) (masked (xs ! k))
             (entry zs k) (kwargs_get kca (sigma_ca gpc)) (kwargs_get kcb (sigma_cb gpc))
             (entry off k)))
   \<and> (h a = Float64 xs \<and> length xs = n \<and> fits n zs \<and> sound_base zs \<and>
       sound_base (PyFloat (clamped m t)) \<and> fits n off \<and> index_fits n C si \<and> k < n \<longrightarrow>
      (\<exists>sy sz h'.
         calculate_sigma gpc h (RArr a) zs (RNum t) C si m off kca kcb = (h', Inr (sy, sz)) \<and>
         fits n sy \<and> fits n sz \<and>
         entry sy k =
           sigma_y_formula (coefficient C si 0 k) (coefficient C si 1 k) (masked (xs ! k))
             (entry zs k) (clamped m t) \<and>
         entry sz k =
           sigma_z_formula (coefficient C si 2 k) (coefficient C si 3 k) (masked (xs ! k))
             (entry zs k) (kwargs_get kca (sigma_ca gpc)) (kwargs_get kcb (sigma_cb gpc))
             (entry off k)))
   \<and> (\<not> d < Fin 0 \<and> fits n zs \<and> fits n off \<and> index_fits n C si \<and> k < n \<and>
       powers_defined (PyFloat d) zs (PyFloat (clamped m t)) (kwargs_get kca (sigma_ca gpc))
         (kwargs_get kcb (sigma_cb gpc)) \<longrightarrow>
      (\<exists>sy sz.
         calculate_sigma gpc h (RNum d) zs (RNum t) C si m off kca kcb = (h, Inr (sy, sz)) \<and>
         fits n sy \<and> fits n sz \<and>
         entry sy k =
           sigma_y_formula (coefficient C si 0 k) (coefficient C si 1 k) d (entry zs k)
             (clamped m t) \<and>
         entry sz k =
           sigma_z_formula (coefficient C si 2 k) (coefficient C si 3 k) d (entry zs k)
             (kwargs_get kca (sigma_ca gpc)) (kwargs_get kcb (sigma_cb gpc)) (entry off k)))
   \<and> (0 \<le> i \<and> i < int (length C) \<and> j < ncols C \<longrightarrow> coefficient C (PyInt i) j k = C ! nat i ! j)"
proof (intro conjI impI)
  assume r: "calculate_sigma gpc h dx zs tc C si m off kca kcb = (h', Inr (sy, sz))"
  note f = calculate_sigma_result [OF r]
  show "entry sy k =
         sigma_y_formula (coefficient C si 0 k) (coefficient C si 1 k)
           (entry (deref h' dx) k) (entry zs k) (entry (tc_after h' tc m) k)" if "valid_at sy k"
    using sigma_formulas_entry(1) [OF f that] .
  show "entry sz k =
         sigma_z_formula (coefficient C si 2 k) (coefficient C si 3 k)
           (entry (deref h' dx) k) (entry zs k) (kwargs_get kca (sigma_ca gpc))
           (kwargs_get kcb (sigma_cb gpc)) (entry off k)" if "valid_at sz k"
    using sigma_formulas_entry(2) [OF f that] .
next
  assume "float_array h dx \<and> float_array h tc \<and> not_negative dx \<and> fits n (deref h dx) \<and>
       fits n zs \<and> fits n (deref h tc) \<and> fits n off \<and> index_fits n C si \<and>
       powers_defined (deref h dx) zs (tc_after h tc m) (kwargs_get kca (sigma_ca gpc))
         (kwargs_get kcb (sigma_cb gpc))"
  then show "\<exists>sy sz h'.
         calculate_sigma gpc h dx zs tc C si m off kca kcb = (h', Inr (sy, sz)) \<and>
         fits n sy \<and> fits n sz"
    by (intro calculate_sigma_returns) simp_all
next
  assume "numpy_value dv \<and> sound_base zs \<and> sound_base tv"
  then show "powers_defined dv zs tv ca cb"
    by (simp add: powers_numpy)
next
  assume "0 < x \<and> \<not> overflows (Fin (x powr cb)) \<and> sound_base zs \<and> sound_base tv \<and>
       (case zs of
          PyFloat z \<Rightarrow>
            z \<noteq> Fin 0 \<and> \<not> overflows (np_pow (Fin 10 * z) (Fin (ca * x powr cb)))
        | _ \<Rightarrow> True)"
  then show "powers_defined (PyFloat (Fin x)) zs tv ca cb"
    by (intro powers_python) simp_all
next
  assume p: "a \<noteq> b \<and> h a = Float64 xs \<and> h b = Float64 ys \<and> length xs = n \<and> length ys = n \<and>
       fits n zs \<and> sound_base zs \<and> fits n off \<and> index_fits n C si \<and> k < n"
  let ?dx = "NDArray (map masked xs)"
  let ?tc = "NDArray (map2 (masked_clamped m) xs ys)"
  from p have "fits n ?dx" "fits n zs" "fits n ?tc" "fits n off" "index_fits n C si"
    "powers_defined ?dx zs ?tc (kwargs_get kca (sigma_ca gpc)) (kwargs_get kcb (sigma_cb gpc))"
    by (simp_all add: powers_numpy)
  from sigma_formulas_fits [OF this]
  obtain sy sz where s: "sigma_formulas ?dx zs ?tc C si off (kwargs_get kca (sigma_ca gpc))
      (kwargs_get kcb (sigma_cb gpc)) = Inr (sy, sz)" "fits n sy" "fits n sz"
    by blast
  have v: "valid_at sy k" "valid_at sz k"
    using s p by (auto intro: fits_valid)
  have e: "entry ?dx k = masked (xs ! k)" "entry ?tc k = masked_clamped m (xs ! k) (ys ! k)"
    using p by (simp_all only: entry_map entry_map2)
  show "\<exists>sy sz h'.
         calculate_sigma gpc h (RArr a) zs (RArr b) C si m off kca kcb = (h', Inr (sy, sz)) \<and>
         fits n sy \<and> fits n sz \<and>
         entry sy k =
           sigma_y_formula (coefficient C si 0 k) (coefficient C si 1 k) (masked (xs ! k))
             (entry zs k) (masked_clamped m (xs ! k) (ys ! k)) \<and>
         entry sz k =
           sigma_z_formula (coefficient C si 2 k) (coefficient C si 3 k) (masked (xs ! k))
             (entry zs k) (kwargs_get kca (sigma_ca gpc)) (kwargs_get kcb (sigma_cb gpc))
             (entry off k)"
    using calculate_sigma_arrays [of a b h xs ys gpc zs C si m off kca kcb] p s
      sigma_formulas_entry(1) [OF s(1) v(1)] sigma_formulas_entry(2) [OF s(1) v(2)]
    unfolding e by auto
next
  assume p: "h a = Float64 xs \<and> length xs = n \<and> fits n zs \<and> sound_base zs \<and>
       sound_base (PyFloat (clamped m t)) \<and> fits n off \<and> index_fits n C si \<and> k < n"
  let ?dx = "NDArray (map masked xs)"
  let ?tc = "PyFloat (clamped m t)"
  from p have "fits n ?dx" "fits n zs" "fits n ?tc" "fits n off" "index_fits n C si"
    "powers_defined ?dx zs ?tc (kwargs_get kca (sigma_ca gpc)) (kwargs_get kcb (sigma_cb gpc))"
    by (simp_all add: powers_numpy)
  from sigma_formulas_fits [OF this]
  obtain sy sz where s: "sigma_formulas ?dx zs ?tc C si off (kwargs_get kca (sigma_ca gpc))
      (kwargs_get kcb (sigma_cb gpc)) = Inr (sy, sz)" "fits n sy" "fits n sz"
    by blast
  have v: "valid_at sy k" "valid_at sz k"
    using s p by (auto intro: fits_valid)
  have e: "entry ?dx k = masked (xs ! k)" "entry ?tc k = clamped m t"
    using p by auto
  show "\<exists>sy sz h'.
         calculate_sigma gpc h (RArr a) zs (RNum t) C si m off kca kcb = (h', Inr (sy, sz)) \<and>
         fits n sy \<and> fits n sz \<and>
         entry sy k =
           sigma_y_formula (coefficient C si 0 k) (coefficient C si 1 k) (masked (xs ! k))
             (entry zs k) (clamped m t) \<and>
         entry sz k =
           sigma_z_formula (coefficient C si 2 k) (coefficient C si 3 k) (masked (xs ! k))
             (entry zs k) (kwargs_get kca (sigma_ca gpc)) (kwargs_get kcb (sigma_cb gpc))
             (entry off k)"
    using calculate_sigma_array_number [of h a xs gpc zs t C si m off kca kcb] p s
      sigma_formulas_entry(1) [OF s(1) v(1)] sigma_formulas_entry(2) [OF s(1) v(2)]
    unfolding e by auto
next
  assume p: "\<not> d < Fin 0 \<and> fits n zs \<and> fits n off \<and> index_fits n C si \<and> k < n \<and>
       powers_defined (PyFloat d) zs (PyFloat (clamped m t)) (kwargs_get kca (sigma_ca gpc))
         (kwargs_get kcb (sigma_cb gpc))"
  let ?dx = "PyFloat d"
  let ?tc = "PyFloat (clamped m t)"
  from p have "fits n ?dx" "fits n zs" "fits n ?tc" "fits n off" "index_fits n C si"
    "powers_defined ?dx zs ?tc (kwargs_get kca (sigma_ca gpc)) (kwargs_get kcb (sigma_cb gpc))"
    by simp_all
  from sigma_formulas_fits [OF this]
  obtain sy sz where s: "sigma_formulas ?dx zs ?tc C si off (kwargs_get kca (sigma_ca gpc))
      (kwargs_get kcb (sigma_cb gpc)) = Inr (sy, sz)" "fits n sy" "fits n sz"
    by blast
  have v: "valid_at sy k" "valid_at sz k"
    using s p by (auto intro: fits_valid)
  show "\<exists>sy sz.
         calculate_sigma gpc h (RNum d) zs (RNum t) C si m off kca kcb = (h, Inr (sy, sz)) \<and>
         fits n sy \<and> fits n sz \<and>
         entry sy k =
           sigma_y_formula (coefficient C si 0 k) (coefficient C si 1 k) d (entry zs k)
             (clamped m t) \<and>
         entry sz k =
           sigma_z_formula (coefficient C si 2 k) (coefficient C si 3 k) d (entry zs k)
             (kwargs_get kca (sigma_ca gpc)) (kwargs_get kcb (sigma_cb gpc)) (entry off k)"
    using calculate_sigma_numbers [of d gpc h zs t C si m off kca kcb] p s
      sigma_formulas_entry(1) [OF s(1) v(1)] sigma_formulas_entry(2) [OF s(1) v(2)]
    by auto
next
  assume "0 \<le> i \<and> i < int (length C) \<and> j < ncols C"
  then show "coefficient C (PyInt i) j k = C ! nat i ! j"
    by (simp add: coefficient_PyInt)
qed

lemma sample_heap_simps:
  "sample_heap 0 = Float64 [Fin 100, Fin (- 2)]"
  "sample_heap (Suc 0) = Float64 [Fin (- 5), Fin 7]"
  "sample_heap 1 = Float64 [Fin (- 5), Fin 7]" "sample_heap 2 = Float64 []"
  by (simp_all add: sample_heap_def empty_heap_def)

lemma integer_heap_simps:
  "integer_heap 0 = Int64 [100, - 2]" "integer_heap 1 = Float64 [Fin (- 5), Fin 7]"
  by (simp_all add: integer_heap_def empty_heap_def)

lemma nogepa_row_3:
  "coefficient nogepa_table (PyInt 3) 0 k = Fin (359 / 1000)"
  "coefficient nogepa_table (PyInt 3) 1 k = Fin (902 / 1000)"
  "coefficient nogepa_table (PyInt 3) (Suc 0) k = Fin (902 / 1000)"
  "coefficient nogepa_table (PyInt 3) 2 k = Fin (15 / 100)"
  "coefficient nogepa_table (PyInt 3) 3 k = Fin (73 / 100)"
  by (simp_all add: coefficient_def table_get_def nogepa_table_def row_ok_def row_of_def
        ncols_def)

lemma nogepa_index_fits: "index_fits n nogepa_table (PyInt 3)"
  by (simp add: index_fits_def nogepa_table_def row_ok_def ncols_def)

text \<open>The two powers of the sample distance stay far within the range of a double.\<close>

lemma sample_powers:
  "\<not> overflows (Fin (100 powr - (22 / 100)))"
  "\<not> overflows (np_pow (Fin 10 * Fin 1) (Fin (53 / 100 * 100 powr - (22 / 100))))"
proof -
  have p: "(100::real) powr - (22 / 100) \<le> 1" "0 \<le> (100::real) powr - (22 / 100)"
    using powr_mono [of "- (22 / 100)" 0 "100::real"] by simp_all
  with float_range_above_one show "\<not> overflows (Fin (100 powr - (22 / 100)))"
    by simp
  from p have "53 / 100 * 100 powr - (22 / 100) \<le> (1::real)" by simp
  from powr_mono [OF this, of 10]
  have "(10::real) powr (53 / 100 * 100 powr - (22 / 100)) \<le> 10" by simp
  moreover have "(10::real) < float_range" by (simp add: float_range_def)
  ultimately show
    "\<not> overflows (np_pow (Fin 10 * Fin 1) (Fin (53 / 100 * 100 powr - (22 / 100))))"
    by (simp add: np_pow_positive)
qed

theorem calculate_sigma_formulas_witness:
  "(\<exists>sy sz h'.
      calculate_sigma sample_constants sample_heap (RArr 0) (PyFloat (Fin 1)) (RArr 1)
        nogepa_table (PyInt 3) (Fin 0) (PyFloat (Fin 0)) None None = (h', Inr (sy, sz)) \<and>
      entry sy 0 =
        sigma_y_formula (Fin (359 / 1000)) (Fin (902 / 1000)) (Fin 100) (Fin 1) (Fin 0) \<and>
      entry sy 0 =
        sigma_y_formula (Fin (359 / 1000)) (Fin (902 / 1000))
          (entry (NDArray (floats (h' 0))) 0) (Fin 1) (entry (NDArray (floats (h' 1))) 0) \<and>
      entry sz 0 =
        sigma_z_formula (Fin (15 / 100)) (Fin (73 / 100)) (Fin 100) (Fin 1) (53 / 100)
          (- (22 / 100)) (Fin 0))
   \<and> (\<exists>sy sz h'.
      calculate_sigma sample_constants sample_heap (RArr 0) (PyFloat (Fin 1)) (RNum (Fin 3))
        nogepa_table (PyInt 3) (Fin 0) (PyFloat (Fin 0)) None None = (h', Inr (sy, sz)) \<and>
      entry sy 1 =
        sigma_y_formula (Fin (359 / 1000)) (Fin (902 / 1000)) NaN (Fin 1) (Fin 3))
   \<and> (\<exists>sy sz.
      calculate_sigma sample_constants sample_heap (RNum (Fin 100)) (PyFloat (Fin 1))
        (RNum (Fin (- 1))) nogepa_table (PyInt 3) (Fin 0) (PyFloat (Fin 0)) None None =
        (sample_heap, Inr (sy, sz)) \<and>
      entry sy 0 =
        sigma_y_formula (Fin (359 / 1000)) (Fin (902 / 1000)) (Fin 100) (Fin 1) (Fin 0))
   \<and> (\<exists>sy sz h'.
      calculate_sigma sample_constants sample_heap (RArr 0) (PyFloat (Fin 1)) (RArr 0)
        nogepa_table (PyInt 3) (Fin 0) (PyFloat (Fin 0)) None None = (h', Inr (sy, sz)))
   \<and> (\<exists>sy sz h'.
      calculate_sigma sample_constants sample_heap (RNum (Fin 100)) (PyFloat (Fin 1)) (RArr 1)
        nogepa_table (PyInt 3) (Fin 0) (PyFloat (Fin 0)) None None = (h', Inr (sy, sz)))
   \<and> coefficient nogepa_table (PyInt 3) 1 0 = Fin (902 / 1000)"
proof -
  note inst = calculate_sigma_formulas [where gpc = sample_constants and h = sample_heap
      and zs = "PyFloat (Fin 1)" and C = nogepa_table and si = "PyInt 3" and m = "Fin 0"
      and off = "PyFloat (Fin 0)" and kca = None and kcb = None and a = 0 and b = 1 and n = 2
      and i = 3 and j = 1 and xs = "[Fin 100, Fin (- 2)]" and ys = "[Fin (- 5), Fin 7]"
      and x = 100 and ca = "53 / 100" and cb = "- (22 / 100)"]
  have pre: "fits 2 (PyFloat (Fin 1))" "fits 2 (PyFloat (Fin 0))"
    "index_fits 2 nogepa_table (PyInt 3)" "sound_base (PyFloat (Fin 1))"
    "sound_base (PyFloat (Fin 0))"
    by (simp_all add: nogepa_index_fits float_range_def)
  have "\<exists>sy sz h'.
      calculate_sigma sample_constants sample_heap (RArr 0) (PyFloat (Fin 1)) (RArr 1)
        nogepa_table (PyInt 3) (Fin 0) (PyFloat (Fin 0)) None None = (h', Inr (sy, sz)) \<and>
      fits 2 sy \<and> fits 2 sz \<and>
      entry sy 0 =
        sigma_y_formula (Fin (359 / 1000)) (Fin (902 / 1000)) (Fin 100) (Fin 1) (Fin 0) \<and>
      entry sz 0 =
        sigma_z_formula (Fin (15 / 100)) (Fin (73 / 100)) (Fin 100) (Fin 1) (53 / 100)
          (- (22 / 100)) (Fin 0)"
    using inst [where k = 0, THEN conjunct2, THEN conjunct2, THEN conjunct2, THEN conjunct2,
        THEN conjunct1] pre
    by (simp add: nogepa_row_3 sample_heap_simps masked_def masked_clamped_def clamped_def
          kwargs_get_def sample_constants_def)
  then obtain sy sz h' where r:
    "calculate_sigma sample_constants sample_heap (RArr 0) (PyFloat (Fin 1)) (RArr 1)
        nogepa_table (PyInt 3) (Fin 0) (PyFloat (Fin 0)) None None = (h', Inr (sy, sz))"
    "fits 2 sy"
    "entry sy 0 =
        sigma_y_formula (Fin (359 / 1000)) (Fin (902 / 1000)) (Fin 100) (Fin 1) (Fin 0)"
    "entry sz 0 =
        sigma_z_formula (Fin (15 / 100)) (Fin (73 / 100)) (Fin 100) (Fin 1) (53 / 100)
          (- (22 / 100)) (Fin 0)"
    by blast
  have "valid_at sy 0" using r(2) by (auto intro: fits_valid)
  with r(1) inst [where k = 0 and dx = "RArr 0" and tc = "RArr 1" and h' = h' and sy = sy
      and sz = sz, THEN conjunct1]
  have g: "entry sy 0 =
        sigma_y_formula (Fin (359 / 1000)) (Fin (902 / 1000))
          (entry (NDArray (floats (h' 0))) 0) (Fin 1) (entry (NDArray (floats (h' 1))) 0)"
    by (simp add: nogepa_row_3 tc_after_def)
  have an: "\<exists>sy sz h'.
      calculate_sigma sample_constants sample_heap (RArr 0) (PyFloat (Fin 1)) (RNum (Fin 3))
        nogepa_table (PyInt 3) (Fin 0) (PyFloat (Fin 0)) None None = (h', Inr (sy, sz)) \<and>
      entry sy 1 =
        sigma_y_formula (Fin (359 / 1000)) (Fin (902 / 1000)) NaN (Fin 1) (Fin 3)"
    using inst [where k = 1 and t = "Fin 3", THEN conjunct2, THEN conjunct2, THEN conjunct2,
        THEN conjunct2, THEN conjunct2, THEN conjunct1] pre
    by (simp add: nogepa_row_3 sample_heap_simps masked_def clamped_def float_range_def) blast
  have py: "powers_defined (PyFloat (Fin 100)) (PyFloat (Fin 1)) tv (53 / 100) (- (22 / 100))"
    if "sound_base tv" for tv
    using inst [where tv = tv, THEN conjunct2, THEN conjunct2, THEN conjunct2, THEN conjunct1]
      pre that sample_powers
    by simp
  have nn: "\<exists>sy sz.
      calculate_sigma sample_constants sample_heap (RNum (Fin 100)) (PyFloat (Fin 1))
        (RNum (Fin (- 1))) nogepa_table (PyInt 3) (Fin 0) (PyFloat (Fin 0)) None None =
        (sample_heap, Inr (sy, sz)) \<and>
      entry sy 0 =
        sigma_y_formula (Fin (359 / 1000)) (Fin (902 / 1000)) (Fin 100) (Fin 1) (Fin 0)"
    using inst [where k = 0 and d = "Fin 100" and t = "Fin (- 1)", THEN conjunct2,
        THEN conjunct2, THEN conjunct2, THEN conjunct2, THEN conjunct2, THEN conjunct2,
        THEN conjunct1] pre py [of "PyFloat (Fin 0)"]
    by (simp add: nogepa_row_3 clamped_def kwargs_get_def sample_constants_def) blast
  have np: "powers_defined (NDArray us) (PyFloat (Fin 1)) (NDArray vs) (53 / 100) (- (22 / 100))"
    for us vs
    using inst [where dv = "NDArray us" and tv = "NDArray vs", THEN conjunct2, THEN conjunct2,
        THEN conjunct1] pre
    by simp
  have al: "\<exists>sy sz h'.
      calculate_sigma sample_constants sample_heap (RArr 0) (PyFloat (Fin 1)) (RArr 0)
        nogepa_table (PyInt 3) (Fin 0) (PyFloat (Fin 0)) None None = (h', Inr (sy, sz))"
    using inst [where dx = "RArr 0" and tc = "RArr 0", THEN conjunct2, THEN conjunct1] pre np
    by (simp add: float_array_def not_negative_def sample_heap_simps tc_after_def
          kwargs_get_def sample_constants_def) blast
  have na: "\<exists>sy sz h'.
      calculate_sigma sample_constants sample_heap (RNum (Fin 100)) (PyFloat (Fin 1)) (RArr 1)
        nogepa_table (PyInt 3) (Fin 0) (PyFloat (Fin 0)) None None = (h', Inr (sy, sz))"
    using inst [where dx = "RNum (Fin 100)" and tc = "RArr 1", THEN conjunct2, THEN conjunct1]
      pre py [of "NDArray [Fin (- 5), Fin 7]"]
    by (simp add: float_array_def not_negative_def sample_heap_simps tc_after_def
          kwargs_get_def sample_constants_def) blast
  have co: "coefficient nogepa_table (PyInt 3) 1 0 = Fin (902 / 1000)"
    using inst [where k = 0, THEN conjunct2, THEN conjunct2, THEN conjunct2, THEN conjunct2,
        THEN conjunct2, THEN conjunct2, THEN conjunct2]
    by (simp add: nogepa_table_def ncols_def)
  from r g an nn al na co show ?thesis by blast
qed

text \<open>
  The formulas at the distance as it was passed do not hold for every table: with the row
  \<open>[1, 2, 1, 2]\<close> and the distance array \<open>[-2]\<close> both spreads are not-a-number, where the
  formula at \<open>dx = -2\<close> gives \<open>sigma_y = 4\<close>.
\<close>

theorem calculate_sigma_formulas_counterexample:
  "snd (calculate_sigma sample_constants (empty_heap(0 := Float64 [Fin (- 2)])) (RArr 0)
          (PyFloat (Fin 1)) (RNum (Fin 1)) [[Fin 1, Fin 2, Fin 1, Fin 2]] (PyInt 0) (Fin 0)
          (PyFloat (Fin 0)) None None) = Inr (NDArray [NaN], NDArray [NaN])
   \<and> sigma_y_formula (Fin 1) (Fin 2) (Fin (- 2)) (Fin 1) (Fin 1) = Fin 4"
proof -
  have "float_pow (Fin 1) (Fin (2 / 10)) = Inr (Fin 1)"
    "float_pow (Fin 1) (Fin (35 / 100)) = Inr (Fin 1)"
    by (simp_all add: float_pow_def np_pow_positive float_range_def)
  then show ?thesis
    by (simp add: calculate_sigma_array_number [where xs = "[Fin (- 2)]"] sigma_formulas_def
          table_get_def row_ok_def row_of_def ncols_def empty_heap_def masked_def clamped_def
          kwargs_get_def sample_constants_def array_ops ufunc2_numbers ufunc1_numbers
          np_pow.simps sigma_y_formula_def whole_def float_mul_def float_add_def)
qed

theorem calculate_sigma_negative_number_raises_witness:
  "calculate_sigma sample_constants sample_heap (RNum (Fin (- 1))) (PyFloat (Fin 1))
     (RNum (Fin 3)) nogepa_table (PyInt 3) (Fin 0) (PyFloat (Fin 0)) None None =
   (sample_heap, Inl TypeError)"
  using calculate_sigma_negative_number_raises [where x = "Fin (- 1)" and h = sample_heap
      and gpc = sample_constants and zs = "PyFloat (Fin 1)" and tc = "RNum (Fin 3)"
      and C = nogepa_table and si = "PyInt 3" and m = "Fin 0" and off = "PyFloat (Fin 0)"
      and kca = None and kcb = None]
  by simp

theorem calculate_sigma_overwrites_arrays_witness:
  "fst (calculate_sigma sample_constants sample_heap (RArr 0) (PyFloat (Fin 1)) (RArr 1)
          nogepa_table (PyInt 3) (Fin 0) (PyFloat (Fin 0)) None None) 0 =
     Float64 [Fin 100, NaN]
   \<and> fst (calculate_sigma sample_constants sample_heap (RArr 0) (PyFloat (Fin 1)) (RArr 1)
          nogepa_table (PyInt 3) (Fin 0) (PyFloat (Fin 0)) None None) 1 =
     Float64 [Fin 0, NaN]
   \<and> fst (calculate_sigma sample_constants sample_heap (RArr 0) (PyFloat (Fin 1)) (RArr 1)
          nogepa_table (PyInt 3) (Fin 0) (PyFloat (Fin 0)) None None) 0 \<noteq> sample_heap 0
   \<and> fst (calculate_sigma sample_constants sample_heap (RArr 0) (PyFloat (Fin 1)) (RArr 0)
          nogepa_table (PyInt 3) (Fin 200) (PyFloat (Fin 0)) None None) 0 =
     Float64 [Fin 200, NaN]
   \<and> fst (calculate_sigma sample_constants sample_heap (RArr 0) (PyFloat (Fin 1)) (RArr 1)
          nogepa_table (PyInt 3) (Fin 0) (PyFloat (Fin 0)) None None) 2 = Float64 []
   \<and> calculate_sigma sample_constants integer_heap (RArr 0) (PyFloat (Fin 1)) (RArr 1)
          nogepa_table (PyInt 3) (Fin 0) (PyFloat (Fin 0)) None None =
     (integer_heap, Inl (ValueError None))
   \<and> fst (calculate_sigma sample_constants
          (empty_heap(0 := Int64 [100, 1], 1 := Float64 [Fin 5, Fin 7])) (RArr 1)
          (PyFloat (Fin 1)) (RArr 0) nogepa_table (PyInt 3) (Fin (5 / 2)) (PyFloat (Fin 0))
          None None) 0 =
     Int64 [100, 2]"
proof -
  note inst = calculate_sigma_overwrites_arrays [where gpc = sample_constants
      and zs = "PyFloat (Fin 1)" and C = nogepa_table and si = "PyInt 3"
      and off = "PyFloat (Fin 0)" and kca = None and kcb = None]
  note s = inst [where h = sample_heap and a = 0 and b = 1 and tc = "RArr 1" and m = "Fin 0"
      and k = 1 and c = 2 and xs = "[Fin 100, Fin (- 2)]" and ys = "[Fin (- 5), Fin 7]"]
  have a: "fst (calculate_sigma sample_constants sample_heap (RArr 0) (PyFloat (Fin 1)) (RArr 1)
          nogepa_table (PyInt 3) (Fin 0) (PyFloat (Fin 0)) None None) 0 =
     Float64 [Fin 100, NaN]"
    "fst (calculate_sigma sample_constants sample_heap (RArr 0) (PyFloat (Fin 1)) (RArr 1)
          nogepa_table (PyInt 3) (Fin 0) (PyFloat (Fin 0)) None None) 1 =
     Float64 [Fin 0, NaN]"
    using s [THEN conjunct2, THEN conjunct1]
    by (simp_all add: sample_heap_simps masked_def masked_clamped_def clamped_def)
  have b: "fst (calculate_sigma sample_constants sample_heap (RArr 0) (PyFloat (Fin 1)) (RArr 1)
          nogepa_table (PyInt 3) (Fin 0) (PyFloat (Fin 0)) None None) 0 \<noteq> sample_heap 0"
    using s [THEN conjunct1] by (simp add: sample_heap_simps)
  have c: "fst (calculate_sigma sample_constants sample_heap (RArr 0) (PyFloat (Fin 1)) (RArr 0)
          nogepa_table (PyInt 3) (Fin 200) (PyFloat (Fin 0)) None None) 0 =
     Float64 [Fin 200, NaN]"
    using inst [where h = sample_heap and a = 0 and m = "Fin 200"
        and xs = "[Fin 100, Fin (- 2)]", THEN conjunct2, THEN conjunct2, THEN conjunct1]
    by (simp add: sample_heap_simps masked_def clamped_def)
  have d: "fst (calculate_sigma sample_constants sample_heap (RArr 0) (PyFloat (Fin 1)) (RArr 1)
          nogepa_table (PyInt 3) (Fin 0) (PyFloat (Fin 0)) None None) 2 = Float64 []"
    using s [THEN conjunct2, THEN conjunct2, THEN conjunct2, THEN conjunct1]
    by (simp add: sample_heap_simps)
  have e: "calculate_sigma sample_constants integer_heap (RArr 0) (PyFloat (Fin 1)) (RArr 1)
          nogepa_table (PyInt 3) (Fin 0) (PyFloat (Fin 0)) None None =
     (integer_heap, Inl (ValueError None))"
    using inst [where h = integer_heap and a = 0 and tc = "RArr 1" and m = "Fin 0"
        and ks = "[100, - 2]", THEN conjunct2, THEN conjunct2, THEN conjunct2, THEN conjunct2,
        THEN conjunct1]
    by (simp add: integer_heap_simps)
  have t: "to_int64 (Fin (5 / 2)) = Inr 2"
    by (simp add: to_int64_def toward_zero_def)
  have f: "fst (calculate_sigma sample_constants
          (empty_heap(0 := Int64 [100, 1], 1 := Float64 [Fin 5, Fin 7])) (RArr 1)
          (PyFloat (Fin 1)) (RArr 0) nogepa_table (PyInt 3) (Fin (5 / 2)) (PyFloat (Fin 0))
          None None) 0 =
     Int64 [100, 2]"
    using inst [where h = "empty_heap(0 := Int64 [100, 1], 1 := Float64 [Fin 5, Fin 7])"
        and a = 1 and b = 0 and tc = "RArr 0" and m = "Fin (5 / 2)" and j = 2
        and xs = "[Fin 5, Fin 7]" and ks = "[100, 1]", THEN conjunct2, THEN conjunct2,
        THEN conjunct2, THEN conjunct2, THEN conjunct2] t
    by simp
  from a b c d e f show ?thesis by blast
qed

text \<open>
  The claim as it was written, every array \<^verbatim>\<open>dx\<close> with a negative entry being overwritten,
  fails for an array of integers: the call raises \<^verbatim>\<open>ValueError\<close> and the caller's array
  still holds the negative entry.
\<close>

theorem calculate_sigma_overwrites_arrays_counterexample:
  "calculate_sigma sample_constants integer_heap (RArr 0) (PyFloat (Fin 1)) (RNum (Fin 3))
     nogepa_table (PyInt 3) (Fin 0) (PyFloat (Fin 0)) None None =
     (integer_heap, Inl (ValueError None))
   \<and> integer_heap 0 = Int64 [100, - 2]"
  by (simp add: calculate_sigma_def mask_negative_dx_integer [where ks = "[100, - 2]"]
        integer_heap_simps)

section \<open>The methods of a source and of a plume\<close>

subsection \<open>The concentration is never \<^verbatim>\<open>None\<close>\<close>

lemma ufunc2_not_none: "ufunc2 f a b = Inr c \<Longrightarrow> c \<noteq> PyNone"
  by (cases a; cases b) (auto simp: ufunc2_def split: if_splits)

lemma binop_not_none: "binop p f a b = Inr c \<Longrightarrow> c \<noteq> PyNone"
  by (cases "(p, f, a, b)" rule: binop.cases) (auto dest!: bindE_Inr ufunc2_not_none)

lemma lift2_not_none: "lift2 p f ra rb = Inr c \<Longrightarrow> c \<noteq> PyNone"
  by (auto simp: lift2_def dest!: bindE_Inr binop_not_none)



subsection \<open>Calls with the instance as an argument\<close>

lemma bind_extra_instance:
  "bind_arguments [''self'', ''verbose''] [Instance, Instance] [(''verbose'', x)] = Inl TypeError"
  by (simp add: bind_arguments_def bind_keyword_def)

lemma call_extra_instance:
  "call_method body self [Instance] [(''verbose'', x)] = (self, [], Some TypeError)"
  by (simp add: call_method_def bind_extra_instance)

lemma call_keyword_only:
  "call_method body self [] [(''verbose'', IntObj v)] = body self (print_vars v (plume_verbose self))"
  by (simp add: call_method_def bind_arguments_def bind_keyword_def)

lemma prepare_dxdy_verbose:
  "calculate_concentration_prepare_dxdy gpc self v = calculate_concentration_prepare_dxdy gpc self w"
  by (simp add: calculate_concentration_prepare_dxdy_def)

lemma plume_calculate_concentration_unfold:
  "plume_calculate_concentration gpc mp self v =
     (case calculate_concentration_prepare_dxdy gpc self 0 of
        (self', ws, Some e) \<Rightarrow> (self', ws, Some e)
      | (self', ws, None) \<Rightarrow> (self', ws, Some TypeError))"
proof -
  obtain self' ws r where p:
    "calculate_concentration_prepare_dxdy gpc self 0 = (self', ws, r)"
    by (cases "calculate_concentration_prepare_dxdy gpc self 0") auto
  have q: "calculate_concentration_prepare_dxdy gpc self w = (self', ws, r)" for w
    using p prepare_dxdy_verbose [of gpc self w 0] by simp
  show ?thesis
    by (cases r)
      (simp_all add: plume_calculate_concentration_def Let_def call_keyword_only
         call_extra_instance then_call_def p q)
qed


subsection \<open>When \<^verbatim>\<open>dx\<close> and \<^verbatim>\<open>dy\<close> are present\<close>

lemma dlatdlon2dxdy_not_none:
  assumes "dlatdlon2dxdy gpc a b c d wd w = Inr ((x, y), ws)"
  shows "x \<noteq> PyNone" "y \<noteq> PyNone"
  using assms unfolding dlatdlon2dxdy_def Let_def py_add_def py_sub_def
  by (auto dest!: bindE_Inr lift2_not_none)

lemma dxdy_rotate_sets:
  assumes "dxdy_rotate gpc s = (s', ws, None)"
  shows "src_dx s' \<noteq> PyNone \<and> src_dy s' \<noteq> PyNone"
  using assms
  by (auto simp: dxdy_rotate_def split: if_splits sum.splits dest: dlatdlon2dxdy_not_none)

lemma source_calculate_dxdy_sets:
  assumes "source_calculate_dxdy gpc s v = (s', ws, None)"
  shows "src_dx s' \<noteq> PyNone \<and> src_dy s' \<noteq> PyNone"
proof (cases "src_dx s \<noteq> PyNone \<and> src_dy s \<noteq> PyNone")
  case True
  with assms show ?thesis by (simp add: source_calculate_dxdy_def)
next
  case False
  with assms obtain s2 ws3 where "dxdy_rotate gpc s2 = (s', ws3, None)"
    by (auto simp: source_calculate_dxdy_def split: prod.splits option.splits)
  then show ?thesis by (rule dxdy_rotate_sets)
qed

lemma source_calculate_dxdy_present:
  "src_dx s \<noteq> PyNone \<Longrightarrow> src_dy s \<noteq> PyNone \<Longrightarrow> source_calculate_dxdy gpc s v = (s, [], None)"
  by (simp add: source_calculate_dxdy_def)

lemma prepare_dxdy_present:
  "plume_df self = Some df \<Longrightarrow> ''dx'' \<in> set (columns df) \<Longrightarrow> ''dy'' \<in> set (columns df) \<Longrightarrow>
   calculate_concentration_prepare_dxdy gpc self v = (self, [], None)"
  by (simp add: calculate_concentration_prepare_dxdy_def)

lemma columns_df_insert:
  "df_insert df loc name v = Inr df' \<Longrightarrow> set (columns df') = insert name (set (columns df))"
proof -
  assume a: "df_insert df loc name v = Inr df'"
  then obtain col where "df' = take loc df @ [(name, col)] @ drop loc df"
    by (auto simp: df_insert_def split: if_splits dest!: bindE_Inr)
  moreover have "set (take loc df) \<union> set (drop loc df) = set df"
    by (metis append_take_drop_id set_append)
  ultimately show ?thesis
    by (auto simp: columns_def)
qed

lemma prepare_dxdy_sets:
  assumes "calculate_concentration_prepare_dxdy gpc self v = (self', ws, None)"
  shows "\<exists>df'. plume_df self' = Some df' \<and> ''dx'' \<in> set (columns df') \<and> ''dy'' \<in> set (columns df')"
proof -
  from assms obtain df where df: "plume_df self = Some df"
    by (auto simp: calculate_concentration_prepare_dxdy_def split: option.splits)
  show ?thesis
  proof (cases "''dx'' \<in> set (columns df) \<and> ''dy'' \<in> set (columns df)")
    case True
    with assms df show ?thesis
      by (auto simp: calculate_concentration_prepare_dxdy_def)
  next
    case False
    with assms df obtain x y df1 df2 where
      i: "df_insert df (length (columns df)) ''dy'' y = Inr df1"
         "df_insert df1 (length (columns df)) ''dx'' x = Inr df2"
         "self' = self\<lparr>plume_df := Some df2\<rparr>"
      by (auto simp: calculate_concentration_prepare_dxdy_def Let_def
            split: if_splits sum.splits prod.splits)
    from columns_df_insert [OF i(1)] columns_df_insert [OF i(2)] i(3)
    show ?thesis by auto
  qed
qed


subsection \<open>Sample runs that compute \<^verbatim>\<open>dx\<close> and \<^verbatim>\<open>dy\<close>\<close>

lemma dlatdlon_fits:
  assumes "fits n (list2array a)" "fits n (list2array b)" "fits n (list2array c)"
    "fits n (list2array d)" "fits n (list2array wd)"
  shows "\<exists>x y ws. dlatdlon2dxdy gpc a b c d wd w = Inr ((x, y), ws) \<and> fits n x \<and> fits n y"
proof -
  have co: "returns_numpy n (numpy_cos (py_mul (arg (list2array wd)) (lit (deg2rad gpc))))"
    and si: "returns_numpy n (numpy_sin (py_mul (arg (list2array wd)) (lit (deg2rad gpc))))"
    by (intro ufuncs_numpy ops_fit assms)+
  have ac: "returns_fitting n (py_sub (arg (list2array a)) (arg (list2array c)))"
    and bd: "returns_fitting n (py_sub (arg (list2array b)) (arg (list2array d)))"
    by (intro ops_fit assms)+
  have "returns_numpy n (py_add
          (py_mul (py_sub (arg (list2array a)) (arg (list2array c)))
             (numpy_cos (py_mul (arg (list2array wd)) (lit (deg2rad gpc)))))
          (py_mul (py_sub (arg (list2array b)) (arg (list2array d)))
             (numpy_sin (py_mul (arg (list2array wd)) (lit (deg2rad gpc))))))"
    by (rule ops_numpy_left(1) [OF ops_numpy_right(3) [OF ac co]
          numpy_fitting [OF ops_numpy_right(3) [OF bd si]]])
  then obtain x where x: "py_add
          (py_mul (py_sub (arg (list2array a)) (arg (list2array c)))
             (numpy_cos (py_mul (arg (list2array wd)) (lit (deg2rad gpc)))))
          (py_mul (py_sub (arg (list2array b)) (arg (list2array d)))
             (numpy_sin (py_mul (arg (list2array wd)) (lit (deg2rad gpc))))) = Inr x" "fits n x"
      "numpy_value x"
    by (auto simp: returns_numpy_iff)
  have "returns_numpy n (py_sub
          (py_mul (py_sub (arg (list2array a)) (arg (list2array c)))
             (numpy_sin (py_mul (arg (list2array wd)) (lit (deg2rad gpc)))))
          (py_mul (py_sub (arg (list2array b)) (arg (list2array d)))
             (numpy_cos (py_mul (arg (list2array wd)) (lit (deg2rad gpc))))))"
    by (rule ops_numpy_left(2) [OF ops_numpy_right(3) [OF ac si]
          numpy_fitting [OF ops_numpy_right(3) [OF bd co]]])
  then obtain y where y: "py_sub
          (py_mul (py_sub (arg (list2array a)) (arg (list2array c)))
             (numpy_sin (py_mul (arg (list2array wd)) (lit (deg2rad gpc)))))
          (py_mul (py_sub (arg (list2array b)) (arg (list2array d)))
             (numpy_cos (py_mul (arg (list2array wd)) (lit (deg2rad gpc))))) = Inr y" "fits n y"
      "numpy_value y"
    by (auto simp: returns_numpy_iff)
  have "returns_fitting n
          (numpy_sqrt (py_add (py_pow (arg x) (lit 2)) (py_pow (arg y) (lit 2))))"
    by (intro ops_fit numpy_fitting [OF ops_numpy_left(5)] arg_numpy x y)
  then obtain e where
    "numpy_sqrt (py_add (py_pow (arg x) (lit 2)) (py_pow (arg y) (lit 2))) = Inr e"
    by (auto simp: returns_fitting_iff)
  then show ?thesis
    unfolding dlatdlon2dxdy_def Let_def using x y by simp
qed

lemma sample_source_computes:
  "\<exists>s' ws. source_calculate_dxdy sample_constants
       (new_source\<lparr>src_latS := Scalar (Fin 53), src_lonS := Scalar (Fin 6),
          src_latR := Scalar (Fin 52), src_lonR := Scalar (Fin 5),
          src_latM := Scalar (Fin 54), src_lonM := Scalar (Fin 7),
          src_wind_direction := Scalar (Fin 30)\<rparr>) 0 = (s', ws, None)"
proof -
  let ?s = "new_source\<lparr>src_latS := Scalar (Fin 53), src_lonS := Scalar (Fin 6),
          src_latR := Scalar (Fin 52), src_lonR := Scalar (Fin 5),
          src_latM := Scalar (Fin 54), src_lonM := Scalar (Fin 7),
          src_wind_direction := Scalar (Fin 30)\<rparr>"
  have f: "fits 1 (list2array (Val (Scalar v)))" for v by simp
  from latlon_fits [OF f f f f]
  obtain a b ws1 where 1: "latlon2dlatdlon sample_constants (Val (Scalar (Fin 53)))
      (Val (Scalar (Fin 6))) (Val (Scalar (Fin 52))) (Val (Scalar (Fin 5)))
      default_warn_distance None None = Inr ((a, b), ws1)" "fits 1 a" "fits 1 b"
    by blast
  from latlon_fits [OF f f f f]
  obtain c d ws2 where 2: "latlon2dlatdlon sample_constants (Val (Scalar (Fin 54)))
      (Val (Scalar (Fin 7))) (Val (Scalar (Fin 52))) (Val (Scalar (Fin 5)))
      default_warn_distance None None = Inr ((c, d), ws2)" "fits 1 c" "fits 1 d"
    by blast
  have g: "fits 1 (list2array (Val a))" "fits 1 (list2array (Val b))"
    "fits 1 (list2array (Val c))" "fits 1 (list2array (Val d))"
    using 1 2 by simp_all
  from dlatdlon_fits [OF g f]
  obtain x y ws3 where 3: "dlatdlon2dxdy sample_constants (Val a) (Val b) (Val c) (Val d)
      (Val (Scalar (Fin 30))) default_warn_distance = Inr ((x, y), ws3)"
    by blast
  have "source_calculate_dxdy sample_constants ?s 0 =
      (?s\<lparr>src_dlatS := a, src_dlonS := b, src_dlatM := c, src_dlonM := d,
          src_dx := x, src_dy := y\<rparr>, ws1 @ ws2 @ ws3, None)"
    by (simp add: source_calculate_dxdy_def dxdy_source_offsets_def
          dxdy_measurement_offsets_def dxdy_rotate_def new_source_def 1 2 3)
  then show ?thesis by blast
qed

lemma df_insert_end:
  assumes "name \<notin> set (columns df)" "loc \<le> length df" "fits (nrows df) v"
  shows "\<exists>col. df_insert df loc name v = Inr (take loc df @ [(name, col)] @ drop loc df)"
  using assms by (cases v) (auto simp: df_insert_def)

lemma sample_plume_computes:
  "\<exists>p' ws. calculate_concentration_prepare_dxdy sample_constants
       (new_plume\<lparr>plume_df := Some latlon_table\<rparr>) 0 = (p', ws, None)"
proof -
  let ?p = "new_plume\<lparr>plume_df := Some latlon_table\<rparr>"
  have loc: "df_loc latlon_table ''latS'' = Inr (NDArray [Fin 53, Fin 53])"
    "df_loc latlon_table ''lonS'' = Inr (NDArray [Fin 6, Fin 6])"
    "df_loc latlon_table ''latM'' = Inr (NDArray [Fin 54, Fin 54])"
    "df_loc latlon_table ''lonM'' = Inr (NDArray [Fin 7, Fin 7])"
    "df_loc latlon_table ''latR'' = Inr (NDArray [Fin 52, Fin 52])"
    "df_loc latlon_table ''lonR'' = Inr (NDArray [Fin 5, Fin 5])"
    "df_loc latlon_table ''wind_direction'' = Inr (NDArray [Fin 30, Fin 60])"
    by (simp_all add: df_loc_def latlon_table_def)
  have f: "fits 2 (list2array (Val (NDArray [u, v])))" for u v by simp
  from latlon_fits [OF f f f f]
  obtain c d ws1 where 1: "latlon2dlatdlon sample_constants (Val (NDArray [Fin 54, Fin 54]))
      (Val (NDArray [Fin 7, Fin 7])) (Val (NDArray [Fin 52, Fin 52]))
      (Val (NDArray [Fin 5, Fin 5])) default_warn_distance None None = Inr ((c, d), ws1)"
      "fits 2 c" "fits 2 d"
    by blast
  from latlon_fits [OF f f f f]
  obtain a b ws2 where 2: "latlon2dlatdlon sample_constants (Val (NDArray [Fin 53, Fin 53]))
      (Val (NDArray [Fin 6, Fin 6])) (Val (NDArray [Fin 52, Fin 52]))
      (Val (NDArray [Fin 5, Fin 5])) default_warn_distance None None = Inr ((a, b), ws2)"
      "fits 2 a" "fits 2 b"
    by blast
  have g: "fits 2 (list2array (Val a))" "fits 2 (list2array (Val b))"
    "fits 2 (list2array (Val c))" "fits 2 (list2array (Val d))"
    using 1 2 by simp_all
  from dlatdlon_fits [OF g f]
  obtain x y ws3 where 3: "dlatdlon2dxdy sample_constants (Val a) (Val b) (Val c) (Val d)
      (Val (NDArray [Fin 30, Fin 60])) default_warn_distance = Inr ((x, y), ws3)"
      "fits 2 x" "fits 2 y"
    by blast
  have comp: "compute_dxdy_columns sample_constants latlon_table =
      Inr ((x, y), ws1 @ ws2 @ ws3)"
    by (simp add: compute_dxdy_columns_def loc 1 2 3)
  have cols: "columns latlon_table =
      [''latS'', ''lonS'', ''latM'', ''lonM'', ''latR'', ''lonR'', ''wind_direction'']"
    by (simp add: columns_def latlon_table_def)
  have n: "nrows latlon_table = 2" "length latlon_table = 7"
    by (simp_all add: nrows_def latlon_table_def)
  from df_insert_end [of "''dy''" latlon_table 7 y] 3 n cols
  obtain cy where iy: "df_insert latlon_table 7 ''dy'' y = Inr (latlon_table @ [(''dy'', cy)])"
    by auto
  have n2: "nrows (latlon_table @ [(''dy'', cy)]) = 2"
    by (simp add: nrows_def latlon_table_def)
  have c2: "''dx'' \<notin> set (columns (latlon_table @ [(''dy'', cy)]))"
    by (simp add: columns_def latlon_table_def)
  have l2: "7 \<le> length (latlon_table @ [(''dy'', cy)])"
    by (simp add: latlon_table_def)
  have f2: "fits (nrows (latlon_table @ [(''dy'', cy)])) x"
    using 3 n2 by simp
  from df_insert_end [OF c2 l2 f2]
  obtain df2 where ix: "df_insert (latlon_table @ [(''dy'', cy)]) 7 ''dx'' x = Inr df2"
    by blast
  have "calculate_concentration_prepare_dxdy sample_constants ?p 0 =
      (?p\<lparr>plume_df := Some df2\<rparr>, ws1 @ ws2 @ ws3, None)"
    using iy ix
    by (simp add: calculate_concentration_prepare_dxdy_def new_plume_def cols comp Let_def
          eval_nat_numeral)
  then show ?thesis by blast
qed


subsection \<open>The claims about the objects\<close>




text \<open>
  Claim C8. Whenever \<^verbatim>\<open>calculate_concentration_prepare_dxdy\<close> succeeds on a plume,
  \<^verbatim>\<open>Plume.calculate_concentration\<close> raises \<^verbatim>\<open>TypeError\<close> in the next statement, with the plume
  and the warnings as the first stage left them; in no case does
  \<^verbatim>\<open>Plume.calculate_concentration\<close> end without an exception. The reason is the way the
  three later stages are called, \<^verbatim>\<open>self.method(self, verbose = verbose)\<close>: the instance takes
  the place of the parameter \<^verbatim>\<open>verbose\<close>, which the keyword then gives a second time. Each of
  the three calls raises \<^verbatim>\<open>TypeError\<close> before the body of the method runs, for every plume
  and every value of the keyword.
\<close>

theorem plume_calculate_concentration_fails:
  "(calculate_concentration_prepare_dxdy gpc self w = (self', ws, None) \<longrightarrow>
      plume_calculate_concentration gpc mp self v = (self', ws, Some TypeError))
   \<and> snd (snd (plume_calculate_concentration gpc mp self v)) \<noteq> None
   \<and> call_method calculate_concentration_prepare_tc self [Instance] [(''verbose'', x)] =
       (self, [], Some TypeError)
   \<and> call_method calculate_concentration_prepare_dispersion_constants self [Instance]
         [(''verbose'', x)] = (self, [], Some TypeError)
   \<and> call_method (calculate_concentration_get_molecular_properties mp) self [Instance]
         [(''verbose'', x)] = (self, [], Some TypeError)"
proof (intro conjI impI)
  assume "calculate_concentration_prepare_dxdy gpc self w = (self', ws, None)"
  then have "calculate_concentration_prepare_dxdy gpc self 0 = (self', ws, None)"
    using prepare_dxdy_verbose [of gpc self w 0] by simp
  then show "plume_calculate_concentration gpc mp self v = (self', ws, Some TypeError)"
    by (simp add: plume_calculate_concentration_unfold)
next
  show "snd (snd (plume_calculate_concentration gpc mp self v)) \<noteq> None"
    by (auto simp: plume_calculate_concentration_unfold split: prod.splits option.splits)
qed (rule call_extra_instance)+

theorem plume_calculate_concentration_fails_witness:
  "plume_calculate_concentration sample_constants sample_molecule_properties
     (new_plume\<lparr>plume_df := Some dxdy_table, plume_molecules := Some [''no''],
        plume_mode := Some ''nogepa''\<rparr>) 0 =
   (new_plume\<lparr>plume_df := Some dxdy_table, plume_molecules := Some [''no''],
        plume_mode := Some ''nogepa''\<rparr>, [], Some TypeError)"
proof -
  let ?p = "new_plume\<lparr>plume_df := Some dxdy_table, plume_molecules := Some [''no''],
        plume_mode := Some ''nogepa''\<rparr>"
  have "calculate_concentration_prepare_dxdy sample_constants ?p 0 = (?p, [], None)"
    by (simp add: calculate_concentration_prepare_dxdy_def new_plume_def dxdy_table_def
          columns_def)
  with plume_calculate_concentration_fails [where gpc = sample_constants and self = ?p
      and w = 0 and self' = ?p and ws = "[]" and mp = sample_molecule_properties and v = 0]
  show ?thesis by simp
qed

text \<open>
  Claim C7. When both \<^verbatim>\<open>dx\<close> and \<^verbatim>\<open>dy\<close> of a source are set, \<^verbatim>\<open>Source.calculate_dxdy\<close> leaves
  the whole object as it is, computes nothing (there is no warning, and no exception).
  When the table of a plume has both columns \<^verbatim>\<open>dx\<close> and \<^verbatim>\<open>dy\<close>,
  \<^verbatim>\<open>Plume.calculate_concentration_prepare_dxdy\<close> leaves the plume, its table included, as it
  is. As a consequence both methods are idempotent: after a call that succeeded, a second
  call changes nothing.
\<close>

theorem dxdy_present_is_noop:
  "(src_dx s \<noteq> PyNone \<and> src_dy s \<noteq> PyNone \<longrightarrow> source_calculate_dxdy gpc s v = (s, [], None))
   \<and> (plume_df self = Some df \<and> ''dx'' \<in> set (columns df) \<and> ''dy'' \<in> set (columns df) \<longrightarrow>
       calculate_concentration_prepare_dxdy gpc self v = (self, [], None))
   \<and> (source_calculate_dxdy gpc s v = (s', ws, None) \<longrightarrow>
       source_calculate_dxdy gpc s' v' = (s', [], None))
   \<and> (calculate_concentration_prepare_dxdy gpc self v = (self', ws', None) \<longrightarrow>
       calculate_concentration_prepare_dxdy gpc self' v' = (self', [], None))"
proof (intro conjI impI)
  assume "src_dx s \<noteq> PyNone \<and> src_dy s \<noteq> PyNone"
  then show "source_calculate_dxdy gpc s v = (s, [], None)"
    by (simp add: source_calculate_dxdy_present)
next
  assume "plume_df self = Some df \<and> ''dx'' \<in> set (columns df) \<and> ''dy'' \<in> set (columns df)"
  then show "calculate_concentration_prepare_dxdy gpc self v = (self, [], None)"
    by (simp add: prepare_dxdy_present)
next
  assume "source_calculate_dxdy gpc s v = (s', ws, None)"
  from source_calculate_dxdy_sets [OF this]
  show "source_calculate_dxdy gpc s' v' = (s', [], None)"
    by (simp add: source_calculate_dxdy_present)
next
  assume "calculate_concentration_prepare_dxdy gpc self v = (self', ws', None)"
  from prepare_dxdy_sets [OF this]
  show "calculate_concentration_prepare_dxdy gpc self' v' = (self', [], None)"
    by (auto simp: prepare_dxdy_present)
qed

theorem dxdy_present_is_noop_witness:
  "source_calculate_dxdy sample_constants
     (new_source\<lparr>src_dx := Scalar (Fin 1), src_dy := Scalar (Fin 2)\<rparr>) 0 =
     (new_source\<lparr>src_dx := Scalar (Fin 1), src_dy := Scalar (Fin 2)\<rparr>, [], None)
   \<and> calculate_concentration_prepare_dxdy sample_constants
       (new_plume\<lparr>plume_df := Some dxdy_table\<rparr>) 0 =
     (new_plume\<lparr>plume_df := Some dxdy_table\<rparr>, [], None)
   \<and> (\<exists>s' ws.
        source_calculate_dxdy sample_constants
          (new_source\<lparr>src_latS := Scalar (Fin 53), src_lonS := Scalar (Fin 6),
             src_latR := Scalar (Fin 52), src_lonR := Scalar (Fin 5),
             src_latM := Scalar (Fin 54), src_lonM := Scalar (Fin 7),
             src_wind_direction := Scalar (Fin 30)\<rparr>) 0 = (s', ws, None) \<and>
        source_calculate_dxdy sample_constants s' 0 = (s', [], None))
   \<and> (\<exists>p' ws.
        calculate_concentration_prepare_dxdy sample_constants
          (new_plume\<lparr>plume_df := Some latlon_table\<rparr>) 0 = (p', ws, None) \<and>
        calculate_concentration_prepare_dxdy sample_constants p' 0 = (p', [], None))"
proof -
  let ?s = "new_source\<lparr>src_latS := Scalar (Fin 53), src_lonS := Scalar (Fin 6),
             src_latR := Scalar (Fin 52), src_lonR := Scalar (Fin 5),
             src_latM := Scalar (Fin 54), src_lonM := Scalar (Fin 7),
             src_wind_direction := Scalar (Fin 30)\<rparr>"
  let ?p = "new_plume\<lparr>plume_df := Some latlon_table\<rparr>"
  from sample_source_computes obtain s' ws where
    s: "source_calculate_dxdy sample_constants ?s 0 = (s', ws, None)" by blast
  from sample_plume_computes obtain p' ws' where
    p: "calculate_concentration_prepare_dxdy sample_constants ?p 0 = (p', ws', None)" by blast
  note inst = dxdy_present_is_noop [where gpc = sample_constants and v = 0 and v' = 0]
  have a: "source_calculate_dxdy sample_constants
     (new_source\<lparr>src_dx := Scalar (Fin 1), src_dy := Scalar (Fin 2)\<rparr>) 0 =
     (new_source\<lparr>src_dx := Scalar (Fin 1), src_dy := Scalar (Fin 2)\<rparr>, [], None)"
    using inst [where s = "new_source\<lparr>src_dx := Scalar (Fin 1), src_dy := Scalar (Fin 2)\<rparr>",
        THEN conjunct1]
    by simp
  have b: "calculate_concentration_prepare_dxdy sample_constants
       (new_plume\<lparr>plume_df := Some dxdy_table\<rparr>) 0 =
     (new_plume\<lparr>plume_df := Some dxdy_table\<rparr>, [], None)"
    using inst [where self = "new_plume\<lparr>plume_df := Some dxdy_table\<rparr>" and df = dxdy_table,
        THEN conjunct2, THEN conjunct1]
    by (simp add: dxdy_table_def columns_def)
  have c: "source_calculate_dxdy sample_constants s' 0 = (s', [], None)"
    using inst [where s = ?s and s' = s' and ws = ws, THEN conjunct2, THEN conjunct2,
        THEN conjunct1] s
    by simp
  have d: "calculate_concentration_prepare_dxdy sample_constants p' 0 = (p', [], None)"
    using inst [where self = ?p and self' = p' and ws' = ws', THEN conjunct2, THEN conjunct2,
        THEN conjunct2] p
    by simp
  from a b c d s p show ?thesis by blast
qed

end
